theory Spec2Isabelle
  imports Main "HOL-Library.AList"
begin

unbundle bit_operations_syntax

section \<open>Constants and enumerations\<close>

text \<open>
  A shallow embedding of the game engine of \<^verbatim>\<open>zork_expanded.py\<close>. The source file holds the
  program twice (the second copy starts right after the call of \<^verbatim>\<open>game.start()\<close> and is
  cut off inside its object table); the first copy is the one that runs and the one modelled.
  Enumeration members that share a name across the Python enums carry a prefix here:
  \<open>V_\<close> for \<^verbatim>\<open>VerbType\<close>, \<open>OF_\<close> for \<^verbatim>\<open>ObjectFlag\<close>, \<open>RF_\<close> for \<^verbatim>\<open>RoomFlag\<close>.
\<close>

datatype Direction =
  NORTH | SOUTH | EAST | WEST | NE | NW | SE | SW | UP | DOWN | IN | OUT | LAND

datatype VerbType =
  V_TAKE | V_DROP | V_OPEN | V_CLOSE | V_LIGHT | V_EXTINGUISH | V_MOVE | V_ATTACK
| V_EXAMINE | V_READ | V_THROW | V_PUT | V_TURN | V_JUMP | V_INVENTORY | V_QUIT
| V_SAVE | V_RESTORE | V_RESTART | V_VERBOSE | V_BRIEF | V_SCORE | V_VERSION | V_LOOK
| V_WAIT | V_AGAIN | V_ENTER | V_EXIT | V_CLIMB | V_GIVE | V_DRINK | V_EAT | V_BREAK
| V_KILL | V_WAVE | V_RAISE | V_LOWER | V_TURN_ON | V_TURN_OFF | V_DIAGNOSE | V_UNLOCK
| V_LOCK | V_TIE | V_UNTIE | V_BURN | V_RING | V_WIND | V_DIG | V_FILL | V_POUR
| V_PRAY | V_PUSH

datatype ObjectFlag =
  OF_VISIBLE | OF_TAKEABLE | OF_CONTAINER | OF_OPEN | OF_CLOSED | OF_LOCKED | OF_LIGHT
| OF_READABLE | OF_DOOR | OF_TRANSPARENT | OF_WEAPON | OF_TURNNABLE | OF_TURNEDON
| OF_EDIBLE | OF_DRINKABLE | OF_TREASURE | OF_VEHICLE | OF_SACRED | OF_TOOL | OF_FLAMMABLE

fun ObjectFlag_value :: "ObjectFlag \<Rightarrow> int" where
  "ObjectFlag_value OF_VISIBLE = 0x0001"
| "ObjectFlag_value OF_TAKEABLE = 0x0002"
| "ObjectFlag_value OF_CONTAINER = 0x0008"
| "ObjectFlag_value OF_OPEN = 0x0010"
| "ObjectFlag_value OF_CLOSED = 0x0020"
| "ObjectFlag_value OF_LOCKED = 0x0040"
| "ObjectFlag_value OF_LIGHT = 0x0080"
| "ObjectFlag_value OF_READABLE = 0x0100"
| "ObjectFlag_value OF_DOOR = 0x0200"
| "ObjectFlag_value OF_TRANSPARENT = 0x0400"
| "ObjectFlag_value OF_WEAPON = 0x0800"
| "ObjectFlag_value OF_TURNNABLE = 0x1000"
| "ObjectFlag_value OF_TURNEDON = 0x2000"
| "ObjectFlag_value OF_EDIBLE = 0x4000"
| "ObjectFlag_value OF_DRINKABLE = 0x8000"
| "ObjectFlag_value OF_TREASURE = 0x10000"
| "ObjectFlag_value OF_VEHICLE = 0x20000"
| "ObjectFlag_value OF_SACRED = 0x40000"
| "ObjectFlag_value OF_TOOL = 0x80000"
| "ObjectFlag_value OF_FLAMMABLE = 0x100000"

datatype RoomFlag = RF_LIT | RF_DEATH | RF_SACRED | RF_NOPIRATE | RF_ONWATER

fun RoomFlag_value :: "RoomFlag \<Rightarrow> int" where
  "RoomFlag_value RF_LIT = 0x0001"
| "RoomFlag_value RF_DEATH = 0x0002"
| "RoomFlag_value RF_SACRED = 0x0008"
| "RoomFlag_value RF_NOPIRATE = 0x0010"
| "RoomFlag_value RF_ONWATER = 0x0020"

section \<open>The data classes\<close>

text \<open>
  Python dictionaries keep insertion order and the game iterates over its object and actor
  tables, so every dictionary is an association list: \<open>map_of\<close> reads a key,
  \<open>AList.update\<close> is item assignment (in place for a key that is present, at the end
  otherwise) and \<open>AList.delete\<close> is \<^verbatim>\<open>del\<close>. Flags are Python integers used as bit sets.
\<close>

record GameObject =
  o_id :: string
  o_name :: string
  o_description :: string
  o_examine_text :: string
  o_initial_text :: string
  o_flags :: int
  o_location :: "string option"
  o_capacity :: int
  o_size :: int
  o_value :: int

definition has_flag :: "GameObject \<Rightarrow> ObjectFlag \<Rightarrow> bool" where
  "has_flag obj flag = (o_flags obj AND ObjectFlag_value flag \<noteq> 0)"

definition set_flag :: "GameObject \<Rightarrow> ObjectFlag \<Rightarrow> bool \<Rightarrow> GameObject" where
  "set_flag obj flag v =
     (if v then obj\<lparr>o_flags := o_flags obj OR ObjectFlag_value flag\<rparr>
      else obj\<lparr>o_flags := o_flags obj AND NOT (ObjectFlag_value flag)\<rparr>)"

record Room =
  r_id :: string
  r_name :: string
  r_description :: string
  r_flags :: int
  r_exits :: "(Direction \<times> string) list"

definition room_has_flag :: "Room \<Rightarrow> RoomFlag \<Rightarrow> bool" where
  "room_has_flag room flag = (r_flags room AND RoomFlag_value flag \<noteq> 0)"

record Actor =
  a_id :: string
  a_name :: string
  a_description :: string
  a_location :: "string option"
  a_health :: int
  a_hostile :: bool
  a_active :: bool
  a_messages :: "(string \<times> string) list"

record ParsedCommand =
  verb :: "VerbType option"
  direct_object :: "string option"
  indirect_object :: "string option"
  direction :: "Direction option"
  raw_input :: string

section \<open>The seed data\<close>

text \<open>
  The tables that \<^verbatim>\<open>_init_rooms\<close>, \<^verbatim>\<open>_init_objects\<close> and \<^verbatim>\<open>_init_actors\<close> build, one
  definition per entry, in the order of the source. Fields the source leaves out have the
  defaults of the data classes.
\<close>

subsection \<open>Rooms\<close>

definition room_west_of_house :: Room where
  "room_west_of_house = \<lparr>
     r_id = ''west_of_house'',
     r_name = ''West of House'',
     r_description = ''You are standing in an open field west of a white house, with a boarded front door.'',
     r_flags = RoomFlag_value RF_LIT OR RoomFlag_value RF_NOPIRATE,
     r_exits = [(NORTH, ''north_of_house''), (SOUTH, ''south_of_house''), (WEST, ''forest_1''), (EAST, ''west_of_house'')]\<rparr>"

definition room_north_of_house :: Room where
  "room_north_of_house = \<lparr>
     r_id = ''north_of_house'',
     r_name = ''North of House'',
     r_description = ''You are facing the north side of a white house. There is no door here, and all the windows are boarded up. To the north a narrow path winds through the trees.'',
     r_flags = RoomFlag_value RF_LIT OR RoomFlag_value RF_NOPIRATE,
     r_exits = [(WEST, ''west_of_house''), (EAST, ''behind_house''), (NORTH, ''forest_path'')]\<rparr>"

definition room_behind_house :: Room where
  "room_behind_house = \<lparr>
     r_id = ''behind_house'',
     r_name = ''Behind House'',
     r_description = ''You are behind the white house. A path leads into the forest to the east. In one corner of the house there is a small window which is slightly ajar.'',
     r_flags = RoomFlag_value RF_LIT OR RoomFlag_value RF_NOPIRATE,
     r_exits = [(NORTH, ''north_of_house''), (SOUTH, ''south_of_house''), (EAST, ''clearing''), (WEST, ''kitchen''), (IN, ''kitchen'')]\<rparr>"

definition room_south_of_house :: Room where
  "room_south_of_house = \<lparr>
     r_id = ''south_of_house'',
     r_name = ''South of House'',
     r_description = ''You are facing the south side of a white house. There is no door here, and all the windows are boarded.'',
     r_flags = RoomFlag_value RF_LIT OR RoomFlag_value RF_NOPIRATE,
     r_exits = [(WEST, ''west_of_house''), (EAST, ''behind_house''), (SOUTH, ''forest_1'')]\<rparr>"

definition room_kitchen :: Room where
  "room_kitchen = \<lparr>
     r_id = ''kitchen'',
     r_name = ''Kitchen'',
     r_description = ''You are in the kitchen of the white house. A table seems to have been used recently for the preparation of food. A passage leads to the west and a dark staircase can be seen leading upward. A dark chimney leads down and to the east is a small window which is open.'',
     r_flags = RoomFlag_value RF_LIT OR RoomFlag_value RF_NOPIRATE,
     r_exits = [(EAST, ''behind_house''), (WEST, ''living_room''), (UP, ''attic''), (DOWN, ''studio''), (OUT, ''behind_house'')]\<rparr>"

definition room_living_room :: Room where
  "room_living_room = \<lparr>
     r_id = ''living_room'',
     r_name = ''Living Room'',
     r_description = ''You are in the living room. There is a doorway to the east, a wooden door with strange gothic lettering to the west, which appears to be nailed shut, a trophy case, and a large oriental rug in the center of the room.'',
     r_flags = RoomFlag_value RF_LIT OR RoomFlag_value RF_NOPIRATE,
     r_exits = [(EAST, ''kitchen''), (WEST, ''strange_passage'')]\<rparr>"

definition room_attic :: Room where
  "room_attic = \<lparr>
     r_id = ''attic'',
     r_name = ''Attic'',
     r_description = ''This is the attic. The only exit is a stairway leading down.'',
     r_flags = RoomFlag_value RF_LIT OR RoomFlag_value RF_NOPIRATE,
     r_exits = [(DOWN, ''kitchen'')]\<rparr>"

definition room_forest_1 :: Room where
  "room_forest_1 = \<lparr>
     r_id = ''forest_1'',
     r_name = ''Forest'',
     r_description = ''This is a forest, with trees in all directions. To the east, there appears to be sunlight.'',
     r_flags = RoomFlag_value RF_LIT OR RoomFlag_value RF_NOPIRATE,
     r_exits = [(NORTH, ''clearing''), (EAST, ''forest_path''), (SOUTH, ''forest_3''), (WEST, ''forest_1''), (UP, ''up_tree'')]\<rparr>"

definition room_forest_path :: Room where
  "room_forest_path = \<lparr>
     r_id = ''forest_path'',
     r_name = ''Forest Path'',
     r_description = ''This is a path winding through a dimly lit forest. The path heads north-south here. One particularly large tree with some low branches stands at the edge of the path.'',
     r_flags = RoomFlag_value RF_LIT OR RoomFlag_value RF_NOPIRATE,
     r_exits = [(SOUTH, ''north_of_house''), (NORTH, ''clearing''), (UP, ''up_tree'')]\<rparr>"

definition room_up_tree :: Room where
  "room_up_tree = \<lparr>
     r_id = ''up_tree'',
     r_name = ''Up a Tree'',
     r_description = ''You are about 10 feet above the ground nestled among some large branches. The nearest branch above you is above your reach.'',
     r_flags = RoomFlag_value RF_LIT OR RoomFlag_value RF_NOPIRATE,
     r_exits = [(DOWN, ''forest_path'')]\<rparr>"

definition room_forest_2 :: Room where
  "room_forest_2 = \<lparr>
     r_id = ''forest_2'',
     r_name = ''Forest'',
     r_description = ''This is a dimly lit forest, with large trees all around.'',
     r_flags = RoomFlag_value RF_LIT OR RoomFlag_value RF_NOPIRATE,
     r_exits = [(SOUTH, ''clearing''), (NORTH, ''clearing''), (EAST, ''canyon_view''), (WEST, ''forest_3'')]\<rparr>"

definition room_forest_3 :: Room where
  "room_forest_3 = \<lparr>
     r_id = ''forest_3'',
     r_name = ''Forest'',
     r_description = ''This is a dimly lit forest, with large trees all around.'',
     r_flags = RoomFlag_value RF_LIT OR RoomFlag_value RF_NOPIRATE,
     r_exits = [(NORTH, ''south_of_house''), (WEST, ''forest_1''), (EAST, ''forest_2''), (SOUTH, ''forest_3'')]\<rparr>"

definition room_clearing :: Room where
  "room_clearing = \<lparr>
     r_id = ''clearing'',
     r_name = ''Clearing'',
     r_description = ''You are in a clearing, with a forest surrounding you on all sides. A path leads south.'',
     r_flags = RoomFlag_value RF_LIT OR RoomFlag_value RF_NOPIRATE,
     r_exits = [(SOUTH, ''forest_path''), (NORTH, ''forest_2''), (EAST, ''canyon_view''), (WEST, ''behind_house''), (DOWN, ''grating_room'')]\<rparr>"

definition room_canyon_view :: Room where
  "room_canyon_view = \<lparr>
     r_id = ''canyon_view'',
     r_name = ''Canyon View'',
     r_description = ''You are at the top of the Great Canyon on its west side. From here there is a marvelous view of the canyon and parts of the Frigid River upstream. Across the canyon, the walls of the White Cliffs join the mighty ramparts of the Flathead Mountains to the east. Following the Canyon upstream to the north, Aragain Falls may be seen, complete with rainbow. The mighty Frigid River flows out from a great dark cavern. To the west and south can be seen an immense forest, stretching for miles around. A path leads northwest. It is possible to climb down into the canyon from here.'',
     r_flags = RoomFlag_value RF_LIT OR RoomFlag_value RF_NOPIRATE,
     r_exits = [(WEST, ''forest_2''), (DOWN, ''rocky_ledge''), (NW, ''clearing'')]\<rparr>"

definition room_rocky_ledge :: Room where
  "room_rocky_ledge = \<lparr>
     r_id = ''rocky_ledge'',
     r_name = ''Rocky Ledge'',
     r_description = ''You are on a ledge about halfway up the wall of the river canyon. You can see from here that the main flow from Aragain Falls twists along a passage which it is impossible for you to enter. Below you is the canyon bottom. Above you is more cliff, which appears unclimbable.'',
     r_flags = RoomFlag_value RF_LIT,
     r_exits = [(UP, ''canyon_view''), (DOWN, ''canyon_bottom'')]\<rparr>"

definition room_canyon_bottom :: Room where
  "room_canyon_bottom = \<lparr>
     r_id = ''canyon_bottom'',
     r_name = ''Canyon Bottom'',
     r_description = ''You are beneath the walls of the river canyon which may be climbable here. The lesser part of the runoff of Aragain Falls flows by below. To the north is a narrow path.'',
     r_flags = RoomFlag_value RF_LIT,
     r_exits = [(UP, ''rocky_ledge''), (NORTH, ''end_of_rainbow'')]\<rparr>"

definition room_end_of_rainbow :: Room where
  "room_end_of_rainbow = \<lparr>
     r_id = ''end_of_rainbow'',
     r_name = ''End of Rainbow'',
     r_description = ''You are on a small, rocky beach on the continuation of the Frigid River past the Falls. The beach is narrow due to the presence of the White Cliffs. The river canyon opens here and sunlight shines in from above. A rainbow crosses over the falls to the east and a narrow path continues to the southwest.'',
     r_flags = RoomFlag_value RF_LIT OR RoomFlag_value RF_ONWATER,
     r_exits = [(SW, ''canyon_bottom''), (EAST, ''on_the_rainbow'')]\<rparr>"

definition room_on_the_rainbow :: Room where
  "room_on_the_rainbow = \<lparr>
     r_id = ''on_the_rainbow'',
     r_name = ''On the Rainbow'',
     r_description = ''You are on top of a rainbow (I bet you never thought you would walk on a rainbow), with a magnificent view of the Falls. The rainbow travels east-west here.'',
     r_flags = RoomFlag_value RF_LIT,
     r_exits = [(WEST, ''end_of_rainbow''), (EAST, ''aragain_falls'')]\<rparr>"

definition room_aragain_falls :: Room where
  "room_aragain_falls = \<lparr>
     r_id = ''aragain_falls'',
     r_name = ''Aragain Falls'',
     r_description = ''You are at the top of Aragain Falls, an enormous waterfall with a drop of about 150 feet. The only safe way down is on the west side of the falls.'',
     r_flags = RoomFlag_value RF_LIT OR RoomFlag_value RF_ONWATER,
     r_exits = [(WEST, ''on_the_rainbow''), (UP, ''on_the_rainbow''), (DOWN, ''end_of_rainbow'')]\<rparr>"

definition room_cellar :: Room where
  "room_cellar = \<lparr>
     r_id = ''cellar'',
     r_name = ''Cellar'',
     r_description = ''You are in a dark and damp cellar with a narrow passageway leading north, and a crawlway to the south. On the west is the bottom of a steep metal ramp which is unclimbable.'',
     r_flags = 0,
     r_exits = [(NORTH, ''troll_room''), (SOUTH, ''east_of_chasm''), (WEST, ''slide_room''), (UP, ''living_room'')]\<rparr>"

definition room_troll_room :: Room where
  "room_troll_room = \<lparr>
     r_id = ''troll_room'',
     r_name = ''The Troll Room'',
     r_description = ''This is a small room with passages to the east and south and a forbidding hole leading west. Bloodstains and deep scratches (perhaps made by an axe) mar the walls.'',
     r_flags = 0,
     r_exits = [(SOUTH, ''cellar''), (EAST, ''east_west_passage''), (WEST, ''maze_1'')]\<rparr>"

definition room_east_west_passage :: Room where
  "room_east_west_passage = \<lparr>
     r_id = ''east_west_passage'',
     r_name = ''East-West Passage'',
     r_description = ''This is a narrow east-west passageway. There is a narrow stairway leading down at the north end of the room.'',
     r_flags = 0,
     r_exits = [(EAST, ''round_room''), (WEST, ''troll_room''), (NORTH, ''chasm''), (DOWN, ''chasm'')]\<rparr>"

definition room_round_room :: Room where
  "room_round_room = \<lparr>
     r_id = ''round_room'',
     r_name = ''Round Room'',
     r_description = ''This is a circular stone room with passages in all directions. Several of them have unfortunately been blocked by cave-ins.'',
     r_flags = 0,
     r_exits = [(WEST, ''east_west_passage''), (NORTH, ''north_south_passage''), (SOUTH, ''narrow_passage''), (EAST, ''loud_room''), (SE, ''engravings_cave'')]\<rparr>"

definition room_narrow_passage :: Room where
  "room_narrow_passage = \<lparr>
     r_id = ''narrow_passage'',
     r_name = ''Narrow Passage'',
     r_description = ''This is a long and narrow corridor where a long north-south passageway briefly narrows even further.'',
     r_flags = 0,
     r_exits = [(NORTH, ''round_room''), (SOUTH, ''mirror_room_south'')]\<rparr>"

definition room_mirror_room_south :: Room where
  "room_mirror_room_south = \<lparr>
     r_id = ''mirror_room_south'',
     r_name = ''Mirror Room'',
     r_description = ''You are in a large square room with tall ceilings. On the south wall is an enormous mirror which fills the entire wall. There are exits on the other three sides of the room.'',
     r_flags = 0,
     r_exits = [(NORTH, ''narrow_passage''), (WEST, ''winding_passage''), (EAST, ''cave_2'')]\<rparr>"

definition room_cave_2 :: Room where
  "room_cave_2 = \<lparr>
     r_id = ''cave_2'',
     r_name = ''Cave'',
     r_description = ''This is a tiny cave with entrances west and north, and a staircase leading down.'',
     r_flags = 0,
     r_exits = [(WEST, ''mirror_room_south''), (NORTH, ''mirror_room_north''), (DOWN, ''entrance_to_hades'')]\<rparr>"

definition room_winding_passage :: Room where
  "room_winding_passage = \<lparr>
     r_id = ''winding_passage'',
     r_name = ''Winding Passage'',
     r_description = ''This is a winding passage. It seems that there are only exits on the east and north.'',
     r_flags = 0,
     r_exits = [(NORTH, ''mirror_room_north''), (EAST, ''mirror_room_south'')]\<rparr>"

definition room_mirror_room_north :: Room where
  "room_mirror_room_north = \<lparr>
     r_id = ''mirror_room_north'',
     r_name = ''Mirror Room'',
     r_description = ''You are in a large square room with tall ceilings. On the south wall is an enormous mirror which fills the entire wall. There are exits on the other three sides of the room.'',
     r_flags = 0,
     r_exits = [(SOUTH, ''winding_passage''), (WEST, ''cold_passage''), (EAST, ''cave_1'')]\<rparr>"

definition room_cold_passage :: Room where
  "room_cold_passage = \<lparr>
     r_id = ''cold_passage'',
     r_name = ''Cold Passage'',
     r_description = ''This is a cold and damp corridor where a long east-west passageway turns into a southward path.'',
     r_flags = 0,
     r_exits = [(EAST, ''mirror_room_north''), (SOUTH, ''slide_room'')]\<rparr>"

definition room_slide_room :: Room where
  "room_slide_room = \<lparr>
     r_id = ''slide_room'',
     r_name = ''Slide Room'',
     r_description = ''This is a small chamber, which appears to have been part of a coal mine. On the south wall of the chamber the letters '' @ [CHR 0x22] @ ''Granite Wall'' @ [CHR 0x22] @ '' are etched in the rock. To the east is a long passage, and there is a steep metal slide twisting downward. To the north is a small opening.'',
     r_flags = 0,
     r_exits = [(NORTH, ''cold_passage''), (EAST, ''mine_entrance''), (DOWN, ''cellar'')]\<rparr>"

definition room_mine_entrance :: Room where
  "room_mine_entrance = \<lparr>
     r_id = ''mine_entrance'',
     r_name = ''Mine Entrance'',
     r_description = ''You are standing at the entrance of what might have been a coal mine. The shaft enters the west wall, and there is another exit on the south end of the room.'',
     r_flags = 0,
     r_exits = [(WEST, ''slide_room''), (SOUTH, ''squeaky_room'')]\<rparr>"

definition room_squeaky_room :: Room where
  "room_squeaky_room = \<lparr>
     r_id = ''squeaky_room'',
     r_name = ''Squeaky Room'',
     r_description = ''You are in a small room. Strange squeaky sounds may be heard coming from the darkness at the east end of the room.'',
     r_flags = 0,
     r_exits = [(NORTH, ''mine_entrance''), (EAST, ''bat_room'')]\<rparr>"

definition room_bat_room :: Room where
  "room_bat_room = \<lparr>
     r_id = ''bat_room'',
     r_name = ''Bat Room'',
     r_description = ''You are in a small room which has doors only to the east and west.'',
     r_flags = 0,
     r_exits = [(WEST, ''squeaky_room''), (EAST, ''shaft_room'')]\<rparr>"

definition room_shaft_room :: Room where
  "room_shaft_room = \<lparr>
     r_id = ''shaft_room'',
     r_name = ''Shaft Room'',
     r_description = ''This is a large room, in the middle of which is a small shaft descending through the floor into darkness below. To the west and the north are exits from this room. Constructed over the top of the shaft is a metal framework to which a heavy iron chain is attached.'',
     r_flags = 0,
     r_exits = [(WEST, ''bat_room''), (NORTH, ''smelly_room''), (DOWN, ''drafty_room'')]\<rparr>"

definition room_smelly_room :: Room where
  "room_smelly_room = \<lparr>
     r_id = ''smelly_room'',
     r_name = ''Smelly Room'',
     r_description = ''This is a small nondescript room. However, from the direction of a small descending staircase a foul odor can be detected. To the south is a narrow tunnel.'',
     r_flags = 0,
     r_exits = [(SOUTH, ''shaft_room''), (DOWN, ''gas_room'')]\<rparr>"

definition room_gas_room :: Room where
  "room_gas_room = \<lparr>
     r_id = ''gas_room'',
     r_name = ''Gas Room'',
     r_description = ''This is a small room which smells strongly of coal gas. There is a short climb up some stairs and a narrow tunnel leading east.'',
     r_flags = 0,
     r_exits = [(UP, ''smelly_room''), (EAST, ''coal_mine_1'')]\<rparr>"

definition room_coal_mine_1 :: Room where
  "room_coal_mine_1 = \<lparr>
     r_id = ''coal_mine_1'',
     r_name = ''Coal Mine'',
     r_description = ''This is a non-descript part of a coal mine.'',
     r_flags = 0,
     r_exits = [(WEST, ''gas_room''), (NORTH, ''coal_mine_2''), (EAST, ''coal_mine_3''), (SW, ''timber_room'')]\<rparr>"

definition room_coal_mine_2 :: Room where
  "room_coal_mine_2 = \<lparr>
     r_id = ''coal_mine_2'',
     r_name = ''Coal Mine'',
     r_description = ''This is a non-descript part of a coal mine.'',
     r_flags = 0,
     r_exits = [(SOUTH, ''coal_mine_1''), (NORTH, ''coal_mine_4''), (SE, ''coal_mine_3'')]\<rparr>"

definition room_coal_mine_3 :: Room where
  "room_coal_mine_3 = \<lparr>
     r_id = ''coal_mine_3'',
     r_name = ''Coal Mine'',
     r_description = ''This is a non-descript part of a coal mine.'',
     r_flags = 0,
     r_exits = [(WEST, ''coal_mine_1''), (EAST, ''coal_mine_4''), (SOUTH, ''ladder_top''), (NW, ''coal_mine_2'')]\<rparr>"

definition room_coal_mine_4 :: Room where
  "room_coal_mine_4 = \<lparr>
     r_id = ''coal_mine_4'',
     r_name = ''Coal Mine'',
     r_description = ''This is a non-descript part of a coal mine.'',
     r_flags = 0,
     r_exits = [(SOUTH, ''coal_mine_2''), (WEST, ''coal_mine_3''), (NORTH, ''dead_end_coal_mine'')]\<rparr>"

definition room_dead_end_coal_mine :: Room where
  "room_dead_end_coal_mine = \<lparr>
     r_id = ''dead_end_coal_mine'',
     r_name = ''Dead End'',
     r_description = ''You have come to a dead end in the mine.'',
     r_flags = 0,
     r_exits = [(SOUTH, ''coal_mine_4'')]\<rparr>"

definition room_ladder_top :: Room where
  "room_ladder_top = \<lparr>
     r_id = ''ladder_top'',
     r_name = ''Ladder Top'',
     r_description = ''This is a very small room. In the corner is a rickety wooden ladder, leading downward. It might be safe to descend. There is also a staircase leading upward.'',
     r_flags = 0,
     r_exits = [(NORTH, ''coal_mine_3''), (DOWN, ''ladder_bottom''), (UP, ''coal_mine_3'')]\<rparr>"

definition room_ladder_bottom :: Room where
  "room_ladder_bottom = \<lparr>
     r_id = ''ladder_bottom'',
     r_name = ''Ladder Bottom'',
     r_description = ''This is a rather wide room. On one side is the bottom of a narrow wooden ladder. To the west and the south are passages leaving the room.'',
     r_flags = 0,
     r_exits = [(UP, ''ladder_top''), (WEST, ''timber_room''), (SOUTH, ''dead_end_mine'')]\<rparr>"

definition room_dead_end_mine :: Room where
  "room_dead_end_mine = \<lparr>
     r_id = ''dead_end_mine'',
     r_name = ''Dead End'',
     r_description = ''You have come to a dead end in the mine.'',
     r_flags = 0,
     r_exits = [(NORTH, ''ladder_bottom'')]\<rparr>"

definition room_timber_room :: Room where
  "room_timber_room = \<lparr>
     r_id = ''timber_room'',
     r_name = ''Timber Room'',
     r_description = ''This is a long and narrow passage, which is cluttered with broken timbers. A wide passage comes from the east and turns at the west end of the room into a very narrow passageway. From the west comes a strong draft.'',
     r_flags = 0,
     r_exits = [(EAST, ''ladder_bottom''), (WEST, ''drafty_room''), (SOUTH, ''coal_mine_1'')]\<rparr>"

definition room_drafty_room :: Room where
  "room_drafty_room = \<lparr>
     r_id = ''drafty_room'',
     r_name = ''Drafty Room'',
     r_description = ''This is a small drafty room in which is the bottom of a long shaft. To the south is a passageway and to the east a very narrow passage. In the shaft can be seen a heavy iron chain.'',
     r_flags = 0,
     r_exits = [(EAST, ''timber_room''), (SOUTH, ''machine_room''), (UP, ''shaft_room'')]\<rparr>"

definition room_machine_room :: Room where
  "room_machine_room = \<lparr>
     r_id = ''machine_room'',
     r_name = ''Machine Room'',
     r_description = ''This is a large, cold room whose sole exit is to the north. In one corner there is a machine which is reminiscent of a clothes dryer. On its face is a switch which is labelled '' @ [CHR 0x22] @ ''START'' @ [CHR 0x22] @ ''. The switch does not appear to be manipulatable by any human hand (unless the fingers are about 1/16 by 1/4 inch). On the front of the machine is a large lid, which is closed.'',
     r_flags = 0,
     r_exits = [(NORTH, ''drafty_room'')]\<rparr>"

definition room_cave_1 :: Room where
  "room_cave_1 = \<lparr>
     r_id = ''cave_1'',
     r_name = ''Cave'',
     r_description = ''This is a tiny cave with entrances west and north, and a dark, forbidding staircase leading down.'',
     r_flags = 0,
     r_exits = [(WEST, ''mirror_room_north''), (NORTH, ''twisting_passage''), (DOWN, ''entrance_to_hades'')]\<rparr>"

definition room_twisting_passage :: Room where
  "room_twisting_passage = \<lparr>
     r_id = ''twisting_passage'',
     r_name = ''Twisting Passage'',
     r_description = ''This is a winding passage. It seems that there are only exits on the east and north.'',
     r_flags = 0,
     r_exits = [(NORTH, ''mirror_room_north''), (SOUTH, ''cave_1'')]\<rparr>"

definition room_north_south_passage :: Room where
  "room_north_south_passage = \<lparr>
     r_id = ''north_south_passage'',
     r_name = ''North-South Passage'',
     r_description = ''This is a high north-south passage, which forks to the northeast.'',
     r_flags = 0,
     r_exits = [(NORTH, ''chasm''), (NE, ''deep_canyon''), (SOUTH, ''round_room'')]\<rparr>"

definition room_chasm :: Room where
  "room_chasm = \<lparr>
     r_id = ''chasm'',
     r_name = ''Chasm'',
     r_description = ''A chasm runs southwest to northeast and the path follows it. You are on the south side of the chasm, where a crack opens into a passage.'',
     r_flags = 0,
     r_exits = [(NE, ''reservoir_south''), (SW, ''east_west_passage''), (SOUTH, ''north_south_passage''), (DOWN, ''north_south_passage'')]\<rparr>"

definition room_deep_canyon :: Room where
  "room_deep_canyon = \<lparr>
     r_id = ''deep_canyon'',
     r_name = ''Deep Canyon'',
     r_description = ''You are on the south edge of a deep canyon. Passages lead off to the east, northwest and southwest. A stairway leads down. You can hear the sound of flowing water from below.'',
     r_flags = 0,
     r_exits = [(SW, ''north_south_passage''), (EAST, ''dam''), (NW, ''reservoir_south''), (DOWN, ''loud_room'')]\<rparr>"

definition room_loud_room :: Room where
  "room_loud_room = \<lparr>
     r_id = ''loud_room'',
     r_name = ''Loud Room'',
     r_description = ''This is a large room with a ceiling which cannot be detected from the ground. There is a narrow passage from east to west and a stone stairway leading upward. The room is deafeningly loud with an undetermined rushing sound. The sound seems to reverberate from all of the walls, making it difficult to determine its origin (although it is louder towards the west).'',
     r_flags = 0,
     r_exits = [(WEST, ''round_room''), (UP, ''deep_canyon''), (EAST, ''damp_cave'')]\<rparr>"

definition room_damp_cave :: Room where
  "room_damp_cave = \<lparr>
     r_id = ''damp_cave'',
     r_name = ''Damp Cave'',
     r_description = ''This cave has exits to the west and east, and narrows to a crack toward the south. The earth is particularly damp here.'',
     r_flags = 0,
     r_exits = [(WEST, ''loud_room''), (EAST, ''white_cliffs_beach_north'')]\<rparr>"

definition room_white_cliffs_beach_north :: Room where
  "room_white_cliffs_beach_north = \<lparr>
     r_id = ''white_cliffs_beach_north'',
     r_name = ''White Cliffs Beach'',
     r_description = ''You are on a narrow strip of beach which runs along the base of the White Cliffs. There is a narrow path heading south along the Cliffs and a tight passage leading west into the cliffs themselves.'',
     r_flags = RoomFlag_value RF_ONWATER,
     r_exits = [(WEST, ''damp_cave''), (SOUTH, ''white_cliffs_beach_south'')]\<rparr>"

definition room_white_cliffs_beach_south :: Room where
  "room_white_cliffs_beach_south = \<lparr>
     r_id = ''white_cliffs_beach_south'',
     r_name = ''White Cliffs Beach'',
     r_description = ''You are on a rocky, narrow strip of beach beside the Cliffs. A narrow path leads north along the shore.'',
     r_flags = RoomFlag_value RF_ONWATER,
     r_exits = [(NORTH, ''white_cliffs_beach_north'')]\<rparr>"

definition room_dam :: Room where
  "room_dam = \<lparr>
     r_id = ''dam'',
     r_name = ''Dam'',
     r_description = ''You are standing on the top of the Flood Control Dam #3, which was built in 783 GUE to harness the mighty Frigid River. The dam controls a sluice gate by which water is passed downstream. The sluice gate can be controlled by a panel of buttons on the dam. A ladder leads down to the base of the dam.'',
     r_flags = RoomFlag_value RF_LIT,
     r_exits = [(WEST, ''deep_canyon''), (NORTH, ''dam_lobby''), (EAST, ''dam_base''), (DOWN, ''dam_base'')]\<rparr>"

definition room_dam_lobby :: Room where
  "room_dam_lobby = \<lparr>
     r_id = ''dam_lobby'',
     r_name = ''Dam Lobby'',
     r_description = ''This room appears to have been the waiting room for groups touring the dam. There are open doorways here to the north and east marked '' @ [CHR 0x22] @ ''Private'' @ [CHR 0x22] @ '', though the doors are open, and an exit to the south.'',
     r_flags = 0,
     r_exits = [(SOUTH, ''dam''), (NORTH, ''maintenance_room''), (EAST, ''maintenance_room'')]\<rparr>"

definition room_maintenance_room :: Room where
  "room_maintenance_room = \<lparr>
     r_id = ''maintenance_room'',
     r_name = ''Maintenance Room'',
     r_description = ''This is what appears to have been the maintenance room for Flood Control Dam #3. Apparently, it has been many years since its last use. Most of the equipment here is in a state of disrepair. The only exit is to the south.'',
     r_flags = 0,
     r_exits = [(SOUTH, ''dam_lobby'')]\<rparr>"

definition room_dam_base :: Room where
  "room_dam_base = \<lparr>
     r_id = ''dam_base'',
     r_name = ''Dam Base'',
     r_description = ''You are at the base of Flood Control Dam #3, which looms above you and to the north. The River Frigid is flowing by here. Along the river are the White Cliffs which seem to form giant walls stretching from north to south along the shores of the river as it winds its way downstream.'',
     r_flags = RoomFlag_value RF_LIT OR RoomFlag_value RF_ONWATER,
     r_exits = [(NORTH, ''dam''), (UP, ''dam'')]\<rparr>"

definition room_reservoir_south :: Room where
  "room_reservoir_south = \<lparr>
     r_id = ''reservoir_south'',
     r_name = ''Reservoir South'',
     r_description = ''You are in a long room on the south shore of a large lake, far too deep and wide for crossing. There is a path along the stream to the east or west, a steep pathway climbing southwest along the edge of a chasm, and a path leading into a canyon to the southeast.'',
     r_flags = 0,
     r_exits = [(SE, ''deep_canyon''), (SW, ''chasm''), (WEST, ''stream_view''), (EAST, ''dam''), (NORTH, ''reservoir'')]\<rparr>"

definition room_reservoir :: Room where
  "room_reservoir = \<lparr>
     r_id = ''reservoir'',
     r_name = ''Reservoir'',
     r_description = ''You are on the lake. Beaches can be seen north and south. Upstream a small stream enters the lake through a narrow cleft in the rocks. The dam can be seen downstream.'',
     r_flags = RoomFlag_value RF_ONWATER,
     r_exits = [(SOUTH, ''reservoir_south''), (NORTH, ''reservoir_north'')]\<rparr>"

definition room_reservoir_north :: Room where
  "room_reservoir_north = \<lparr>
     r_id = ''reservoir_north'',
     r_name = ''Reservoir North'',
     r_description = ''You are in a large cavernous room, north of a large lake. There is a slimy stairway leaving the room to the north.'',
     r_flags = 0,
     r_exits = [(SOUTH, ''reservoir''), (NORTH, ''atlantis_room'')]\<rparr>"

definition room_stream_view :: Room where
  "room_stream_view = \<lparr>
     r_id = ''stream_view'',
     r_name = ''Stream View'',
     r_description = ''You are standing on a path beside a gently flowing stream. The path follows the stream, which flows from west to east.'',
     r_flags = 0,
     r_exits = [(EAST, ''reservoir_south''), (WEST, ''stream'')]\<rparr>"

definition room_stream :: Room where
  "room_stream = \<lparr>
     r_id = ''stream'',
     r_name = ''Stream'',
     r_description = ''You are on the gently flowing stream. The upstream route is too narrow to navigate, and the downstream route is blocked by a dam.'',
     r_flags = RoomFlag_value RF_ONWATER,
     r_exits = [(EAST, ''reservoir''), (WEST, ''sluice_gate'')]\<rparr>"

definition room_atlantis_room :: Room where
  "room_atlantis_room = \<lparr>
     r_id = ''atlantis_room'',
     r_name = ''Atlantis Room'',
     r_description = ''This is an ancient room, long buried beneath the earth. The room is bare, but the walls are covered with decorations of great archaeological value. An exit lies to the south, and a staircase leads up.'',
     r_flags = 0,
     r_exits = [(SOUTH, ''reservoir_north''), (UP, ''cave_2'')]\<rparr>"

definition room_maze_1 :: Room where
  "room_maze_1 = \<lparr>
     r_id = ''maze_1'',
     r_name = ''Maze'',
     r_description = ''This is part of a maze of twisty little passages, all alike.'',
     r_flags = 0,
     r_exits = [(WEST, ''troll_room''), (NORTH, ''maze_1''), (SOUTH, ''maze_2''), (EAST, ''maze_4'')]\<rparr>"

definition room_maze_2 :: Room where
  "room_maze_2 = \<lparr>
     r_id = ''maze_2'',
     r_name = ''Maze'',
     r_description = ''This is part of a maze of twisty little passages, all alike.'',
     r_flags = 0,
     r_exits = [(SOUTH, ''maze_1''), (NORTH, ''maze_4''), (EAST, ''maze_3'')]\<rparr>"

definition room_maze_3 :: Room where
  "room_maze_3 = \<lparr>
     r_id = ''maze_3'',
     r_name = ''Maze'',
     r_description = ''This is part of a maze of twisty little passages, all alike.'',
     r_flags = 0,
     r_exits = [(WEST, ''maze_2''), (NORTH, ''maze_4''), (UP, ''maze_5'')]\<rparr>"

definition room_maze_4 :: Room where
  "room_maze_4 = \<lparr>
     r_id = ''maze_4'',
     r_name = ''Maze'',
     r_description = ''This is part of a maze of twisty little passages, all alike. A skeleton, probably the remains of a luckless adventurer, lies here.'',
     r_flags = 0,
     r_exits = [(WEST, ''maze_1''), (NORTH, ''maze_2''), (SOUTH, ''maze_3'')]\<rparr>"

definition room_maze_5 :: Room where
  "room_maze_5 = \<lparr>
     r_id = ''maze_5'',
     r_name = ''Maze'',
     r_description = ''This is part of a maze of twisty little passages, all alike.'',
     r_flags = 0,
     r_exits = [(EAST, ''dead_end_1''), (NORTH, ''maze_6''), (DOWN, ''maze_3'')]\<rparr>"

definition room_maze_6 :: Room where
  "room_maze_6 = \<lparr>
     r_id = ''maze_6'',
     r_name = ''Maze'',
     r_description = ''This is part of a maze of twisty little passages, all alike.'',
     r_flags = 0,
     r_exits = [(DOWN, ''maze_7''), (EAST, ''maze_7''), (WEST, ''maze_7''), (UP, ''maze_9'')]\<rparr>"

definition room_maze_7 :: Room where
  "room_maze_7 = \<lparr>
     r_id = ''maze_7'',
     r_name = ''Maze'',
     r_description = ''This is part of a maze of twisty little passages, all alike.'',
     r_flags = 0,
     r_exits = [(UP, ''maze_14''), (WEST, ''maze_6''), (NE, ''dead_end_1''), (EAST, ''maze_8''), (SOUTH, ''maze_15'')]\<rparr>"

definition room_maze_8 :: Room where
  "room_maze_8 = \<lparr>
     r_id = ''maze_8'',
     r_name = ''Maze'',
     r_description = ''This is part of a maze of twisty little passages, all alike.'',
     r_flags = 0,
     r_exits = [(NE, ''maze_7''), (WEST, ''maze_8''), (SE, ''dead_end_2'')]\<rparr>"

definition room_maze_9 :: Room where
  "room_maze_9 = \<lparr>
     r_id = ''maze_9'',
     r_name = ''Maze'',
     r_description = ''This is part of a maze of twisty little passages, all alike.'',
     r_flags = 0,
     r_exits = [(DOWN, ''maze_6''), (SOUTH, ''maze_10''), (EAST, ''maze_12''), (WEST, ''maze_13''), (NORTH, ''maze_11'')]\<rparr>"

definition room_maze_10 :: Room where
  "room_maze_10 = \<lparr>
     r_id = ''maze_10'',
     r_name = ''Maze'',
     r_description = ''This is part of a maze of twisty little passages, all alike.'',
     r_flags = 0,
     r_exits = [(EAST, ''maze_9''), (WEST, ''maze_13''), (UP, ''maze_5'')]\<rparr>"

definition room_maze_11 :: Room where
  "room_maze_11 = \<lparr>
     r_id = ''maze_11'',
     r_name = ''Maze'',
     r_description = ''This is part of a maze of twisty little passages, all alike.'',
     r_flags = 0,
     r_exits = [(DOWN, ''maze_12''), (SW, ''grating_room''), (EAST, ''maze_13''), (WEST, ''maze_11''), (UP, ''maze_9'')]\<rparr>"

definition room_maze_12 :: Room where
  "room_maze_12 = \<lparr>
     r_id = ''maze_12'',
     r_name = ''Maze'',
     r_description = ''This is part of a maze of twisty little passages, all alike.'',
     r_flags = 0,
     r_exits = [(UP, ''maze_11''), (SW, ''maze_5''), (EAST, ''maze_9''), (DOWN, ''dead_end_1''), (NORTH, ''maze_13'')]\<rparr>"

definition room_maze_13 :: Room where
  "room_maze_13 = \<lparr>
     r_id = ''maze_13'',
     r_name = ''Maze'',
     r_description = ''This is part of a maze of twisty little passages, all alike.'',
     r_flags = 0,
     r_exits = [(DOWN, ''maze_12''), (WEST, ''maze_11''), (NE, ''grating_room''), (SOUTH, ''maze_10''), (EAST, ''maze_9'')]\<rparr>"

definition room_maze_14 :: Room where
  "room_maze_14 = \<lparr>
     r_id = ''maze_14'',
     r_name = ''Maze'',
     r_description = ''This is part of a maze of twisty little passages, all alike.'',
     r_flags = 0,
     r_exits = [(WEST, ''maze_15''), (NE, ''maze_7''), (NW, ''maze_15'')]\<rparr>"

definition room_maze_15 :: Room where
  "room_maze_15 = \<lparr>
     r_id = ''maze_15'',
     r_name = ''Maze'',
     r_description = ''This is part of a maze of twisty little passages, all alike.'',
     r_flags = 0,
     r_exits = [(WEST, ''maze_14''), (SOUTH, ''cyclops_room''), (NE, ''maze_7'')]\<rparr>"

definition room_dead_end_1 :: Room where
  "room_dead_end_1 = \<lparr>
     r_id = ''dead_end_1'',
     r_name = ''Dead End'',
     r_description = ''You have come to a dead end in the maze.'',
     r_flags = 0,
     r_exits = [(SOUTH, ''maze_11'')]\<rparr>"

definition room_dead_end_2 :: Room where
  "room_dead_end_2 = \<lparr>
     r_id = ''dead_end_2'',
     r_name = ''Dead End'',
     r_description = ''You have come to a dead end in the maze.'',
     r_flags = 0,
     r_exits = [(NW, ''maze_8'')]\<rparr>"

definition room_grating_room :: Room where
  "room_grating_room = \<lparr>
     r_id = ''grating_room'',
     r_name = ''Grating Room'',
     r_description = ''You are in a small room near the maze. There are twisty passages in the immediate vicinity. Above you is a grating locked with a skull-and-crossbones lock.'',
     r_flags = 0,
     r_exits = [(SW, ''maze_11''), (NE, ''maze_13''), (UP, ''clearing'')]\<rparr>"

definition room_cyclops_room :: Room where
  "room_cyclops_room = \<lparr>
     r_id = ''cyclops_room'',
     r_name = ''Cyclops Room'',
     r_description = ''This room has an exit on the west side, and a staircase leading up. A cyclops, who looks prepared to eat horses (much less mere adventurers), blocks the staircase. From his state of health, and the bloodstains on the walls, you gather that he is not very friendly, though he likes people.'',
     r_flags = 0,
     r_exits = [(WEST, ''maze_15''), (UP, ''treasure_room'')]\<rparr>"

definition room_treasure_room :: Room where
  "room_treasure_room = \<lparr>
     r_id = ''treasure_room'',
     r_name = ''Treasure Room'',
     r_description = ''This is a large room, whose north wall is solid granite. A number of discarded bags, which crumble at your touch, are scattered about on the floor. There is an exit down and what appears to be a chimney in the east corner of the room.'',
     r_flags = 0,
     r_exits = [(DOWN, ''cyclops_room''), (EAST, ''strange_passage'')]\<rparr>"

definition room_strange_passage :: Room where
  "room_strange_passage = \<lparr>
     r_id = ''strange_passage'',
     r_name = ''Strange Passage'',
     r_description = ''This is a long passage. To the west is one entrance. On the east there is an old wooden door, with a large opening in it (about cyclops sized).'',
     r_flags = 0,
     r_exits = [(WEST, ''treasure_room''), (EAST, ''living_room'')]\<rparr>"

definition room_east_of_chasm :: Room where
  "room_east_of_chasm = \<lparr>
     r_id = ''east_of_chasm'',
     r_name = ''East of Chasm'',
     r_description = ''You are on the east edge of a chasm, the bottom of which cannot be seen. A narrow passage goes north, and the path you are on continues to the east.'',
     r_flags = 0,
     r_exits = [(NORTH, ''cellar''), (EAST, ''gallery'')]\<rparr>"

definition room_gallery :: Room where
  "room_gallery = \<lparr>
     r_id = ''gallery'',
     r_name = ''Gallery'',
     r_description = ''This is an art gallery. Most of the paintings have been stolen by vandals with exceptional taste. The vandals left through the north, south, east, or west exit.'',
     r_flags = 0,
     r_exits = [(NORTH, ''studio''), (SOUTH, ''east_of_chasm''), (EAST, ''studio''), (WEST, ''east_of_chasm'')]\<rparr>"

definition room_studio :: Room where
  "room_studio = \<lparr>
     r_id = ''studio'',
     r_name = ''Studio'',
     r_description = ''This appears to have been an artist's studio. The walls and floors are splattered with paints of 69 different colors. Strangely enough, nothing of value is hanging here. At the north and northwest of the room are small doors.'',
     r_flags = 0,
     r_exits = [(SOUTH, ''gallery''), (NORTH, ''gallery''), (UP, ''kitchen'')]\<rparr>"

definition room_engravings_cave :: Room where
  "room_engravings_cave = \<lparr>
     r_id = ''engravings_cave'',
     r_name = ''Engravings Cave'',
     r_description = ''You have entered a low cave with passages leading northwest and east. There are old engravings on the walls here.'',
     r_flags = 0,
     r_exits = [(NW, ''round_room''), (EAST, ''dome_room'')]\<rparr>"

definition room_dome_room :: Room where
  "room_dome_room = \<lparr>
     r_id = ''dome_room'',
     r_name = ''Dome Room'',
     r_description = ''You are at the periphery of a large dome, which forms the ceiling of another room below. Protecting you from a precipitous drop is a wooden railing which circles the dome.'',
     r_flags = 0,
     r_exits = [(WEST, ''engravings_cave''), (DOWN, ''torch_room'')]\<rparr>"

definition room_torch_room :: Room where
  "room_torch_room = \<lparr>
     r_id = ''torch_room'',
     r_name = ''Torch Room'',
     r_description = ''This is a large room with a prominent doorway leading to a down staircase. Above you is a large dome. Up around the edge of the dome (20 feet up) is a wooden railing. In the center of the room sits a white marble pedestal.'',
     r_flags = 0,
     r_exits = [(SOUTH, ''temple''), (DOWN, ''north_temple''), (UP, ''dome_room'')]\<rparr>"

definition room_temple :: Room where
  "room_temple = \<lparr>
     r_id = ''temple'',
     r_name = ''Temple'',
     r_description = ''This is the north end of a large temple. On the east wall is an ancient inscription, probably a prayer in a long-forgotten language. Below the prayer is a staircase leading down. The west wall is solid granite. The exit to the north end of the temple is through huge marble pillars.'',
     r_flags = 0,
     r_exits = [(NORTH, ''torch_room''), (EAST, ''egyptian_room''), (DOWN, ''egyptian_room''), (SOUTH, ''altar'')]\<rparr>"

definition room_altar :: Room where
  "room_altar = \<lparr>
     r_id = ''altar'',
     r_name = ''Altar'',
     r_description = ''This is the south end of a large temple. In front of you is what appears to be an altar. In one corner is a small hole in the floor which leads into darkness. You probably could not get back up it.'',
     r_flags = 0,
     r_exits = [(NORTH, ''temple''), (DOWN, ''cave_1'')]\<rparr>"

definition room_egyptian_room :: Room where
  "room_egyptian_room = \<lparr>
     r_id = ''egyptian_room'',
     r_name = ''Egyptian Room'',
     r_description = ''This is a room which looks like an Egyptian tomb. There is an ascending staircase to the west.'',
     r_flags = 0,
     r_exits = [(WEST, ''temple''), (UP, ''temple'')]\<rparr>"

definition room_north_temple :: Room where
  "room_north_temple = \<lparr>
     r_id = ''north_temple'',
     r_name = ''North Temple'',
     r_description = ''This is a room of large proportions filled with religious objects, paintings, and a digital clock which has stopped. There is a door to the west and a staircase leading up.'',
     r_flags = 0,
     r_exits = [(UP, ''torch_room''), (WEST, ''entrance_to_hades''), (SOUTH, ''south_temple'')]\<rparr>"

definition room_south_temple :: Room where
  "room_south_temple = \<lparr>
     r_id = ''south_temple'',
     r_name = ''South Temple'',
     r_description = ''This is the south end of a large temple. There is a door to the west, and a staircase leading up. The door is barred from the other side.'',
     r_flags = 0,
     r_exits = [(NORTH, ''north_temple''), (UP, ''treasure_room''), (WEST, ''south_temple'')]\<rparr>"

definition room_entrance_to_hades :: Room where
  "room_entrance_to_hades = \<lparr>
     r_id = ''entrance_to_hades'',
     r_name = ''Entrance to Hades'',
     r_description = ''You are outside a large gate, on which is inscribed:'' @ [CHR 0x0A] @ [CHR 0x0A] @ [CHR 0x22] @ ''Abandon every hope, all ye who enter here!'' @ [CHR 0x22] @ [CHR 0x0A] @ [CHR 0x0A] @ ''The gate is open; through it you can see a desolation, with a pile of mangled bodies in one corner. Thousands of voices, lamenting some hideous fate, can be heard. The way through the gate is barred by evil spirits, who jeer at your attempts to pass.'',
     r_flags = 0,
     r_exits = [(NORTH, ''cave_1''), (UP, ''cave_2''), (SOUTH, ''land_of_the_dead''), (EAST, ''north_temple'')]\<rparr>"

definition room_land_of_the_dead :: Room where
  "room_land_of_the_dead = \<lparr>
     r_id = ''land_of_the_dead'',
     r_name = ''Land of the Living Dead'',
     r_description = ''You have entered the Land of the Living Dead. Thousands of lost souls can be heard weeping and moaning. In the corner are stacked the remains of dozens of previous adventurers less fortunate than yourself. A passage exits to the north.'',
     r_flags = 0,
     r_exits = [(NORTH, ''entrance_to_hades'')]\<rparr>"

definition init_rooms :: "(string \<times> Room) list" where
  "init_rooms = [
     (''west_of_house'', room_west_of_house), (''north_of_house'', room_north_of_house), (''behind_house'', room_behind_house),
     (''south_of_house'', room_south_of_house), (''kitchen'', room_kitchen), (''living_room'', room_living_room),
     (''attic'', room_attic), (''forest_1'', room_forest_1), (''forest_path'', room_forest_path),
     (''up_tree'', room_up_tree), (''forest_2'', room_forest_2), (''forest_3'', room_forest_3),
     (''clearing'', room_clearing), (''canyon_view'', room_canyon_view), (''rocky_ledge'', room_rocky_ledge),
     (''canyon_bottom'', room_canyon_bottom), (''end_of_rainbow'', room_end_of_rainbow), (''on_the_rainbow'', room_on_the_rainbow),
     (''aragain_falls'', room_aragain_falls), (''cellar'', room_cellar), (''troll_room'', room_troll_room),
     (''east_west_passage'', room_east_west_passage), (''round_room'', room_round_room), (''narrow_passage'', room_narrow_passage),
     (''mirror_room_south'', room_mirror_room_south), (''cave_2'', room_cave_2), (''winding_passage'', room_winding_passage),
     (''mirror_room_north'', room_mirror_room_north), (''cold_passage'', room_cold_passage), (''slide_room'', room_slide_room),
     (''mine_entrance'', room_mine_entrance), (''squeaky_room'', room_squeaky_room), (''bat_room'', room_bat_room),
     (''shaft_room'', room_shaft_room), (''smelly_room'', room_smelly_room), (''gas_room'', room_gas_room),
     (''coal_mine_1'', room_coal_mine_1), (''coal_mine_2'', room_coal_mine_2), (''coal_mine_3'', room_coal_mine_3),
     (''coal_mine_4'', room_coal_mine_4), (''dead_end_coal_mine'', room_dead_end_coal_mine), (''ladder_top'', room_ladder_top),
     (''ladder_bottom'', room_ladder_bottom), (''dead_end_mine'', room_dead_end_mine), (''timber_room'', room_timber_room),
     (''drafty_room'', room_drafty_room), (''machine_room'', room_machine_room), (''cave_1'', room_cave_1),
     (''twisting_passage'', room_twisting_passage), (''north_south_passage'', room_north_south_passage), (''chasm'', room_chasm),
     (''deep_canyon'', room_deep_canyon), (''loud_room'', room_loud_room), (''damp_cave'', room_damp_cave),
     (''white_cliffs_beach_north'', room_white_cliffs_beach_north), (''white_cliffs_beach_south'', room_white_cliffs_beach_south), (''dam'', room_dam),
     (''dam_lobby'', room_dam_lobby), (''maintenance_room'', room_maintenance_room), (''dam_base'', room_dam_base),
     (''reservoir_south'', room_reservoir_south), (''reservoir'', room_reservoir), (''reservoir_north'', room_reservoir_north),
     (''stream_view'', room_stream_view), (''stream'', room_stream), (''atlantis_room'', room_atlantis_room),
     (''maze_1'', room_maze_1), (''maze_2'', room_maze_2), (''maze_3'', room_maze_3),
     (''maze_4'', room_maze_4), (''maze_5'', room_maze_5), (''maze_6'', room_maze_6),
     (''maze_7'', room_maze_7), (''maze_8'', room_maze_8), (''maze_9'', room_maze_9),
     (''maze_10'', room_maze_10), (''maze_11'', room_maze_11), (''maze_12'', room_maze_12),
     (''maze_13'', room_maze_13), (''maze_14'', room_maze_14), (''maze_15'', room_maze_15),
     (''dead_end_1'', room_dead_end_1), (''dead_end_2'', room_dead_end_2), (''grating_room'', room_grating_room),
     (''cyclops_room'', room_cyclops_room), (''treasure_room'', room_treasure_room), (''strange_passage'', room_strange_passage),
     (''east_of_chasm'', room_east_of_chasm), (''gallery'', room_gallery), (''studio'', room_studio),
     (''engravings_cave'', room_engravings_cave), (''dome_room'', room_dome_room), (''torch_room'', room_torch_room),
     (''temple'', room_temple), (''altar'', room_altar), (''egyptian_room'', room_egyptian_room),
     (''north_temple'', room_north_temple), (''south_temple'', room_south_temple), (''entrance_to_hades'', room_entrance_to_hades),
     (''land_of_the_dead'', room_land_of_the_dead)]"

subsection \<open>Objects\<close>

definition object_mailbox :: GameObject where
  "object_mailbox = \<lparr>
     o_id = ''mailbox'',
     o_name = ''mailbox'',
     o_description = ''small mailbox'',
     o_examine_text = ''It's a small mailbox.'',
     o_initial_text = '''',
     o_flags = ObjectFlag_value OF_CONTAINER OR ObjectFlag_value OF_CLOSED,
     o_location = Some ''west_of_house'',
     o_capacity = 0,
     o_size = 0,
     o_value = 0\<rparr>"

definition object_leaflet :: GameObject where
  "object_leaflet = \<lparr>
     o_id = ''leaflet'',
     o_name = ''leaflet'',
     o_description = ''leaflet'',
     o_examine_text = [CHR 0x22] @ ''WELCOME TO ZORK!'' @ [CHR 0x0A] @ [CHR 0x0A] @ ''ZORK is a game of adventure, danger, and low cunning. In it you will explore some of the most amazing territory ever seen by mortals. No computer should be without one!'' @ [CHR 0x22],
     o_initial_text = '''',
     o_flags = ObjectFlag_value OF_TAKEABLE OR ObjectFlag_value OF_READABLE,
     o_location = Some ''mailbox'',
     o_capacity = 0,
     o_size = 1,
     o_value = 0\<rparr>"

definition object_mat :: GameObject where
  "object_mat = \<lparr>
     o_id = ''mat'',
     o_name = ''mat'',
     o_description = ''welcome mat'',
     o_examine_text = ''Welcome to Zork!'',
     o_initial_text = ''A rubber mat saying 'Welcome to Zork!' lies by the door.'',
     o_flags = ObjectFlag_value OF_TAKEABLE OR ObjectFlag_value OF_READABLE,
     o_location = Some ''west_of_house'',
     o_capacity = 0,
     o_size = 2,
     o_value = 0\<rparr>"

definition object_lamp :: GameObject where
  "object_lamp = \<lparr>
     o_id = ''lamp'',
     o_name = ''lamp'',
     o_description = ''brass lantern'',
     o_examine_text = ''It is a shiny brass lamp. It is not currently lit.'',
     o_initial_text = '''',
     o_flags = ObjectFlag_value OF_TAKEABLE OR ObjectFlag_value OF_TURNNABLE,
     o_location = Some ''living_room'',
     o_capacity = 0,
     o_size = 3,
     o_value = 0\<rparr>"

definition object_torch :: GameObject where
  "object_torch = \<lparr>
     o_id = ''torch'',
     o_name = ''torch'',
     o_description = ''ivory torch'',
     o_examine_text = ''The torch is ivory-colored, inlaid with gold.'',
     o_initial_text = ''Sitting on the pedestal is a flaming torch, made of ivory.'',
     o_flags = ObjectFlag_value OF_TAKEABLE OR ObjectFlag_value OF_LIGHT OR ObjectFlag_value OF_TURNEDON OR ObjectFlag_value OF_FLAMMABLE OR ObjectFlag_value OF_TREASURE,
     o_location = Some ''torch_room'',
     o_capacity = 0,
     o_size = 2,
     o_value = 14\<rparr>"

definition object_candles :: GameObject where
  "object_candles = \<lparr>
     o_id = ''candles'',
     o_name = ''candles'',
     o_description = ''pair of candles'',
     o_examine_text = ''The candles are not lit.'',
     o_initial_text = '''',
     o_flags = ObjectFlag_value OF_TAKEABLE OR ObjectFlag_value OF_FLAMMABLE,
     o_location = Some ''altar'',
     o_capacity = 0,
     o_size = 2,
     o_value = 0\<rparr>"

definition object_matchbook :: GameObject where
  "object_matchbook = \<lparr>
     o_id = ''matchbook'',
     o_name = ''matchbook'',
     o_description = ''matchbook'',
     o_examine_text = ''The matchbook is from the Borphee Grill. You have 5 matches.'',
     o_initial_text = '''',
     o_flags = ObjectFlag_value OF_TAKEABLE OR ObjectFlag_value OF_READABLE,
     o_location = Some ''dam_lobby'',
     o_capacity = 0,
     o_size = 1,
     o_value = 0\<rparr>"

definition object_sword :: GameObject where
  "object_sword = \<lparr>
     o_id = ''sword'',
     o_name = ''sword'',
     o_description = ''elvish sword'',
     o_examine_text = ''It's an elvish sword of great antiquity. It glows with a faint blue glow.'',
     o_initial_text = '''',
     o_flags = ObjectFlag_value OF_TAKEABLE OR ObjectFlag_value OF_WEAPON,
     o_location = Some ''living_room'',
     o_capacity = 0,
     o_size = 3,
     o_value = 0\<rparr>"

definition object_knife :: GameObject where
  "object_knife = \<lparr>
     o_id = ''knife'',
     o_name = ''knife'',
     o_description = ''nasty knife'',
     o_examine_text = ''It's a nasty-looking knife.'',
     o_initial_text = '''',
     o_flags = ObjectFlag_value OF_TAKEABLE OR ObjectFlag_value OF_WEAPON,
     o_location = Some ''attic'',
     o_capacity = 0,
     o_size = 1,
     o_value = 0\<rparr>"

definition object_axe :: GameObject where
  "object_axe = \<lparr>
     o_id = ''axe'',
     o_name = ''axe'',
     o_description = ''bloody axe'',
     o_examine_text = ''It's a bloody axe.'',
     o_initial_text = '''',
     o_flags = ObjectFlag_value OF_TAKEABLE OR ObjectFlag_value OF_WEAPON,
     o_location = None,
     o_capacity = 0,
     o_size = 3,
     o_value = 0\<rparr>"

definition object_stiletto :: GameObject where
  "object_stiletto = \<lparr>
     o_id = ''stiletto'',
     o_name = ''stiletto'',
     o_description = ''stiletto'',
     o_examine_text = ''It's a vicious stiletto.'',
     o_initial_text = '''',
     o_flags = ObjectFlag_value OF_TAKEABLE OR ObjectFlag_value OF_WEAPON,
     o_location = None,
     o_capacity = 0,
     o_size = 1,
     o_value = 0\<rparr>"

definition object_rusty_knife :: GameObject where
  "object_rusty_knife = \<lparr>
     o_id = ''rusty_knife'',
     o_name = ''knife'',
     o_description = ''rusty knife'',
     o_examine_text = ''It's a rusty knife.'',
     o_initial_text = '''',
     o_flags = ObjectFlag_value OF_TAKEABLE OR ObjectFlag_value OF_WEAPON,
     o_location = Some ''maze_4'',
     o_capacity = 0,
     o_size = 1,
     o_value = 0\<rparr>"

definition object_rope :: GameObject where
  "object_rope = \<lparr>
     o_id = ''rope'',
     o_name = ''rope'',
     o_description = ''rope'',
     o_examine_text = ''It's a sturdy hemp rope.'',
     o_initial_text = '''',
     o_flags = ObjectFlag_value OF_TAKEABLE OR ObjectFlag_value OF_TOOL,
     o_location = Some ''attic'',
     o_capacity = 0,
     o_size = 2,
     o_value = 0\<rparr>"

definition object_shovel :: GameObject where
  "object_shovel = \<lparr>
     o_id = ''shovel'',
     o_name = ''shovel'',
     o_description = ''shovel'',
     o_examine_text = ''It's a sturdy shovel.'',
     o_initial_text = '''',
     o_flags = ObjectFlag_value OF_TAKEABLE OR ObjectFlag_value OF_TOOL,
     o_location = Some ''white_cliffs_beach_south'',
     o_capacity = 0,
     o_size = 3,
     o_value = 0\<rparr>"

definition object_screwdriver :: GameObject where
  "object_screwdriver = \<lparr>
     o_id = ''screwdriver'',
     o_name = ''screwdriver'',
     o_description = ''screwdriver'',
     o_examine_text = ''It's a flathead screwdriver.'',
     o_initial_text = '''',
     o_flags = ObjectFlag_value OF_TAKEABLE OR ObjectFlag_value OF_TOOL,
     o_location = Some ''maintenance_room'',
     o_capacity = 0,
     o_size = 1,
     o_value = 0\<rparr>"

definition object_wrench :: GameObject where
  "object_wrench = \<lparr>
     o_id = ''wrench'',
     o_name = ''wrench'',
     o_description = ''wrench'',
     o_examine_text = ''It's a large adjustable wrench.'',
     o_initial_text = '''',
     o_flags = ObjectFlag_value OF_TAKEABLE OR ObjectFlag_value OF_TOOL,
     o_location = Some ''maintenance_room'',
     o_capacity = 0,
     o_size = 2,
     o_value = 0\<rparr>"

definition object_pump :: GameObject where
  "object_pump = \<lparr>
     o_id = ''pump'',
     o_name = ''pump'',
     o_description = ''hand-held air pump'',
     o_examine_text = ''It's a hand-held air pump for inflating things.'',
     o_initial_text = '''',
     o_flags = ObjectFlag_value OF_TAKEABLE OR ObjectFlag_value OF_TOOL,
     o_location = Some ''gas_room'',
     o_capacity = 0,
     o_size = 2,
     o_value = 0\<rparr>"

definition object_bottle :: GameObject where
  "object_bottle = \<lparr>
     o_id = ''bottle'',
     o_name = ''bottle'',
     o_description = ''glass bottle'',
     o_examine_text = ''The glass bottle contains:'' @ [CHR 0x0A] @ ''  A quantity of water'',
     o_initial_text = '''',
     o_flags = ObjectFlag_value OF_TAKEABLE OR ObjectFlag_value OF_CONTAINER OR ObjectFlag_value OF_TRANSPARENT,
     o_location = Some ''kitchen'',
     o_capacity = 0,
     o_size = 2,
     o_value = 0\<rparr>"

definition object_water :: GameObject where
  "object_water = \<lparr>
     o_id = ''water'',
     o_name = ''water'',
     o_description = ''quantity of water'',
     o_examine_text = '''',
     o_initial_text = '''',
     o_flags = ObjectFlag_value OF_DRINKABLE,
     o_location = Some ''bottle'',
     o_capacity = 0,
     o_size = 1,
     o_value = 0\<rparr>"

definition object_sack :: GameObject where
  "object_sack = \<lparr>
     o_id = ''sack'',
     o_name = ''sack'',
     o_description = ''brown sack'',
     o_examine_text = ''The brown sack contains:'' @ [CHR 0x0A] @ ''  A lunch'' @ [CHR 0x0A] @ ''  A clove of garlic'',
     o_initial_text = '''',
     o_flags = ObjectFlag_value OF_TAKEABLE OR ObjectFlag_value OF_CONTAINER OR ObjectFlag_value OF_OPEN,
     o_location = Some ''kitchen'',
     o_capacity = 9,
     o_size = 2,
     o_value = 0\<rparr>"

definition object_lunch :: GameObject where
  "object_lunch = \<lparr>
     o_id = ''lunch'',
     o_name = ''lunch'',
     o_description = ''lunch'',
     o_examine_text = ''It looks like a tasty lunch.'',
     o_initial_text = '''',
     o_flags = ObjectFlag_value OF_TAKEABLE OR ObjectFlag_value OF_EDIBLE,
     o_location = Some ''sack'',
     o_capacity = 0,
     o_size = 2,
     o_value = 0\<rparr>"

definition object_garlic :: GameObject where
  "object_garlic = \<lparr>
     o_id = ''garlic'',
     o_name = ''garlic'',
     o_description = ''clove of garlic'',
     o_examine_text = ''It's a clove of garlic. It smells terribly.'',
     o_initial_text = '''',
     o_flags = ObjectFlag_value OF_TAKEABLE,
     o_location = Some ''sack'',
     o_capacity = 0,
     o_size = 1,
     o_value = 0\<rparr>"

definition object_bag :: GameObject where
  "object_bag = \<lparr>
     o_id = ''bag'',
     o_name = ''bag'',
     o_description = ''leather bag of coins'',
     o_examine_text = ''The leather bag is filled with gold coins.'',
     o_initial_text = '''',
     o_flags = ObjectFlag_value OF_TAKEABLE OR ObjectFlag_value OF_CONTAINER OR ObjectFlag_value OF_OPEN OR ObjectFlag_value OF_TREASURE,
     o_location = Some ''maze_5'',
     o_capacity = 0,
     o_size = 3,
     o_value = 10\<rparr>"

definition object_basket :: GameObject where
  "object_basket = \<lparr>
     o_id = ''basket'',
     o_name = ''basket'',
     o_description = ''wicker basket'',
     o_examine_text = ''It's a wicker basket.'',
     o_initial_text = '''',
     o_flags = ObjectFlag_value OF_TAKEABLE OR ObjectFlag_value OF_CONTAINER OR ObjectFlag_value OF_OPEN,
     o_location = Some ''shaft_room'',
     o_capacity = 5,
     o_size = 3,
     o_value = 0\<rparr>"

definition object_case :: GameObject where
  "object_case = \<lparr>
     o_id = ''case'',
     o_name = ''case'',
     o_description = ''trophy case'',
     o_examine_text = ''The trophy case is empty.'',
     o_initial_text = '''',
     o_flags = ObjectFlag_value OF_CONTAINER OR ObjectFlag_value OF_OPEN OR ObjectFlag_value OF_TRANSPARENT OR ObjectFlag_value OF_SACRED,
     o_location = Some ''living_room'',
     o_capacity = 30,
     o_size = 0,
     o_value = 0\<rparr>"

definition object_rug :: GameObject where
  "object_rug = \<lparr>
     o_id = ''rug'',
     o_name = ''rug'',
     o_description = ''large oriental rug'',
     o_examine_text = ''The rug is extremely heavy and cannot be carried.'',
     o_initial_text = ''A large oriental rug covers the floor.'',
     o_flags = ObjectFlag_value OF_VISIBLE,
     o_location = Some ''living_room'',
     o_capacity = 0,
     o_size = 0,
     o_value = 0\<rparr>"

definition object_trap_door :: GameObject where
  "object_trap_door = \<lparr>
     o_id = ''trap_door'',
     o_name = ''door'',
     o_description = ''trap door'',
     o_examine_text = ''The trap door is closed.'',
     o_initial_text = '''',
     o_flags = ObjectFlag_value OF_DOOR OR ObjectFlag_value OF_CLOSED,
     o_location = None,
     o_capacity = 0,
     o_size = 0,
     o_value = 0\<rparr>"

definition object_window :: GameObject where
  "object_window = \<lparr>
     o_id = ''window'',
     o_name = ''window'',
     o_description = ''small window'',
     o_examine_text = ''The window is slightly ajar, but not enough to allow entry.'',
     o_initial_text = '''',
     o_flags = ObjectFlag_value OF_VISIBLE,
     o_location = Some ''behind_house'',
     o_capacity = 0,
     o_size = 0,
     o_value = 0\<rparr>"

definition object_chimney :: GameObject where
  "object_chimney = \<lparr>
     o_id = ''chimney'',
     o_name = ''chimney'',
     o_description = ''chimney'',
     o_examine_text = ''The chimney leads down.'',
     o_initial_text = '''',
     o_flags = ObjectFlag_value OF_VISIBLE,
     o_location = Some ''kitchen'',
     o_capacity = 0,
     o_size = 0,
     o_value = 0\<rparr>"

definition object_leaves :: GameObject where
  "object_leaves = \<lparr>
     o_id = ''leaves'',
     o_name = ''leaves'',
     o_description = ''pile of leaves'',
     o_examine_text = ''The leaves are turning brown, indicating autumn.'',
     o_initial_text = '''',
     o_flags = ObjectFlag_value OF_VISIBLE,
     o_location = Some ''clearing'',
     o_capacity = 0,
     o_size = 0,
     o_value = 0\<rparr>"

definition object_grating :: GameObject where
  "object_grating = \<lparr>
     o_id = ''grating'',
     o_name = ''grating'',
     o_description = ''grating'',
     o_examine_text = ''The grating is locked.'',
     o_initial_text = '''',
     o_flags = ObjectFlag_value OF_DOOR OR ObjectFlag_value OF_LOCKED OR ObjectFlag_value OF_CLOSED,
     o_location = None,
     o_capacity = 0,
     o_size = 0,
     o_value = 0\<rparr>"

definition object_skeleton_key :: GameObject where
  "object_skeleton_key = \<lparr>
     o_id = ''skeleton_key'',
     o_name = ''key'',
     o_description = ''skeleton key'',
     o_examine_text = ''It's a skeleton key.'',
     o_initial_text = '''',
     o_flags = ObjectFlag_value OF_TAKEABLE OR ObjectFlag_value OF_TOOL,
     o_location = Some ''maze_4'',
     o_capacity = 0,
     o_size = 1,
     o_value = 0\<rparr>"

definition object_skeleton :: GameObject where
  "object_skeleton = \<lparr>
     o_id = ''skeleton'',
     o_name = ''skeleton'',
     o_description = ''skeleton'',
     o_examine_text = ''A skeleton is lying in the corner.'',
     o_initial_text = '''',
     o_flags = ObjectFlag_value OF_VISIBLE,
     o_location = Some ''maze_4'',
     o_capacity = 0,
     o_size = 0,
     o_value = 0\<rparr>"

definition object_useless_lantern :: GameObject where
  "object_useless_lantern = \<lparr>
     o_id = ''useless_lantern'',
     o_name = ''lantern'',
     o_description = ''broken brass lantern'',
     o_examine_text = ''It's a broken brass lantern. It won't light.'',
     o_initial_text = '''',
     o_flags = ObjectFlag_value OF_TAKEABLE,
     o_location = Some ''maze_4'',
     o_capacity = 0,
     o_size = 3,
     o_value = 0\<rparr>"

definition object_chain :: GameObject where
  "object_chain = \<lparr>
     o_id = ''chain'',
     o_name = ''chain'',
     o_description = ''heavy chain'',
     o_examine_text = ''It's a heavy iron chain.'',
     o_initial_text = '''',
     o_flags = ObjectFlag_value OF_VISIBLE,
     o_location = Some ''shaft_room'',
     o_capacity = 0,
     o_size = 0,
     o_value = 0\<rparr>"

definition object_timber :: GameObject where
  "object_timber = \<lparr>
     o_id = ''timber'',
     o_name = ''timber'',
     o_description = ''broken timber'',
     o_examine_text = ''It's a broken piece of timber.'',
     o_initial_text = '''',
     o_flags = ObjectFlag_value OF_TAKEABLE,
     o_location = Some ''timber_room'',
     o_capacity = 0,
     o_size = 3,
     o_value = 0\<rparr>"

definition object_pile_of_coal :: GameObject where
  "object_pile_of_coal = \<lparr>
     o_id = ''pile_of_coal'',
     o_name = ''coal'',
     o_description = ''small pile of coal'',
     o_examine_text = ''It's a small pile of coal.'',
     o_initial_text = '''',
     o_flags = ObjectFlag_value OF_TAKEABLE,
     o_location = Some ''dead_end_coal_mine'',
     o_capacity = 0,
     o_size = 2,
     o_value = 0\<rparr>"

definition object_machine :: GameObject where
  "object_machine = \<lparr>
     o_id = ''machine'',
     o_name = ''machine'',
     o_description = ''machine'',
     o_examine_text = ''It's a complex machine with a large lid and a small switch.'',
     o_initial_text = '''',
     o_flags = ObjectFlag_value OF_VISIBLE OR ObjectFlag_value OF_CONTAINER OR ObjectFlag_value OF_CLOSED,
     o_location = Some ''machine_room'',
     o_capacity = 5,
     o_size = 0,
     o_value = 0\<rparr>"

definition object_switch :: GameObject where
  "object_switch = \<lparr>
     o_id = ''switch'',
     o_name = ''switch'',
     o_description = ''switch'',
     o_examine_text = ''It's a small switch labelled '' @ [CHR 0x22] @ ''START'' @ [CHR 0x22] @ ''.'',
     o_initial_text = '''',
     o_flags = ObjectFlag_value OF_VISIBLE,
     o_location = Some ''machine_room'',
     o_capacity = 0,
     o_size = 0,
     o_value = 0\<rparr>"

definition object_control_panel :: GameObject where
  "object_control_panel = \<lparr>
     o_id = ''control_panel'',
     o_name = ''panel'',
     o_description = ''control panel'',
     o_examine_text = ''The panel has a large green button marked '' @ [CHR 0x22] @ ''Open Sluice Gate'' @ [CHR 0x22] @ '' and a large red button marked '' @ [CHR 0x22] @ ''Close Sluice Gate'' @ [CHR 0x22] @ ''.'',
     o_initial_text = '''',
     o_flags = ObjectFlag_value OF_VISIBLE,
     o_location = Some ''dam'',
     o_capacity = 0,
     o_size = 0,
     o_value = 0\<rparr>"

definition object_green_button :: GameObject where
  "object_green_button = \<lparr>
     o_id = ''green_button'',
     o_name = ''button'',
     o_description = ''green button'',
     o_examine_text = ''It's a large green button marked '' @ [CHR 0x22] @ ''Open Sluice Gate'' @ [CHR 0x22] @ ''.'',
     o_initial_text = '''',
     o_flags = ObjectFlag_value OF_VISIBLE,
     o_location = Some ''dam'',
     o_capacity = 0,
     o_size = 0,
     o_value = 0\<rparr>"

definition object_red_button :: GameObject where
  "object_red_button = \<lparr>
     o_id = ''red_button'',
     o_name = ''button'',
     o_description = ''red button'',
     o_examine_text = ''It's a large red button marked '' @ [CHR 0x22] @ ''Close Sluice Gate'' @ [CHR 0x22] @ ''.'',
     o_initial_text = '''',
     o_flags = ObjectFlag_value OF_VISIBLE,
     o_location = Some ''dam'',
     o_capacity = 0,
     o_size = 0,
     o_value = 0\<rparr>"

definition object_guidebook :: GameObject where
  "object_guidebook = \<lparr>
     o_id = ''guidebook'',
     o_name = ''guidebook'',
     o_description = ''tour guidebook'',
     o_examine_text = [CHR 0x22] @ ''Flood Control Dam #3 was constructed in 783 GUE with a grant of 37 million zorkmids from Lord Dimwit Flathead the Excessive...'' @ [CHR 0x22],
     o_initial_text = '''',
     o_flags = ObjectFlag_value OF_TAKEABLE OR ObjectFlag_value OF_READABLE,
     o_location = Some ''dam_lobby'',
     o_capacity = 0,
     o_size = 1,
     o_value = 0\<rparr>"

definition object_bell :: GameObject where
  "object_bell = \<lparr>
     o_id = ''bell'',
     o_name = ''bell'',
     o_description = ''brass bell'',
     o_examine_text = ''It's a small brass bell.'',
     o_initial_text = '''',
     o_flags = ObjectFlag_value OF_TAKEABLE,
     o_location = Some ''temple'',
     o_capacity = 0,
     o_size = 2,
     o_value = 0\<rparr>"

definition object_book :: GameObject where
  "object_book = \<lparr>
     o_id = ''book'',
     o_name = ''book'',
     o_description = ''black book'',
     o_examine_text = ''The book is written in an ancient language. Some of the text is readable:'' @ [CHR 0x0A] @ [CHR 0x0A] @ [CHR 0x22] @ ''...seek ye the Black Crystal of Night which was lost in the Land of the Living Dead...'' @ [CHR 0x22],
     o_initial_text = '''',
     o_flags = ObjectFlag_value OF_TAKEABLE OR ObjectFlag_value OF_READABLE OR ObjectFlag_value OF_SACRED,
     o_location = Some ''altar'',
     o_capacity = 0,
     o_size = 2,
     o_value = 0\<rparr>"

definition object_prayer :: GameObject where
  "object_prayer = \<lparr>
     o_id = ''prayer'',
     o_name = ''prayer'',
     o_description = ''ancient prayer'',
     o_examine_text = ''The prayer is inscribed in an ancient script. It appears to be a powerful exorcism ritual.'',
     o_initial_text = '''',
     o_flags = ObjectFlag_value OF_READABLE,
     o_location = Some ''temple'',
     o_capacity = 0,
     o_size = 0,
     o_value = 0\<rparr>"

definition object_mirror_south :: GameObject where
  "object_mirror_south = \<lparr>
     o_id = ''mirror_south'',
     o_name = ''mirror'',
     o_description = ''mirror'',
     o_examine_text = ''You see yourself in the mirror.'',
     o_initial_text = '''',
     o_flags = ObjectFlag_value OF_VISIBLE,
     o_location = Some ''mirror_room_south'',
     o_capacity = 0,
     o_size = 0,
     o_value = 0\<rparr>"

definition object_mirror_north :: GameObject where
  "object_mirror_north = \<lparr>
     o_id = ''mirror_north'',
     o_name = ''mirror'',
     o_description = ''mirror'',
     o_examine_text = ''You see yourself in the mirror.'',
     o_initial_text = '''',
     o_flags = ObjectFlag_value OF_VISIBLE,
     o_location = Some ''mirror_room_north'',
     o_capacity = 0,
     o_size = 0,
     o_value = 0\<rparr>"

definition object_jeweled_egg :: GameObject where
  "object_jeweled_egg = \<lparr>
     o_id = ''jeweled_egg'',
     o_name = ''egg'',
     o_description = ''jewel-encrusted egg'',
     o_examine_text = ''The egg is covered with fine gold inlay and ornamented in lapis lazuli and mother-of-pearl. Unlike most eggs, this one is hinged and closed with a delicate looking clasp. The egg appears extremely fragile.'',
     o_initial_text = '''',
     o_flags = ObjectFlag_value OF_TAKEABLE OR ObjectFlag_value OF_CONTAINER OR ObjectFlag_value OF_CLOSED OR ObjectFlag_value OF_TREASURE,
     o_location = Some ''up_tree'',
     o_capacity = 0,
     o_size = 2,
     o_value = 5\<rparr>"

definition object_golden_canary :: GameObject where
  "object_golden_canary = \<lparr>
     o_id = ''golden_canary'',
     o_name = ''canary'',
     o_description = ''golden clockwork canary'',
     o_examine_text = ''The golden clockwork canary is a tiny mechanical bird made of gold. It appears to have a winding key.'',
     o_initial_text = '''',
     o_flags = ObjectFlag_value OF_TAKEABLE OR ObjectFlag_value OF_TREASURE,
     o_location = Some ''jeweled_egg'',
     o_capacity = 0,
     o_size = 1,
     o_value = 6\<rparr>"

definition object_painting :: GameObject where
  "object_painting = \<lparr>
     o_id = ''painting'',
     o_name = ''painting'',
     o_description = ''painting'',
     o_examine_text = ''The painting is of unparalleled beauty. It depicts a gentleman on horseback.'',
     o_initial_text = '''',
     o_flags = ObjectFlag_value OF_TAKEABLE OR ObjectFlag_value OF_TREASURE OR ObjectFlag_value OF_FLAMMABLE,
     o_location = Some ''gallery'',
     o_capacity = 0,
     o_size = 4,
     o_value = 4\<rparr>"

definition object_sceptre :: GameObject where
  "object_sceptre = \<lparr>
     o_id = ''sceptre'',
     o_name = ''sceptre'',
     o_description = ''sceptre'',
     o_examine_text = ''The sceptre is ornamented with colored enamel and jewels.'',
     o_initial_text = '''',
     o_flags = ObjectFlag_value OF_TAKEABLE OR ObjectFlag_value OF_TREASURE,
     o_location = None,
     o_capacity = 0,
     o_size = 2,
     o_value = 4\<rparr>"

definition object_coffin :: GameObject where
  "object_coffin = \<lparr>
     o_id = ''coffin'',
     o_name = ''coffin'',
     o_description = ''gold coffin'',
     o_examine_text = ''The gold coffin is closed.'',
     o_initial_text = '''',
     o_flags = ObjectFlag_value OF_TAKEABLE OR ObjectFlag_value OF_CONTAINER OR ObjectFlag_value OF_CLOSED OR ObjectFlag_value OF_SACRED OR ObjectFlag_value OF_TREASURE,
     o_location = Some ''egyptian_room'',
     o_capacity = 0,
     o_size = 6,
     o_value = 10\<rparr>"

definition object_trunk :: GameObject where
  "object_trunk = \<lparr>
     o_id = ''trunk'',
     o_name = ''trunk'',
     o_description = ''trunk of jewels'',
     o_examine_text = ''The trunk is filled with jewels of every type, size, and color.'',
     o_initial_text = '''',
     o_flags = ObjectFlag_value OF_TAKEABLE OR ObjectFlag_value OF_TREASURE,
     o_location = None,
     o_capacity = 0,
     o_size = 5,
     o_value = 14\<rparr>"

definition object_crystal_trident :: GameObject where
  "object_crystal_trident = \<lparr>
     o_id = ''crystal_trident'',
     o_name = ''trident'',
     o_description = ''crystal trident'',
     o_examine_text = ''The trident is made of pure crystal and gleams with an inner light.'',
     o_initial_text = '''',
     o_flags = ObjectFlag_value OF_TAKEABLE OR ObjectFlag_value OF_TREASURE,
     o_location = Some ''atlantis_room'',
     o_capacity = 0,
     o_size = 3,
     o_value = 4\<rparr>"

definition object_jade_figurine :: GameObject where
  "object_jade_figurine = \<lparr>
     o_id = ''jade_figurine'',
     o_name = ''figurine'',
     o_description = ''jade figurine'',
     o_examine_text = ''The figurine is of a small green elephant. It is exquisitely crafted.'',
     o_initial_text = '''',
     o_flags = ObjectFlag_value OF_TAKEABLE OR ObjectFlag_value OF_TREASURE,
     o_location = Some ''bat_room'',
     o_capacity = 0,
     o_size = 1,
     o_value = 5\<rparr>"

definition object_sapphire_bracelet :: GameObject where
  "object_sapphire_bracelet = \<lparr>
     o_id = ''sapphire_bracelet'',
     o_name = ''bracelet'',
     o_description = ''sapphire bracelet'',
     o_examine_text = ''The bracelet is made of hundreds of tiny sapphires.'',
     o_initial_text = '''',
     o_flags = ObjectFlag_value OF_TAKEABLE OR ObjectFlag_value OF_TREASURE,
     o_location = Some ''gas_room'',
     o_capacity = 0,
     o_size = 1,
     o_value = 5\<rparr>"

definition object_chalice :: GameObject where
  "object_chalice = \<lparr>
     o_id = ''chalice'',
     o_name = ''chalice'',
     o_description = ''silver chalice'',
     o_examine_text = ''The silver chalice is intricately engraved.'',
     o_initial_text = '''',
     o_flags = ObjectFlag_value OF_TAKEABLE OR ObjectFlag_value OF_TREASURE,
     o_location = Some ''treasure_room'',
     o_capacity = 0,
     o_size = 2,
     o_value = 10\<rparr>"

definition object_pot_of_gold :: GameObject where
  "object_pot_of_gold = \<lparr>
     o_id = ''pot_of_gold'',
     o_name = ''gold'',
     o_description = ''pot of gold'',
     o_examine_text = ''The pot is filled with gold pieces. It must be worth a fortune!'',
     o_initial_text = '''',
     o_flags = ObjectFlag_value OF_TAKEABLE OR ObjectFlag_value OF_TREASURE,
     o_location = Some ''end_of_rainbow'',
     o_capacity = 0,
     o_size = 4,
     o_value = 10\<rparr>"

definition object_platinum_bar :: GameObject where
  "object_platinum_bar = \<lparr>
     o_id = ''platinum_bar'',
     o_name = ''bar'',
     o_description = ''platinum bar'',
     o_examine_text = ''The platinum bar is extremely heavy.'',
     o_initial_text = '''',
     o_flags = ObjectFlag_value OF_TAKEABLE OR ObjectFlag_value OF_TREASURE,
     o_location = Some ''loud_room'',
     o_capacity = 0,
     o_size = 5,
     o_value = 10\<rparr>"

definition object_crystal_skull :: GameObject where
  "object_crystal_skull = \<lparr>
     o_id = ''crystal_skull'',
     o_name = ''skull'',
     o_description = ''crystal skull'',
     o_examine_text = ''The crystal skull grins at you menacingly. Its eyes seem to follow your movements.'',
     o_initial_text = '''',
     o_flags = ObjectFlag_value OF_TAKEABLE OR ObjectFlag_value OF_TREASURE,
     o_location = Some ''land_of_the_dead'',
     o_capacity = 0,
     o_size = 2,
     o_value = 10\<rparr>"

definition object_jeweled_scarab :: GameObject where
  "object_jeweled_scarab = \<lparr>
     o_id = ''jeweled_scarab'',
     o_name = ''scarab'',
     o_description = ''beautiful jeweled scarab'',
     o_examine_text = ''The scarab is covered with precious jewels.'',
     o_initial_text = '''',
     o_flags = ObjectFlag_value OF_TAKEABLE OR ObjectFlag_value OF_TREASURE,
     o_location = None,
     o_capacity = 0,
     o_size = 1,
     o_value = 5\<rparr>"

definition object_large_emerald :: GameObject where
  "object_large_emerald = \<lparr>
     o_id = ''large_emerald'',
     o_name = ''emerald'',
     o_description = ''large emerald'',
     o_examine_text = ''The emerald is exceptionally large and perfectly cut.'',
     o_initial_text = '''',
     o_flags = ObjectFlag_value OF_TAKEABLE OR ObjectFlag_value OF_TREASURE,
     o_location = Some ''white_cliffs_beach_south'',
     o_capacity = 0,
     o_size = 1,
     o_value = 5\<rparr>"

definition object_diamond :: GameObject where
  "object_diamond = \<lparr>
     o_id = ''diamond'',
     o_name = ''diamond'',
     o_description = ''huge diamond'',
     o_examine_text = ''The diamond is enormous! It catches the light beautifully.'',
     o_initial_text = '''',
     o_flags = ObjectFlag_value OF_TAKEABLE OR ObjectFlag_value OF_TREASURE,
     o_location = None,
     o_capacity = 0,
     o_size = 1,
     o_value = 10\<rparr>"

definition objects_table :: "(string \<times> GameObject) list" where
  "objects_table = [
     (''mailbox'', object_mailbox), (''leaflet'', object_leaflet), (''mat'', object_mat),
     (''lamp'', object_lamp), (''torch'', object_torch), (''candles'', object_candles),
     (''matchbook'', object_matchbook), (''sword'', object_sword), (''knife'', object_knife),
     (''axe'', object_axe), (''stiletto'', object_stiletto), (''rusty_knife'', object_rusty_knife),
     (''rope'', object_rope), (''shovel'', object_shovel), (''screwdriver'', object_screwdriver),
     (''wrench'', object_wrench), (''pump'', object_pump), (''bottle'', object_bottle),
     (''water'', object_water), (''sack'', object_sack), (''lunch'', object_lunch),
     (''garlic'', object_garlic), (''bag'', object_bag), (''basket'', object_basket),
     (''case'', object_case), (''rug'', object_rug), (''trap_door'', object_trap_door),
     (''window'', object_window), (''chimney'', object_chimney), (''leaves'', object_leaves),
     (''grating'', object_grating), (''skeleton_key'', object_skeleton_key), (''skeleton'', object_skeleton),
     (''useless_lantern'', object_useless_lantern), (''chain'', object_chain), (''timber'', object_timber),
     (''pile_of_coal'', object_pile_of_coal), (''machine'', object_machine), (''switch'', object_switch),
     (''control_panel'', object_control_panel), (''green_button'', object_green_button), (''red_button'', object_red_button),
     (''guidebook'', object_guidebook), (''bell'', object_bell), (''book'', object_book),
     (''prayer'', object_prayer), (''mirror_south'', object_mirror_south), (''mirror_north'', object_mirror_north),
     (''jeweled_egg'', object_jeweled_egg), (''golden_canary'', object_golden_canary), (''painting'', object_painting),
     (''sceptre'', object_sceptre), (''coffin'', object_coffin), (''trunk'', object_trunk),
     (''crystal_trident'', object_crystal_trident), (''jade_figurine'', object_jade_figurine), (''sapphire_bracelet'', object_sapphire_bracelet),
     (''chalice'', object_chalice), (''pot_of_gold'', object_pot_of_gold), (''platinum_bar'', object_platinum_bar),
     (''crystal_skull'', object_crystal_skull), (''jeweled_scarab'', object_jeweled_scarab), (''large_emerald'', object_large_emerald),
     (''diamond'', object_diamond)]"

text \<open>The last statement of \<^verbatim>\<open>_init_objects\<close> puts the sceptre into the coffin.\<close>

definition init_objects :: "(string \<times> GameObject) list" where
  "init_objects =
     AList.update ''sceptre'' (object_sceptre\<lparr>o_location := Some ''coffin''\<rparr>) objects_table"

subsection \<open>Actors\<close>

definition actor_troll :: Actor where
  "actor_troll = \<lparr>
     a_id = ''troll'',
     a_name = ''troll'',
     a_description = ''A nasty-looking troll, brandishing a bloody axe, blocks all passages out of the room.'',
     a_location = Some ''troll_room'',
     a_health = 100,
     a_hostile = True,
     a_active = True,
     a_messages = [
       (''first_encounter'',
        ''A nasty-looking troll, brandishing a bloody axe, blocks all passages out of the room.''),
       (''fight'',
        ''The troll swings his axe at you!''),
       (''death'',
        ''The troll collapses to the floor, dead.''),
       (''payment'',
        ''The troll, satisfied with his payment, retreats to the north.''),
       (''axe_thrown'',
        ''The troll, disarmed, cowers in terror, pleading for his life.'')]\<rparr>"

definition actor_thief :: Actor where
  "actor_thief = \<lparr>
     a_id = ''thief'',
     a_name = ''thief'',
     a_description = ''A seedy-looking individual with a large bag just wandered through the room.'',
     a_location = None,
     a_health = 100,
     a_hostile = False,
     a_active = True,
     a_messages = [
       (''first_encounter'',
        ''Someone carrying a large bag is casually leaning against one of the walls here.''),
       (''fight'',
        ''The thief nimbly avoids your attack.''),
       (''steal'',
        ''The thief skillfully relieves you of''),
       (''death'',
        ''The thief drops his bag and falls to the floor, dead.''),
       (''stiletto'',
        ''The thief stabs you with his stiletto!''),
       (''engrossed'',
        ''The thief is engrossed in his booty and doesn't notice you.'')]\<rparr>"

definition actor_cyclops :: Actor where
  "actor_cyclops = \<lparr>
     a_id = ''cyclops'',
     a_name = ''cyclops'',
     a_description = ''A cyclops, who looks prepared to eat horses (much less mere adventurers), blocks the staircase.'',
     a_location = Some ''cyclops_room'',
     a_health = 200,
     a_hostile = True,
     a_active = True,
     a_messages = [
       (''first_encounter'',
        ''A cyclops, who looks prepared to eat horses (much less mere adventurers), blocks the staircase.''),
       (''fight'',
        ''The cyclops swings his massive fist at you!''),
       (''hungry'',
        ''The cyclops is hungry and blocking the staircase.''),
       (''flees'',
        ''The cyclops, hearing the name of his master, flees the room by knocking down the wall on the east of the room!''),
       (''odysseus'',
        [CHR 0x22] @ ''Do you think I'm as stupid as my father was?'' @ [CHR 0x22] @ '' he says, and hits you with a crushing blow.'')]\<rparr>"

definition actor_spirits :: Actor where
  "actor_spirits = \<lparr>
     a_id = ''spirits'',
     a_name = ''spirits'',
     a_description = ''Evil spirits guard the entrance to Hades.'',
     a_location = Some ''entrance_to_hades'',
     a_health = 999,
     a_hostile = False,
     a_active = True,
     a_messages = [
       (''block'',
        ''Some invisible force prevents you from passing through the gate.''),
       (''ceremony'',
        ''The spirits, sensing the power of the ceremony, flee in terror!''),
       (''exorcise'',
        ''The bell, book, and candles perform an exorcism, banishing the evil spirits!'')]\<rparr>"

definition actor_bat :: Actor where
  "actor_bat = \<lparr>
     a_id = ''bat'',
     a_name = ''bat'',
     a_description = ''A large vampire bat is hanging from the ceiling.'',
     a_location = Some ''bat_room'',
     a_health = 10,
     a_hostile = False,
     a_active = True,
     a_messages = [
       (''first_encounter'',
        ''In the corner of the room on the ceiling is a large vampire bat who is obviously deranged and holding his nose.''),
       (''garlic'',
        ''The bat, upon seeing the garlic, squeaks in terror and flies away!''),
       (''flies'',
        ''The bat flies around the room.'')]\<rparr>"

definition init_actors :: "(string \<times> Actor) list" where
  "init_actors = [
     (''troll'', actor_troll), (''thief'', actor_thief), (''cyclops'', actor_cyclops),
     (''spirits'', actor_spirits), (''bat'', actor_bat)]"

section \<open>The game state\<close>

text \<open>
  Exceptions are values. \<open>KeyError\<close> is a failed dictionary access, \<open>ValueError\<close> a
  \<^verbatim>\<open>list.remove\<close> of an absent element, \<open>EOFError\<close> an \<^verbatim>\<open>input()\<close> at the end of the input.
  The exceptions of \<^verbatim>\<open>open\<close> and \<^verbatim>\<open>json.load\<close> never leave the handler that causes them
  and are part of the file system below.
\<close>

datatype error = KeyError string | ValueError | EOFError

text \<open>
  What \<^verbatim>\<open>_save\<close> writes, as the dictionary \<^verbatim>\<open>json.load\<close> gives back: every key may be
  missing (\<open>None\<close>), and a location that is present may be \<^verbatim>\<open>null\<close>. The set of visited
  rooms is written as a list in no particular order and read back into a set, so the file
  holds it as a set here. A value that is present is taken to have the type \<^verbatim>\<open>_save\<close> gives it.
\<close>

record object_data =
  od_location :: "string option option"
  od_flags :: "int option"
  od_value :: "int option"

record actor_data =
  ad_location :: "string option option"
  ad_health :: "int option"
  ad_active :: "bool option"

record save_data =
  sd_player_name :: "string option"
  sd_current_room :: "string option"
  sd_inventory :: "string list option"
  sd_score :: "int option"
  sd_moves :: "int option"
  sd_deaths :: "int option"
  sd_visited_rooms :: "string set option"
  sd_lamp_on :: "bool option"
  sd_lamp_life :: "int option"
  sd_grating_unlocked :: "bool option"
  sd_trap_door_open :: "bool option"
  sd_rainbow_solid :: "bool option"
  sd_dam_open :: "bool option"
  sd_loud_room_level :: "int option"
  sd_coffin_open :: "bool option"
  sd_bell_rung :: "bool option"
  sd_candles_lit :: "bool option"
  sd_book_read :: "bool option"
  sd_spirits_released :: "bool option"
  sd_cyclops_fled :: "bool option"
  sd_mirror_broken :: "bool option"
  sd_troll_payment :: "bool option"
  sd_thief_here :: "bool option"
  sd_treasures_deposited :: "int option"
  sd_objects :: "(string \<times> object_data) list option"
  sd_actors :: "(string \<times> actor_data) list option"

text \<open>
  A file is unreadable (\<^verbatim>\<open>open\<close> raises an \<^verbatim>\<open>OSError\<close> other than file-not-found), holds
  something \<^verbatim>\<open>json.load\<close> rejects, or holds a JSON object; the first two carry the text
  of the exception.
\<close>

datatype save_file = Unreadable string | NotJson string | Json save_data

text \<open>
  The attributes of \<^verbatim>\<open>ZorkGame\<close>, in the order of \<^verbatim>\<open>__init__\<close>, followed by the
  environment the program talks to: \<open>out\<close> is what has been written to standard output
  (one entry per \<^verbatim>\<open>print\<close> or prompt), \<open>stdin\<close> the lines still to be read, \<open>fs\<close> the
  files by name, \<open>write_error\<close> the text of the exception for a name that cannot be
  opened for writing, and
  \<open>rng\<close> with \<open>rng_pos\<close> the stream of draws of the random generator and how many have
  been taken.
\<close>

record ZorkGame =
  player_name :: string
  rooms :: "(string \<times> Room) list"
  objects :: "(string \<times> GameObject) list"
  actors :: "(string \<times> Actor) list"
  current_room :: string
  player_inventory :: "string list"
  score :: int
  moves :: int
  verbose :: bool
  game_over :: bool
  visited_rooms :: "string set"
  deaths :: int
  lamp_on :: bool
  lamp_life :: int
  grating_unlocked :: bool
  trap_door_open :: bool
  rainbow_solid :: bool
  dam_open :: bool
  loud_room_level :: int
  coffin_open :: bool
  bell_rung :: bool
  candles_lit :: bool
  book_read :: bool
  spirits_released :: bool
  cyclops_fled :: bool
  mirror_broken :: bool
  troll_payment :: bool
  thief_here :: bool
  treasures_deposited :: int
  out :: "string list"
  stdin :: "string list"
  fs :: "string \<Rightarrow> save_file option"
  write_error :: "string \<Rightarrow> string option"
  rng :: "nat \<Rightarrow> nat"
  rng_pos :: nat

text \<open>\<^verbatim>\<open>ZorkGame.__init__\<close>: the attribute defaults and the three seed tables.\<close>

definition init_attributes :: "ZorkGame \<Rightarrow> ZorkGame" where
  "init_attributes env = env\<lparr>
     player_name := ''Adventurer'',
     rooms := init_rooms,
     objects := init_objects,
     actors := init_actors,
     current_room := ''west_of_house'',
     player_inventory := [],
     score := 0,
     moves := 0,
     verbose := True,
     game_over := False,
     visited_rooms := {},
     deaths := 0,
     lamp_on := False,
     lamp_life := 330,
     grating_unlocked := False,
     trap_door_open := False,
     rainbow_solid := False,
     dam_open := False,
     loud_room_level := 4,
     coffin_open := False,
     bell_rung := False,
     candles_lit := False,
     book_read := False,
     spirits_released := False,
     cyclops_fled := False,
     mirror_broken := False,
     troll_payment := False,
     thief_here := False,
     treasures_deposited := 0\<rparr>"

text \<open>A fresh game in an environment with nothing printed, nothing to read and no files.\<close>

definition empty_env :: ZorkGame where
  "empty_env = \<lparr>
     player_name = [], rooms = [], objects = [], actors = [], current_room = [],
     player_inventory = [], score = 0, moves = 0, verbose = False, game_over = False,
     visited_rooms = {}, deaths = 0, lamp_on = False, lamp_life = 0,
     grating_unlocked = False, trap_door_open = False, rainbow_solid = False,
     dam_open = False, loud_room_level = 0, coffin_open = False, bell_rung = False,
     candles_lit = False, book_read = False, spirits_released = False,
     cyclops_fled = False, mirror_broken = False, troll_payment = False,
     thief_here = False, treasures_deposited = 0,
     out = [], stdin = [], fs = (\<lambda>_. None), write_error = (\<lambda>_. None), rng = (\<lambda>_. 0), rng_pos = 0\<rparr>"

definition new_game :: ZorkGame where
  "new_game = init_attributes empty_env"

section \<open>Helpers for Python built-ins\<close>

definition bind_err :: "error + 'a \<Rightarrow> ('a \<Rightarrow> error + 'b) \<Rightarrow> error + 'b" where
  "bind_err m f = (case m of Inl e \<Rightarrow> Inl e | Inr x \<Rightarrow> f x)"

definition print :: "string \<Rightarrow> ZorkGame \<Rightarrow> ZorkGame" where
  "print line s = s\<lparr>out := out s @ [line]\<rparr>"

text \<open>\<^verbatim>\<open>input(prompt)\<close> writes the prompt and reads a line; at the end of the input it raises.\<close>

definition input :: "string \<Rightarrow> ZorkGame \<Rightarrow> error + (string \<times> ZorkGame)" where
  "input prompt s =
     (case stdin s of
        [] \<Rightarrow> Inl EOFError
      | line # rest \<Rightarrow> Inr (line, s\<lparr>out := out s @ [prompt], stdin := rest\<rparr>))"

text \<open>\<^verbatim>\<open>random.randint(a, b)\<close> takes the next draw of the stream.\<close>

definition randint :: "int \<Rightarrow> int \<Rightarrow> ZorkGame \<Rightarrow> int \<times> ZorkGame" where
  "randint a b s =
     (a + int (rng s (rng_pos s) mod nat (b - a + 1)), s\<lparr>rng_pos := rng_pos s + 1\<rparr>)"

text \<open>\<^verbatim>\<open>d[k]\<close> on the three tables.\<close>

definition get_object :: "ZorkGame \<Rightarrow> string \<Rightarrow> error + GameObject" where
  "get_object s k = (case map_of (objects s) k of None \<Rightarrow> Inl (KeyError k) | Some obj \<Rightarrow> Inr obj)"

definition get_room :: "ZorkGame \<Rightarrow> string \<Rightarrow> error + Room" where
  "get_room s k = (case map_of (rooms s) k of None \<Rightarrow> Inl (KeyError k) | Some room \<Rightarrow> Inr room)"

definition get_actor :: "ZorkGame \<Rightarrow> string \<Rightarrow> error + Actor" where
  "get_actor s k = (case map_of (actors s) k of None \<Rightarrow> Inl (KeyError k) | Some actor \<Rightarrow> Inr actor)"

text \<open>Writing back an object, room or actor that was changed through its reference.\<close>

definition put_object :: "string \<Rightarrow> GameObject \<Rightarrow> ZorkGame \<Rightarrow> ZorkGame" where
  "put_object k obj s = s\<lparr>objects := AList.update k obj (objects s)\<rparr>"

definition put_room :: "string \<Rightarrow> Room \<Rightarrow> ZorkGame \<Rightarrow> ZorkGame" where
  "put_room k room s = s\<lparr>rooms := AList.update k room (rooms s)\<rparr>"

definition put_actor :: "string \<Rightarrow> Actor \<Rightarrow> ZorkGame \<Rightarrow> ZorkGame" where
  "put_actor k actor s = s\<lparr>actors := AList.update k actor (actors s)\<rparr>"

text \<open>\<^verbatim>\<open>del self.objects[k]\<close>.\<close>

definition del_object :: "string \<Rightarrow> ZorkGame \<Rightarrow> error + ZorkGame" where
  "del_object k s =
     (if map_of (objects s) k = None then Inl (KeyError k)
      else Inr (s\<lparr>objects := AList.delete k (objects s)\<rparr>))"

text \<open>\<^verbatim>\<open>self.player_inventory.remove(x)\<close> removes the first occurrence or raises.\<close>

definition inventory_remove :: "string \<Rightarrow> ZorkGame \<Rightarrow> error + ZorkGame" where
  "inventory_remove x s =
     (if x \<in> set (player_inventory s)
      then Inr (s\<lparr>player_inventory := remove1 x (player_inventory s)\<rparr>)
      else Inl ValueError)"

text \<open>\<^verbatim>\<open>s.startswith(p)\<close>, \<^verbatim>\<open>p in s\<close> on strings, \<^verbatim>\<open>s.split()\<close> and \<^verbatim>\<open>" ".join(ws)\<close>.\<close>

definition startswith :: "string \<Rightarrow> string \<Rightarrow> bool" where
  "startswith s p = (take (length p) s = p)"

fun str_in :: "string \<Rightarrow> string \<Rightarrow> bool" where
  "str_in p [] = (p = [])"
| "str_in p (c # cs) = (startswith (c # cs) p \<or> str_in p cs)"

definition is_space :: "char \<Rightarrow> bool" where
  "is_space c = (c \<in> {CHR 0x09, CHR 0x0A, CHR 0x0B, CHR 0x0C, CHR 0x0D,
                       CHR 0x1C, CHR 0x1D, CHR 0x1E, CHR 0x1F, CHR 0x20})"

fun split_from :: "string \<Rightarrow> string \<Rightarrow> string list" where
  "split_from cur [] = (if cur = [] then [] else [cur])"
| "split_from cur (c # cs) =
     (if is_space c then (if cur = [] then split_from [] cs else cur # split_from [] cs)
      else split_from (cur @ [c]) cs)"

definition split :: "string \<Rightarrow> string list" where
  "split s = split_from [] s"

fun join_space :: "string list \<Rightarrow> string" where
  "join_space [] = []"
| "join_space [w] = w"
| "join_space (w # ws) = w @ '' '' @ join_space ws"

text \<open>\<^verbatim>\<open>str(n)\<close> for the integers the game prints.\<close>

definition digit_char :: "nat \<Rightarrow> char" where
  "digit_char d = ''0123456789'' ! d"

function str_nat :: "nat \<Rightarrow> string" where
  "str_nat n = (if n < 10 then [digit_char n] else str_nat (n div 10) @ [digit_char (n mod 10)])"
  by pat_completeness auto
termination
  by (relation "measure (\<lambda>n. n)") auto

declare str_nat.simps [simp del]

definition str_int :: "int \<Rightarrow> string" where
  "str_int i = (if i < 0 then ''-'' @ str_nat (nat (- i)) else str_nat (nat i))"

text \<open>
  A dictionary literal keeps, for a key written twice, the value written last: the value
  of the literal with the given entries at a key is the last entry for it.
\<close>

definition dict_literal :: "('k \<times> 'v) list \<Rightarrow> 'k \<Rightarrow> 'v option" where
  "dict_literal entries k = map_of (rev entries) k"

section \<open>Visibility and the parser\<close>

text \<open>\<^verbatim>\<open>ZorkGame._is_visible\<close>. An empty location string is false in the test \<^verbatim>\<open>if obj.location\<close>.\<close>

definition is_visible :: "ZorkGame \<Rightarrow> string \<Rightarrow> bool" where
  "is_visible s obj_id =
     (case map_of (objects s) obj_id of
        None \<Rightarrow> False
      | Some obj \<Rightarrow>
          if obj_id \<in> set (player_inventory s) then True
          else if o_location obj = Some (current_room s) then True
          else (case o_location obj of
                  None \<Rightarrow> False
                | Some loc \<Rightarrow>
                    if loc = [] then False
                    else (case map_of (objects s) loc of
                            None \<Rightarrow> False
                          | Some container \<Rightarrow>
                              has_flag container OF_CONTAINER \<and>
                              (has_flag container OF_OPEN \<or> has_flag container OF_TRANSPARENT) \<and>
                              (o_location container = Some (current_room s) \<or>
                               o_id container \<in> set (player_inventory s)))))"

text \<open>\<^verbatim>\<open>ZorkGame._find_object\<close>: four passes, each returning its first hit.\<close>

definition find_object :: "ZorkGame \<Rightarrow> string \<Rightarrow> string option" where
  "find_object s nm =
     (case List.find (\<lambda>(actor_id, actor). a_location actor = Some (current_room s) \<and> actor_id = nm)
             (actors s) of
        Some (actor_id, _) \<Rightarrow> Some actor_id
      | None \<Rightarrow>
     (case List.find (\<lambda>(obj_id, obj). o_name obj = nm \<and> is_visible s obj_id) (objects s) of
        Some (obj_id, _) \<Rightarrow> Some obj_id
      | None \<Rightarrow>
     (case List.find (\<lambda>(obj_id, obj). str_in nm (o_name obj) \<and> is_visible s obj_id) (objects s) of
        Some (obj_id, _) \<Rightarrow> Some obj_id
      | None \<Rightarrow>
     (case List.find (\<lambda>(obj_id, obj). str_in nm (o_description obj) \<and> is_visible s obj_id)
             (objects s) of
        Some (obj_id, _) \<Rightarrow> Some obj_id
      | None \<Rightarrow> None))))"

text \<open>The two lexicons of \<^verbatim>\<open>_parse_command\<close>, entry by entry as the source writes them.\<close>

definition direction_map :: "(string \<times> Direction) list" where
  "direction_map = [
     (''n'', NORTH), (''north'', NORTH),
     (''s'', SOUTH), (''south'', SOUTH),
     (''e'', EAST), (''east'', EAST),
     (''w'', WEST), (''west'', WEST),
     (''ne'', NE), (''northeast'', NE),
     (''nw'', NW), (''northwest'', NW),
     (''se'', SE), (''southeast'', SE),
     (''sw'', SW), (''southwest'', SW),
     (''u'', UP), (''up'', UP),
     (''d'', DOWN), (''down'', DOWN),
     (''in'', IN), (''enter'', IN),
     (''out'', OUT), (''exit'', OUT)]"

definition verb_map :: "(string \<times> VerbType) list" where
  "verb_map = [
     (''take'', V_TAKE), (''get'', V_TAKE), (''pick'', V_TAKE),
     (''drop'', V_DROP), (''throw'', V_DROP), (''put'', V_DROP),
     (''open'', V_OPEN),
     (''close'', V_CLOSE), (''shut'', V_CLOSE),
     (''examine'', V_EXAMINE), (''x'', V_EXAMINE), (''look'', V_EXAMINE),
     (''l'', V_LOOK),
     (''inventory'', V_INVENTORY), (''i'', V_INVENTORY),
     (''quit'', V_QUIT), (''q'', V_QUIT),
     (''save'', V_SAVE),
     (''restore'', V_RESTORE), (''load'', V_RESTORE),
     (''restart'', V_RESTART),
     (''score'', V_SCORE),
     (''version'', V_VERSION),
     (''verbose'', V_VERBOSE),
     (''brief'', V_BRIEF),
     (''wait'', V_WAIT), (''z'', V_WAIT),
     (''turn'', V_TURN),
     (''light'', V_TURN_ON),
     (''extinguish'', V_TURN_OFF),
     (''move'', V_MOVE), (''push'', V_PUSH),
     (''read'', V_READ),
     (''attack'', V_ATTACK), (''kill'', V_KILL), (''fight'', V_ATTACK),
     (''eat'', V_EAT),
     (''drink'', V_DRINK),
     (''break'', V_BREAK), (''smash'', V_BREAK),
     (''diagnose'', V_DIAGNOSE),
     (''give'', V_GIVE),
     (''unlock'', V_UNLOCK),
     (''lock'', V_LOCK),
     (''tie'', V_TIE),
     (''untie'', V_UNTIE),
     (''burn'', V_BURN), (''light'', V_BURN),
     (''extinguish'', V_EXTINGUISH),
     (''ring'', V_RING),
     (''wind'', V_WIND),
     (''dig'', V_DIG),
     (''fill'', V_FILL),
     (''pour'', V_POUR),
     (''pray'', V_PRAY),
     (''wave'', V_WAVE),
     (''raise'', V_RAISE),
     (''lower'', V_LOWER),
     (''climb'', V_CLIMB),
     (''jump'', V_JUMP)]"

text \<open>The rewrites of the rest of the line, in the order of the source.\<close>

definition strip_at :: "VerbType \<Rightarrow> string \<Rightarrow> string" where
  "strip_at v remaining =
     (if v = V_EXAMINE \<and> startswith remaining ''at '' then drop 3 remaining else remaining)"

definition split_turn :: "VerbType \<Rightarrow> string \<Rightarrow> VerbType \<times> string" where
  "split_turn v remaining =
     (if v = V_TURN then
        (if startswith remaining ''on '' then (V_TURN_ON, drop 3 remaining)
         else if startswith remaining ''off '' then (V_TURN_OFF, drop 4 remaining)
         else (v, remaining))
      else (v, remaining))"

definition strip_up :: "VerbType \<Rightarrow> string \<Rightarrow> string" where
  "strip_up v remaining =
     (if v = V_TAKE \<and> startswith remaining ''up '' then drop 3 remaining else remaining)"

text \<open>\<^verbatim>\<open>ZorkGame._parse_command\<close>.\<close>

definition parse_command :: "ZorkGame \<Rightarrow> string \<Rightarrow> ParsedCommand" where
  "parse_command s user_input =
     (let command = \<lparr>verb = None, direct_object = None, indirect_object = None,
                      direction = None, raw_input = user_input\<rparr>;
          words = split user_input
      in case words of
           [] \<Rightarrow> command
         | verb_word # rest \<Rightarrow>
             (case dict_literal direction_map verb_word of
                Some d \<Rightarrow> command\<lparr>direction := Some d\<rparr>
              | None \<Rightarrow>
                  (case dict_literal verb_map verb_word of
                     None \<Rightarrow> command
                   | Some v \<Rightarrow>
                       if length words > 1 then
                         (let remaining = strip_at v (join_space rest);
                              (v', remaining') = split_turn v remaining;
                              remaining'' = strip_up v' remaining'
                          in command\<lparr>verb := Some v',
                                      direct_object := find_object s remaining''\<rparr>)
                       else command\<lparr>verb := Some v\<rparr>)))"

section \<open>Looking, light and death\<close>

text \<open>The guard \<^verbatim>\<open>if not command.direct_object\<close> that opens most handlers.\<close>

definition with_object ::
  "string \<Rightarrow> ParsedCommand \<Rightarrow> ZorkGame \<Rightarrow> (string \<Rightarrow> error + ZorkGame) \<Rightarrow> error + ZorkGame" where
  "with_object question command s handle =
     (case direct_object command of
        None \<Rightarrow> Inr (print question s)
      | Some obj_id \<Rightarrow> if obj_id = [] then Inr (print question s) else handle obj_id)"

text \<open>\<^verbatim>\<open>[o for o in self.objects.values() if o.location == obj_id]\<close>.\<close>

definition contents_of :: "ZorkGame \<Rightarrow> string \<Rightarrow> GameObject list" where
  "contents_of s obj_id = filter (\<lambda>obj. o_location obj = Some obj_id) (map snd (objects s))"

definition print_all :: "string list \<Rightarrow> ZorkGame \<Rightarrow> ZorkGame" where
  "print_all ls s = s\<lparr>out := out s @ ls\<rparr>"

definition item_lines :: "GameObject list \<Rightarrow> string list" where
  "item_lines items = map (\<lambda>item. ''  A '' @ o_description item) items"

text \<open>\<^verbatim>\<open>ZorkGame._can_see\<close>; the first loop reads every carried object from the table.\<close>

fun carried_light :: "ZorkGame \<Rightarrow> string list \<Rightarrow> error + bool" where
  "carried_light s [] = Inr False"
| "carried_light s (obj_id # rest) =
     (case map_of (objects s) obj_id of
        None \<Rightarrow> Inl (KeyError obj_id)
      | Some obj \<Rightarrow>
          if has_flag obj OF_LIGHT \<and> has_flag obj OF_TURNEDON then Inr True
          else carried_light s rest)"

definition can_see :: "ZorkGame \<Rightarrow> error + bool" where
  "can_see s =
     bind_err (get_room s (current_room s)) (\<lambda>room.
       if room_has_flag room RF_LIT then Inr True
       else bind_err (carried_light s (player_inventory s)) (\<lambda>carried.
         if carried then Inr True
         else Inr (list_ex (\<lambda>(obj_id, obj). o_location obj = Some (current_room s) \<and>
                              has_flag obj OF_LIGHT \<and> has_flag obj OF_TURNEDON)
                     (objects s))))"

text \<open>\<^verbatim>\<open>ZorkGame._examine\<close>.\<close>

definition examine :: "ParsedCommand \<Rightarrow> ZorkGame \<Rightarrow> error + ZorkGame" where
  "examine command s =
     with_object ''What do you want to examine?'' command s (\<lambda>obj_id.
       case map_of (actors s) obj_id of
         Some actor \<Rightarrow>
           if a_location actor = Some (current_room s) then Inr (print (a_description actor) s)
           else Inr (print ''You don't see that here.'' s)
       | None \<Rightarrow>
           bind_err (get_object s obj_id) (\<lambda>obj.
             let s1 = print (o_examine_text obj) s in
             if has_flag obj OF_CONTAINER \<and> (has_flag obj OF_OPEN \<or> has_flag obj OF_TRANSPARENT)
             then
               (let contents = contents_of s1 (o_id obj) in
                if contents \<noteq> [] then
                  Inr (print_all ((''The '' @ o_name obj @ '' contains:'') # item_lines contents) s1)
                else if has_flag obj OF_OPEN then
                  Inr (print (''The '' @ o_name obj @ '' is empty.'') s1)
                else Inr s1)
             else Inr s1))"

text \<open>
  The three loops at the end of \<^verbatim>\<open>_look\<close>. The first prints as it goes and collects the
  objects to list; it reads the leaves from the table when the grating is in the room, and
  when that fails the result holds the error and the lines printed up to there.
\<close>

definition add_line ::
  "string \<Rightarrow> error option \<times> string list \<times> GameObject list \<Rightarrow>
   error option \<times> string list \<times> GameObject list" where
  "add_line l r = (case r of (e, lines, room_objects) \<Rightarrow> (e, l # lines, room_objects))"

definition add_object ::
  "GameObject \<Rightarrow> error option \<times> string list \<times> GameObject list \<Rightarrow>
   error option \<times> string list \<times> GameObject list" where
  "add_object obj r = (case r of (e, lines, room_objects) \<Rightarrow> (e, lines, obj # room_objects))"

fun look_objects ::
  "ZorkGame \<Rightarrow> Room \<Rightarrow> (string \<times> GameObject) list \<Rightarrow>
   error option \<times> string list \<times> GameObject list" where
  "look_objects s room [] = (None, [], [])"
| "look_objects s room ((obj_id, obj) # rest) =
     (if o_location obj = Some (current_room s) then
        (if obj_id = ''trap_door'' then
           add_line (if has_flag obj OF_OPEN then ''There is an open trap door here.''
                     else ''There is a closed trap door here.'')
             (look_objects s room rest)
         else if obj_id = ''grating'' \<and> map_of (objects s) ''leaves'' = None then
           (Some (KeyError ''leaves''), [], [])
         else if obj_id = ''grating'' \<and>
                 Option.bind (map_of (objects s) ''leaves'') o_location \<noteq> Some ''clearing'' then
           look_objects s room rest
         else if o_initial_text obj \<noteq> [] \<and> r_id room \<notin> visited_rooms s then
           add_line (o_initial_text obj) (look_objects s room rest)
         else add_object obj (look_objects s room rest))
      else look_objects s room rest)"

definition container_lines :: "ZorkGame \<Rightarrow> string \<times> GameObject \<Rightarrow> string list" where
  "container_lines s entry =
     (case entry of (obj_id, obj) \<Rightarrow>
        if o_location obj = Some (current_room s) \<and> has_flag obj OF_CONTAINER \<and>
           (has_flag obj OF_OPEN \<or> has_flag obj OF_TRANSPARENT)
        then
          (let contents = contents_of s obj_id in
           if contents \<noteq> [] then
             (if has_flag obj OF_TRANSPARENT then ''The '' @ o_name obj @ '' contains:''
              else ''The '' @ o_name obj @ '' is open. It contains:'') # item_lines contents
           else [])
        else [])"

definition unlisted :: "string list" where
  "unlisted = [''case'', ''rug'', ''window'', ''control_panel'', ''prayer'', ''mirror_south'',
               ''mirror_north'', ''chimney'', ''chain'', ''switch'', ''green_button'',
               ''red_button'']"

definition here_lines :: "GameObject list \<Rightarrow> string list" where
  "here_lines room_objects =
     map (\<lambda>obj. ''There is a '' @ o_description obj @ '' here.'')
       (filter (\<lambda>obj. o_id obj \<notin> set unlisted) room_objects)"

definition actor_lines :: "ZorkGame \<Rightarrow> string list" where
  "actor_lines s =
     map (\<lambda>(actor_id, actor).
            case map_of (a_messages actor) ''first_encounter'' of
              Some m \<Rightarrow> m
            | None \<Rightarrow> a_description actor)
       (filter (\<lambda>(actor_id, actor). a_location actor = Some (current_room s) \<and> a_active actor)
          (actors s))"

text \<open>
  \<^verbatim>\<open>ZorkGame._look\<close>. It is called with a command by the dispatcher and without one
  everywhere else. \<open>look_partial\<close> gives the state reached together with the exception,
  if one was raised on the way; \<open>look\<close> is the call whose exception is not caught.
\<close>

definition look_partial :: "ParsedCommand option \<Rightarrow> ZorkGame \<Rightarrow> error option \<times> ZorkGame" where
  "look_partial command s =
     (if (case command of
            None \<Rightarrow> False
          | Some c \<Rightarrow> direct_object c \<noteq> None \<and> direct_object c \<noteq> Some [])
      then (case examine (the command) s of Inl e \<Rightarrow> (Some e, s) | Inr s' \<Rightarrow> (None, s'))
      else
        (case get_room s (current_room s) of
           Inl e \<Rightarrow> (Some e, s)
         | Inr room \<Rightarrow>
        (case can_see s of
           Inl e \<Rightarrow> (Some e, s)
         | Inr seen \<Rightarrow>
          if \<not> seen then (None, s)
          else
            (let s1 = (if r_id room \<in> visited_rooms s \<and> \<not> verbose s
                       then print (r_name room) s
                       else print (r_description room) (print (r_name room) s));
                 s2 = s1\<lparr>visited_rooms := insert (r_id room) (visited_rooms s1)\<rparr>;
                 s3 = (if current_room s2 = ''loud_room''
                       then print (''The sound level is: '' @ str_int (loud_room_level s2)) s2
                       else s2);
                 s4 = print_all (actor_lines s3) s3
             in case look_objects s4 room (objects s4) of
                  (Some e, lines, room_objects) \<Rightarrow> (Some e, print_all lines s4)
                | (None, lines, room_objects) \<Rightarrow>
                    (None, print_all (here_lines room_objects)
                             (print_all (concat (map (container_lines s4) (objects s4)))
                               (print_all lines s4)))))))"

definition look :: "ParsedCommand option \<Rightarrow> ZorkGame \<Rightarrow> error + ZorkGame" where
  "look command s = (case look_partial command s of (Some e, _) \<Rightarrow> Inl e | (None, s') \<Rightarrow> Inr s')"

text \<open>\<^verbatim>\<open>ZorkGame._death\<close>: the loop over a copy of the inventory, then the respawn.\<close>

fun drop_everything :: "string list \<Rightarrow> ZorkGame \<Rightarrow> error + ZorkGame" where
  "drop_everything [] s = Inr s"
| "drop_everything (obj_id # rest) s =
     bind_err (get_object s obj_id) (\<lambda>obj.
     bind_err (inventory_remove obj_id
                 (put_object obj_id (obj\<lparr>o_location := Some (current_room s)\<rparr>) s))
       (drop_everything rest))"

definition death :: "string \<Rightarrow> ZorkGame \<Rightarrow> error + ZorkGame" where
  "death message s =
     (let s1 = print message s;
          s2 = s1\<lparr>deaths := deaths s1 + 1\<rparr>;
          s3 = print ([CHR 0x0A] @ ''    ****  You have died  ****'' @ [CHR 0x0A]) s2
      in bind_err (drop_everything (player_inventory s3) s3) (\<lambda>s4.
           let s5 = s4\<lparr>current_room := ''west_of_house''\<rparr>;
               s6 = print ''As you take your last breath, you feel yourself being pulled from your body.'' s5;
               s7 = print ''You float upward, watching your corpse below. Suddenly, you find yourself...'' s6;
               s8 = print [] s7
           in look None s8))"

text \<open>\<^verbatim>\<open>ZorkGame._check_light\<close>.\<close>

definition check_light :: "ZorkGame \<Rightarrow> error + ZorkGame" where
  "check_light s =
     bind_err (get_room s (current_room s)) (\<lambda>room.
       if room_has_flag room RF_LIT then Inr s
       else bind_err (can_see s) (\<lambda>seen.
         if seen then Inr s
         else
           (let s1 = print ''It is pitch black. You are likely to be eaten by a grue.'' s;
                (r, s2) = randint 1 4 s1
            in if r = 1 then
                 death ''You have died.''
                   (print ([CHR 0x0A] @ ''Oh, no! You have walked into the slavering fangs of a lurking grue!'') s2)
               else Inr s2)))"

section \<open>Movement\<close>

text \<open>Moving to a room and describing it, with or without the darkness check in between.\<close>

definition enter_room :: "string \<Rightarrow> bool \<Rightarrow> ZorkGame \<Rightarrow> error + ZorkGame" where
  "enter_room new_room check s =
     (let s1 = s\<lparr>current_room := new_room\<rparr>
      in if check then bind_err (check_light s1) (look None) else look None s1)"

text \<open>\<^verbatim>\<open>ZorkGame._go\<close>: the special cases in the order of the source, then the exit map.\<close>

definition go_normal :: "Room \<Rightarrow> Direction \<Rightarrow> ZorkGame \<Rightarrow> error + ZorkGame" where
  "go_normal room dir s =
     (case map_of (r_exits room) dir of
        Some new_room \<Rightarrow>
          if new_room = current_room s then Inr (print ''You can't go that way.'' s)
          else enter_room new_room True s
      | None \<Rightarrow> Inr (print ''You can't go that way.'' s))"

definition go_slide :: "Room \<Rightarrow> Direction \<Rightarrow> ZorkGame \<Rightarrow> error + ZorkGame" where
  "go_slide room dir s =
     (if current_room s = ''slide_room'' \<and> dir = DOWN
      then enter_room ''cellar'' False (print ''Wheeeee!'' s)
      else go_normal room dir s)"

definition go_rainbow :: "Room \<Rightarrow> Direction \<Rightarrow> ZorkGame \<Rightarrow> error + ZorkGame" where
  "go_rainbow room dir s =
     (if current_room s = ''end_of_rainbow'' \<and> dir = EAST \<and> \<not> rainbow_solid s
      then Inr (print ''Can you walk on water vapor?'' s)
      else go_slide room dir s)"

definition go_reservoir :: "Room \<Rightarrow> Direction \<Rightarrow> ZorkGame \<Rightarrow> error + ZorkGame" where
  "go_reservoir room dir s =
     (if current_room s = ''reservoir'' \<and> \<not> dam_open s
      then Inr (print ''You can't swim in the deep water.'' s)
      else go_rainbow room dir s)"

definition go_spirits :: "Room \<Rightarrow> Direction \<Rightarrow> ZorkGame \<Rightarrow> error + ZorkGame" where
  "go_spirits room dir s =
     (if current_room s = ''entrance_to_hades'' \<and> dir = SOUTH \<and> \<not> spirits_released s
      then bind_err (get_actor s ''spirits'') (\<lambda>spirits.
             case map_of (a_messages spirits) ''block'' of
               None \<Rightarrow> Inl (KeyError ''block'')
             | Some m \<Rightarrow> Inr (print m s))
      else go_reservoir room dir s)"

definition go_troll :: "Room \<Rightarrow> Direction \<Rightarrow> ZorkGame \<Rightarrow> error + ZorkGame" where
  "go_troll room dir s =
     (if current_room s = ''troll_room'' then
        bind_err (get_actor s ''troll'') (\<lambda>troll.
          if a_location troll = Some ''troll_room'' \<and> a_active troll \<and> \<not> troll_payment s
          then Inr (print ''The troll blocks your way!'' s)
          else go_spirits room dir s)
      else go_spirits room dir s)"

definition go_cyclops :: "Room \<Rightarrow> Direction \<Rightarrow> ZorkGame \<Rightarrow> error + ZorkGame" where
  "go_cyclops room dir s =
     (if current_room s = ''cyclops_room'' \<and> dir = UP then
        bind_err (get_actor s ''cyclops'') (\<lambda>cyclops.
          if a_location cyclops = Some ''cyclops_room'' \<and> a_active cyclops
          then Inr (print ''The cyclops blocks the staircase.'' s)
          else go_troll room dir s)
      else go_troll room dir s)"

definition go :: "Direction \<Rightarrow> ZorkGame \<Rightarrow> error + ZorkGame" where
  "go dir s =
     bind_err (get_room s (current_room s)) (\<lambda>room.
       if current_room s = ''living_room'' \<and> dir = DOWN then
         (if ''trap_door'' \<in> set (map o_id (filter (\<lambda>obj. o_location obj = Some ''living_room'')
                                                (map snd (objects s))))
          then bind_err (get_object s ''trap_door'') (\<lambda>trap_door.
                 if has_flag trap_door OF_OPEN then enter_room ''cellar'' True s
                 else Inr (print ''The trap door is closed.'' s))
          else Inr (print ''You can't go that way.'' s))
       else if current_room s = ''grating_room'' \<and> dir = UP then
         (if grating_unlocked s then enter_room ''clearing'' False s
          else Inr (print ''The grating is locked.'' s))
       else if current_room s = ''behind_house'' \<and> (dir = WEST \<or> dir = IN) then
         bind_err (get_object s ''window'') (\<lambda>window.
           if has_flag window OF_OPEN then enter_room ''kitchen'' False s
           else Inr (print ''The window is closed.'' s))
       else if current_room s = ''living_room'' \<and> dir = WEST then
         (if \<not> cyclops_fled s then Inr (print ''The door is nailed shut.'' s)
          else enter_room ''strange_passage'' False s)
       else go_cyclops room dir s)"

section \<open>Taking, dropping, opening\<close>

text \<open>\<^verbatim>\<open>ZorkGame._take\<close>. The score grows by the value of a treasure at the end of every take.\<close>

definition take :: "ParsedCommand \<Rightarrow> ZorkGame \<Rightarrow> error + ZorkGame" where
  "take command s =
     with_object ''What do you want to take?'' command s (\<lambda>obj_id.
       if map_of (actors s) obj_id \<noteq> None then
         Inr (print (''The '' @ obj_id @ '' is too heavy.'') s)
       else bind_err (get_object s obj_id) (\<lambda>obj.
         if \<not> has_flag obj OF_TAKEABLE then Inr (print ''You can't take that.'' s)
         else if obj_id \<in> set (player_inventory s) then Inr (print ''You already have that.'' s)
         else if (case o_location obj of
                    None \<Rightarrow> False
                  | Some loc \<Rightarrow>
                      (case map_of (objects s) loc of
                         None \<Rightarrow> False
                       | Some container \<Rightarrow>
                           has_flag container OF_CONTAINER \<and>
                           \<not> (has_flag container OF_OPEN \<or> has_flag container OF_TRANSPARENT)))
         then Inr (print (''You can't see any '' @ o_name obj @ '' here.'') s)
         else if length (player_inventory s) \<ge> 7 then Inr (print ''Your load is too heavy.'' s)
         else
           (let s1 = s\<lparr>player_inventory := player_inventory s @ [obj_id]\<rparr>;
                obj1 = obj\<lparr>o_location := Some ''player''\<rparr>;
                s2 = print ''Taken.'' (put_object obj_id obj1 s1)
            in if has_flag obj1 OF_TREASURE then Inr (s2\<lparr>score := score s2 + o_value obj1\<rparr>)
               else Inr s2)))"

text \<open>
  \<^verbatim>\<open>ZorkGame._drop\<close>. In the living room a treasure goes into the open trophy case, and
  every such drop adds one to the counter and the value to the score.
\<close>

definition drop_obj :: "ParsedCommand \<Rightarrow> ZorkGame \<Rightarrow> error + ZorkGame" where
  "drop_obj command s =
     with_object ''What do you want to drop?'' command s (\<lambda>obj_id.
       if obj_id \<notin> set (player_inventory s) then Inr (print ''You don't have that.'' s)
       else bind_err (inventory_remove obj_id s) (\<lambda>s1.
            bind_err (get_object s1 obj_id) (\<lambda>obj.
              let obj1 = obj\<lparr>o_location := Some (current_room s1)\<rparr>;
                  s2 = print ''Dropped.'' (put_object obj_id obj1 s1)
              in if current_room s2 = ''living_room'' then
                   bind_err (get_object s2 ''case'') (\<lambda>trophy_case.
                     if has_flag trophy_case OF_OPEN \<and> has_flag obj1 OF_TREASURE then
                       (let obj2 = obj1\<lparr>o_location := Some ''case''\<rparr>;
                            s3 = put_object obj_id obj2 s2;
                            s4 = s3\<lparr>treasures_deposited := treasures_deposited s3 + 1\<rparr>;
                            s5 = print (''The '' @ o_name obj2 @ '' is now in the trophy case.'') s4
                        in Inr (s5\<lparr>score := score s5 + o_value obj2\<rparr>))
                     else Inr s2)
                 else Inr s2)))"

text \<open>\<^verbatim>\<open>ZorkGame._inventory\<close>.\<close>

fun inventory_lines :: "ZorkGame \<Rightarrow> string list \<Rightarrow> error + string list" where
  "inventory_lines s [] = Inr []"
| "inventory_lines s (obj_id # rest) =
     bind_err (get_object s obj_id) (\<lambda>obj.
     bind_err (inventory_lines s rest) (\<lambda>lines.
       Inr ((''  A '' @ o_description obj) #
            (if has_flag obj OF_TURNEDON then [''    (providing light)''] else []) @ lines)))"

definition inventory :: "ParsedCommand \<Rightarrow> ZorkGame \<Rightarrow> error + ZorkGame" where
  "inventory command s =
     (if player_inventory s = [] then Inr (print ''You are empty-handed.'' s)
      else bind_err (inventory_lines s (player_inventory s)) (\<lambda>lines.
             Inr (print_all (''You are carrying:'' # lines) s)))"

text \<open>
  \<^verbatim>\<open>ZorkGame._open\<close>. The window and the egg are handled before any flag is looked at;
  a locked object is refused after the test for being open already.
\<close>

definition set_exit :: "string \<Rightarrow> Direction \<Rightarrow> string \<Rightarrow> ZorkGame \<Rightarrow> error + ZorkGame" where
  "set_exit room_id dir target s =
     bind_err (get_room s room_id) (\<lambda>room.
       Inr (put_room room_id (room\<lparr>r_exits := AList.update dir target (r_exits room)\<rparr>) s))"

definition del_exit :: "string \<Rightarrow> Direction \<Rightarrow> ZorkGame \<Rightarrow> error + ZorkGame" where
  "del_exit room_id dir s =
     bind_err (get_room s room_id) (\<lambda>room.
       if map_of (r_exits room) dir = None then Inl (KeyError ''Direction'')
       else Inr (put_room room_id (room\<lparr>r_exits := AList.delete dir (r_exits room)\<rparr>) s))"

definition open_machine :: "ZorkGame \<Rightarrow> error + ZorkGame" where
  "open_machine s =
     bind_err (get_object s ''pile_of_coal'') (\<lambda>coal.
       if o_location coal = Some ''machine'' then
         (let s1 = print ''The machine comes to life and creates a beautiful diamond!'' s
          in bind_err (get_object s1 ''diamond'') (\<lambda>diamond.
               del_object ''pile_of_coal''
                 (put_object ''diamond'' (diamond\<lparr>o_location := Some ''machine''\<rparr>) s1)))
       else Inr s)"

definition open_obj :: "ParsedCommand \<Rightarrow> ZorkGame \<Rightarrow> error + ZorkGame" where
  "open_obj command s =
     with_object ''What do you want to open?'' command s (\<lambda>obj_id.
       bind_err (get_object s obj_id) (\<lambda>obj.
         if obj_id = ''window'' then
           (let s1 = print ''With great effort, you open the window far enough to allow entry.'' s;
                s2 = put_object obj_id (set_flag obj OF_OPEN True) s1
            in bind_err (set_exit ''behind_house'' WEST ''kitchen'' s2)
                 (set_exit ''behind_house'' IN ''kitchen''))
         else if obj_id = ''jeweled_egg'' then
           (if has_flag obj OF_OPEN then Inr (print ''It's already open.'' s)
            else Inr (print ''You have neither the tools nor the expertise.'' s))
         else if \<not> (has_flag obj OF_CONTAINER \<or> has_flag obj OF_DOOR) then
           Inr (print ''You can't open that.'' s)
         else if has_flag obj OF_OPEN then Inr (print ''It's already open.'' s)
         else if has_flag obj OF_LOCKED then Inr (print ''It's locked.'' s)
         else
           (let obj1 = set_flag (set_flag obj OF_OPEN True) OF_CLOSED False;
                s1 = print ''Opened.'' (put_object obj_id obj1 s);
                contents = contents_of s1 obj_id;
                s2 = (if has_flag obj1 OF_CONTAINER \<and> contents \<noteq> []
                      then print_all ((''Opening the '' @ o_name obj1 @ '' reveals:'') #
                                      item_lines contents) s1
                      else s1);
                s3 = (if obj_id = ''coffin'' then s2\<lparr>coffin_open := True\<rparr> else s2)
            in if obj_id = ''machine'' then open_machine s3 else Inr s3)))"

text \<open>\<^verbatim>\<open>ZorkGame._close\<close>.\<close>

definition close_obj :: "ParsedCommand \<Rightarrow> ZorkGame \<Rightarrow> error + ZorkGame" where
  "close_obj command s =
     with_object ''What do you want to close?'' command s (\<lambda>obj_id.
       bind_err (get_object s obj_id) (\<lambda>obj.
         if \<not> (has_flag obj OF_CONTAINER \<or> has_flag obj OF_DOOR) then
           Inr (print ''You can't close that.'' s)
         else if has_flag obj OF_CLOSED then Inr (print ''It's already closed.'' s)
         else
           Inr (print ''Closed.''
                 (put_object obj_id (set_flag (set_flag obj OF_OPEN False) OF_CLOSED True) s))))"

section \<open>The other object handlers\<close>

definition get_message :: "Actor \<Rightarrow> string \<Rightarrow> error + string" where
  "get_message actor k =
     (case map_of (a_messages actor) k of None \<Rightarrow> Inl (KeyError k) | Some m \<Rightarrow> Inr m)"

text \<open>\<^verbatim>\<open>ZorkGame._read\<close>.\<close>

definition read_obj :: "ParsedCommand \<Rightarrow> ZorkGame \<Rightarrow> error + ZorkGame" where
  "read_obj command s =
     with_object ''What do you want to read?'' command s (\<lambda>obj_id.
       bind_err (get_object s obj_id) (\<lambda>obj.
         if \<not> has_flag obj OF_READABLE then Inr (print ''There's nothing to read.'' s)
         else
           (let s1 = print (o_examine_text obj) s;
                s2 = (if obj_id = ''book'' then s1\<lparr>book_read := True\<rparr> else s1)
            in if obj_id = ''prayer'' then
                 Inr (print (''The prayer mentions the following words: '' @ [CHR 0x22] @ ''bell''
                             @ [CHR 0x22] @ '', '' @ [CHR 0x22] @ ''book'' @ [CHR 0x22] @ '', and ''
                             @ [CHR 0x22] @ ''candles'' @ [CHR 0x22] @ ''.'') s2)
               else Inr s2)))"

text \<open>\<^verbatim>\<open>ZorkGame._turn_on\<close> and \<^verbatim>\<open>ZorkGame._turn_off\<close>: only the lamp reacts.\<close>

definition turn_on :: "ParsedCommand \<Rightarrow> ZorkGame \<Rightarrow> error + ZorkGame" where
  "turn_on command s =
     with_object ''What do you want to turn on?'' command s (\<lambda>obj_id.
       bind_err (get_object s obj_id) (\<lambda>obj.
         if \<not> has_flag obj OF_TURNNABLE then Inr (print ''You can't turn that on.'' s)
         else if obj_id = ''lamp'' then
           (if lamp_on s then Inr (print ''It's already on.'' s)
            else if lamp_life s > 0 then
              (let obj1 = (set_flag (set_flag obj OF_TURNEDON True) OF_LIGHT True)
                            \<lparr>o_examine_text := ''It is a shiny brass lamp. It is lit.''\<rparr>;
                   s1 = print ''The lamp is now on.'' (put_object obj_id obj1 (s\<lparr>lamp_on := True\<rparr>))
               in bind_err (get_room s1 (current_room s1)) (\<lambda>room.
                    if \<not> room_has_flag room RF_LIT then look None s1 else Inr s1))
            else Inr (print ''The lamp has run out of power.'' s))
         else Inr s))"

definition turn_off :: "ParsedCommand \<Rightarrow> ZorkGame \<Rightarrow> error + ZorkGame" where
  "turn_off command s =
     with_object ''What do you want to turn off?'' command s (\<lambda>obj_id.
       bind_err (get_object s obj_id) (\<lambda>obj.
         if \<not> has_flag obj OF_TURNNABLE then Inr (print ''You can't turn that off.'' s)
         else if obj_id = ''lamp'' then
           (if \<not> lamp_on s then Inr (print ''It's already off.'' s)
            else
              (let obj1 = (set_flag (set_flag obj OF_TURNEDON False) OF_LIGHT False)
                            \<lparr>o_examine_text := ''It is a shiny brass lamp. It is not currently lit.''\<rparr>;
                   s1 = print ''The lamp is now off.'' (put_object obj_id obj1 (s\<lparr>lamp_on := False\<rparr>))
               in check_light s1))
         else Inr s))"

text \<open>\<^verbatim>\<open>ZorkGame._move\<close>: the rug uncovers the trap door, the leaves the grating.\<close>

definition move :: "ParsedCommand \<Rightarrow> ZorkGame \<Rightarrow> error + ZorkGame" where
  "move command s =
     with_object ''What do you want to move?'' command s (\<lambda>obj_id.
       if obj_id = ''rug'' then
         bind_err (get_object s ''trap_door'') (\<lambda>trap_door.
           if o_location trap_door = None then
             Inr (put_object ''trap_door'' (trap_door\<lparr>o_location := Some ''living_room''\<rparr>)
                   (print ''With a great effort, the rug is moved to one side of the room, revealing the dusty cover of a closed trap door.'' s))
           else Inr (print ''Having moved the rug previously, you find it impossible to move it again.'' s))
       else if obj_id = ''leaves'' then
         bind_err (get_object s ''grating'') (\<lambda>grating.
           if o_location grating = None then
             set_exit ''clearing'' DOWN ''grating_room''
               (put_object ''grating'' (grating\<lparr>o_location := Some ''clearing''\<rparr>)
                 (print ''In disturbing the pile of leaves, a grating is revealed.'' s))
           else Inr (print ''You've already done that.'' s))
       else Inr (print ''You can't move that.'' s))"

text \<open>\<^verbatim>\<open>ZorkGame._drain_reservoir\<close> and \<^verbatim>\<open>ZorkGame._fill_reservoir\<close>.\<close>

definition set_description :: "string \<Rightarrow> string \<Rightarrow> ZorkGame \<Rightarrow> error + ZorkGame" where
  "set_description room_id text s =
     bind_err (get_room s room_id) (\<lambda>room.
       Inr (put_room room_id (room\<lparr>r_description := text\<rparr>) s))"

definition drain_reservoir :: "ZorkGame \<Rightarrow> error + ZorkGame" where
  "drain_reservoir s =
     bind_err (set_description ''reservoir'' ''You are in a long room, once a large reservoir. There is a north-south path across the room.'' s) (\<lambda>s1.
     bind_err (get_room s1 ''reservoir'') (\<lambda>room.
     bind_err (set_exit ''reservoir'' NORTH ''reservoir_north''
                 (put_room ''reservoir''
                    (room\<lparr>r_flags := r_flags room AND NOT (RoomFlag_value RF_ONWATER)\<rparr>) s1)) (\<lambda>s2.
     bind_err (set_exit ''reservoir'' SOUTH ''reservoir_south'' s2) (\<lambda>s3.
     bind_err (set_description ''reservoir_south'' ''You are in a long room on the south shore of a dried-up reservoir.'' s3) (\<lambda>s4.
     bind_err (set_description ''reservoir_north'' ''You are in a large cavernous room, north of a dried-up reservoir.'' s4) (\<lambda>s5.
     bind_err (get_object s5 ''trunk'') (\<lambda>trunk.
       let s6 = (if o_location trunk = None
                 then put_object ''trunk'' (trunk\<lparr>o_location := Some ''reservoir_north''\<rparr>) s5
                 else s5)
       in Inr (s6\<lparr>loud_room_level := 8\<rparr>))))))))"

definition fill_reservoir :: "ZorkGame \<Rightarrow> error + ZorkGame" where
  "fill_reservoir s =
     bind_err (set_description ''reservoir'' ''You are on the lake. Beaches can be seen north and south. Upstream a small stream enters the lake through a narrow cleft in the rocks. The dam can be seen downstream.'' s) (\<lambda>s1.
     bind_err (get_room s1 ''reservoir'') (\<lambda>room.
     bind_err (set_description ''reservoir_south'' ''You are in a long room on the south shore of a large lake, far too deep and wide for crossing.''
                 (put_room ''reservoir''
                    (room\<lparr>r_flags := r_flags room OR RoomFlag_value RF_ONWATER\<rparr>) s1)) (\<lambda>s2.
     bind_err (set_description ''reservoir_north'' ''You are in a large cavernous room, north of a large lake.'' s2) (\<lambda>s3.
       Inr (s3\<lparr>loud_room_level := 4\<rparr>)))))"

text \<open>\<^verbatim>\<open>ZorkGame._push\<close>.\<close>

definition push :: "ParsedCommand \<Rightarrow> ZorkGame \<Rightarrow> error + ZorkGame" where
  "push command s =
     with_object ''What do you want to push?'' command s (\<lambda>obj_id.
       if obj_id \<in> set [''green_button'', ''red_button'', ''button''] \<and> current_room s = ''dam'' then
         (if obj_id = ''green_button'' \<or> (obj_id = ''button'' \<and> \<not> dam_open s) then
            (if \<not> dam_open s then
               drain_reservoir
                 ((print ''The sluice gates open and water pours through the dam.'' s)\<lparr>dam_open := True\<rparr>)
             else Inr (print ''The gates are already open.'' s))
          else if obj_id = ''red_button'' \<or> (obj_id = ''button'' \<and> dam_open s) then
            (if dam_open s then
               fill_reservoir
                 ((print ''The sluice gates close and water starts to accumulate.'' s)\<lparr>dam_open := False\<rparr>)
             else Inr (print ''The gates are already closed.'' s))
          else Inr s)
       else move command s)"

text \<open>\<^verbatim>\<open>ZorkGame._attack\<close>: one outcome table per actor.\<close>

definition attack :: "ParsedCommand \<Rightarrow> ZorkGame \<Rightarrow> error + ZorkGame" where
  "attack command s =
     with_object ''What do you want to attack?'' command s (\<lambda>target.
       case map_of (actors s) target of
         None \<Rightarrow> Inr (print ''I don't know what you're trying to attack.'' s)
       | Some actor \<Rightarrow>
           if a_location actor \<noteq> Some (current_room s) then
             Inr (print ''You don't see that here.'' s)
           else if target = ''troll'' then
             (if ''sword'' \<in> set (player_inventory s) then
                bind_err (get_message actor ''death'') (\<lambda>m.
                  let s1 = print_all [''The troll takes a vicious swipe at you with his axe, but you deftly dodge.'',
                                      ''You charge the troll, who attempts to dodge, but is unsuccessful.'',
                                      m] s;
                      s2 = put_actor target (actor\<lparr>a_active := False, a_location := None\<rparr>) s1
                  in bind_err (get_object s2 ''axe'') (\<lambda>axe.
                       if o_location axe = Some ''troll''
                       then Inr (put_object ''axe'' (axe\<lparr>o_location := Some ''troll_room''\<rparr>) s2)
                       else Inr s2))
              else
                death ''The troll hits you with a crushing blow.''
                  (print ''Trying to attack the troll with your bare hands is suicidal.'' s))
           else if target = ''thief'' then
             (let s1 = print ''The thief is a formidable opponent. He dodges your attack.'' s;
                  (r, s2) = randint 1 3 s1
              in if r = 1 then
                   bind_err (get_message actor ''stiletto'') (\<lambda>m.
                     death ''The thief stabs you with his stiletto.'' (print m s2))
                 else Inr s2)
           else if target = ''cyclops'' then
             death ''The cyclops has knocked you senseless.''
               (print_all [''The cyclops laughs at your puny attack!'',
                           ''The cyclops hits you with a crushing blow.''] s)
           else if target = ''spirits'' then Inr (print ''How can you attack spirits?'' s)
           else if target = ''bat'' then
             Inr (put_actor target (actor\<lparr>a_location := None\<rparr>)
                   (print ''The bat flies away from your attack.'' s))
           else Inr s)"

text \<open>\<^verbatim>\<open>ZorkGame._eat\<close>, \<^verbatim>\<open>ZorkGame._drink\<close> and \<^verbatim>\<open>ZorkGame._give\<close>.\<close>

definition eat :: "ParsedCommand \<Rightarrow> ZorkGame \<Rightarrow> error + ZorkGame" where
  "eat command s =
     with_object ''What do you want to eat?'' command s (\<lambda>obj_id.
       bind_err (get_object s obj_id) (\<lambda>obj.
         if \<not> has_flag obj OF_EDIBLE then
           Inr (print (''I don't think the '' @ o_name obj @ '' would agree with you.'') s)
         else if obj_id \<notin> set (player_inventory s) then Inr (print ''You don't have that.'' s)
         else
           bind_err (inventory_remove obj_id
                       (print ''Thank you very much. It really hit the spot.'' s))
             (del_object obj_id)))"

definition drink :: "ParsedCommand \<Rightarrow> ZorkGame \<Rightarrow> error + ZorkGame" where
  "drink command s =
     with_object ''What do you want to drink?'' command s (\<lambda>obj_id.
       bind_err (get_object s obj_id) (\<lambda>obj.
         if \<not> has_flag obj OF_DRINKABLE then Inr (print ''You can't drink that!'' s)
         else
           (let s1 = print ''Thank you very much. I was very thirsty.'' s
            in if obj_id = ''water'' then
                 bind_err (get_object s1 ''bottle'') (\<lambda>bottle.
                   del_object ''water''
                     (put_object ''bottle''
                        (bottle\<lparr>o_examine_text := ''The glass bottle is empty.''\<rparr>) s1))
               else Inr s1)))"

definition give :: "ParsedCommand \<Rightarrow> ZorkGame \<Rightarrow> error + ZorkGame" where
  "give command s =
     with_object ''What do you want to give?'' command s (\<lambda>obj_id.
       if current_room s \<noteq> ''troll_room'' then
         Inr (print ''There's no one here to give it to.'' s)
       else
         bind_err (get_actor s ''troll'') (\<lambda>troll.
           if \<not> a_active troll then Inr (print ''There's no one here to give it to.'' s)
           else if obj_id \<in> set (player_inventory s) then
             bind_err (get_object s obj_id) (\<lambda>obj.
               if has_flag obj OF_TREASURE then
                 bind_err (inventory_remove obj_id
                             (print ''The troll catches your treasure and scurries away out of sight.'' s)) (\<lambda>s1.
                 bind_err (del_object obj_id s1) (\<lambda>s2.
                 bind_err (get_actor s2 ''troll'') (\<lambda>troll2.
                   Inr ((put_actor ''troll'' (troll2\<lparr>a_active := False, a_location := None\<rparr>) s2)
                          \<lparr>troll_payment := True\<rparr>))))
               else Inr (print ''The troll is not interested in your offering.'' s))
           else Inr (print ''You don't have that.'' s)))"

section \<open>Puzzle handlers\<close>

text \<open>\<^verbatim>\<open>ZorkGame._unlock\<close>: only the grating, once it has a location, with the skeleton key.\<close>

definition unlock :: "ParsedCommand \<Rightarrow> ZorkGame \<Rightarrow> error + ZorkGame" where
  "unlock command s =
     with_object ''What do you want to unlock?'' command s (\<lambda>obj_id.
       if obj_id \<noteq> ''grating'' then Inr (print ''You can't unlock that.'' s)
       else
         bind_err (get_object s ''grating'') (\<lambda>grating.
           if o_location grating = None then Inr (print ''You can't unlock that.'' s)
           else if ''skeleton_key'' \<in> set (player_inventory s) then
             (let s1 = (print ''The grating is unlocked.'' s)\<lparr>grating_unlocked := True\<rparr>;
                  s2 = put_object ''grating'' (set_flag grating OF_LOCKED False) s1
              in set_exit ''grating_room'' UP ''clearing'' s2)
           else Inr (print ''You don't have the right key.'' s)))"

text \<open>\<^verbatim>\<open>ZorkGame._lock\<close>.\<close>

definition lock :: "ParsedCommand \<Rightarrow> ZorkGame \<Rightarrow> error + ZorkGame" where
  "lock command s =
     with_object ''What do you want to lock?'' command s (\<lambda>obj_id.
       Inr (print ''You can't lock that.'' s))"

text \<open>\<^verbatim>\<open>ZorkGame._tie\<close> and \<^verbatim>\<open>ZorkGame._untie\<close>.\<close>

definition tie_at :: "string \<Rightarrow> string \<Rightarrow> string \<Rightarrow> ZorkGame \<Rightarrow> error + ZorkGame" where
  "tie_at message room_id target s =
     bind_err (get_object s ''rope'') (\<lambda>rope.
     bind_err (inventory_remove ''rope''
                 (put_object ''rope'' (rope\<lparr>o_location := Some room_id\<rparr>) (print message s)))
       (set_exit room_id DOWN target))"

definition tie :: "ParsedCommand \<Rightarrow> ZorkGame \<Rightarrow> error + ZorkGame" where
  "tie command s =
     with_object ''What do you want to tie?'' command s (\<lambda>obj_id.
       if obj_id = ''rope'' \<and> ''rope'' \<in> set (player_inventory s) then
         (if current_room s = ''dome_room'' then
            tie_at ''The rope is tied to the wooden railing.'' ''dome_room'' ''torch_room'' s
          else if current_room s = ''shaft_room'' then
            tie_at ''The rope is tied to the iron framework.'' ''shaft_room'' ''drafty_room'' s
          else Inr (print ''You can't tie the rope to anything here.'' s))
       else Inr (print ''You can't tie that.'' s))"

definition untie :: "ParsedCommand \<Rightarrow> ZorkGame \<Rightarrow> error + ZorkGame" where
  "untie command s =
     with_object ''What do you want to untie?'' command s (\<lambda>obj_id.
       if obj_id = ''rope'' then
         bind_err (get_object s ''rope'') (\<lambda>rope.
           if o_location rope \<in> {Some ''dome_room'', Some ''shaft_room''} then
             (let s1 = (print ''The rope is untied.'' s)
                         \<lparr>player_inventory := player_inventory s @ [''rope'']\<rparr>;
                  s2 = put_object ''rope'' (rope\<lparr>o_location := Some ''player''\<rparr>) s1
              in if current_room s2 = ''dome_room'' then del_exit ''dome_room'' DOWN s2
                 else if current_room s2 = ''shaft_room'' then del_exit ''shaft_room'' DOWN s2
                 else Inr s2)
           else Inr (print ''The rope is not tied to anything.'' s))
       else Inr (print ''You can't untie that.'' s))"

text \<open>\<^verbatim>\<open>ZorkGame._burn\<close>: the flame test reads the torch first and the candles only then.\<close>

definition has_flame :: "ZorkGame \<Rightarrow> error + bool" where
  "has_flame s =
     bind_err (get_object s ''torch'') (\<lambda>torch.
       if o_location torch = Some ''player'' \<and> has_flag torch OF_TURNEDON then Inr True
       else bind_err (get_object s ''candles'') (\<lambda>candles.
         if o_location candles = Some ''player'' \<and> candles_lit s then Inr True
         else Inr (''matchbook'' \<in> set (player_inventory s))))"

definition burn :: "ParsedCommand \<Rightarrow> ZorkGame \<Rightarrow> error + ZorkGame" where
  "burn command s =
     with_object ''What do you want to burn?'' command s (\<lambda>obj_id.
       bind_err (get_object s obj_id) (\<lambda>obj.
         if has_flag obj OF_FLAMMABLE then
           bind_err (has_flame s) (\<lambda>flame.
             if flame then
               (if obj_id = ''candles'' then
                  Inr (put_object obj_id (set_flag (set_flag obj OF_LIGHT True) OF_TURNEDON True)
                        ((print ''The candles are lit.'' s)\<lparr>candles_lit := True\<rparr>))
                else
                  (let s1 = print (''The '' @ o_name obj @ '' burns to ashes.'') s
                   in if obj_id \<in> set (player_inventory s1)
                      then bind_err (inventory_remove obj_id s1) (del_object obj_id)
                      else del_object obj_id s1))
             else Inr (print ''You have no flame source.'' s))
         else Inr (print ''You can't burn that.'' s)))"

text \<open>\<^verbatim>\<open>ZorkGame._extinguish\<close>.\<close>

definition extinguish :: "ParsedCommand \<Rightarrow> ZorkGame \<Rightarrow> error + ZorkGame" where
  "extinguish command s =
     with_object ''What do you want to extinguish?'' command s (\<lambda>obj_id.
       if obj_id = ''candles'' \<and> candles_lit s then
         bind_err (get_object s ''candles'') (\<lambda>candles.
           Inr (put_object ''candles''
                  (set_flag (set_flag candles OF_LIGHT False) OF_TURNEDON False)
                  ((print ''The candles are extinguished.'' s)\<lparr>candles_lit := False\<rparr>)))
       else if obj_id = ''torch'' then Inr (print ''You can't extinguish that.'' s)
       else turn_off command s)"

text \<open>\<^verbatim>\<open>ZorkGame._check_exorcism\<close> and \<^verbatim>\<open>ZorkGame._ring\<close>.\<close>

definition check_exorcism :: "ZorkGame \<Rightarrow> error + ZorkGame" where
  "check_exorcism s =
     (if current_room s = ''entrance_to_hades'' \<and> bell_rung s \<and> book_read s \<and> candles_lit s then
        bind_err (get_actor s ''spirits'') (\<lambda>spirits.
        bind_err (get_message spirits ''exorcise'') (\<lambda>m.
          let s1 = print_all [[CHR 0x0A] @ ''Suddenly, the bell, book, and candles begin to glow!'', m] s;
              s2 = s1\<lparr>spirits_released := True\<rparr>;
              s3 = put_actor ''spirits'' (spirits\<lparr>a_active := False, a_location := None\<rparr>) s2
          in set_exit ''entrance_to_hades'' SOUTH ''land_of_the_dead'' s3))
      else Inr s)"

definition ring :: "ParsedCommand \<Rightarrow> ZorkGame \<Rightarrow> error + ZorkGame" where
  "ring command s =
     with_object ''What do you want to ring?'' command s (\<lambda>obj_id.
       if obj_id = ''bell'' \<and> obj_id \<in> set (player_inventory s) then
         check_exorcism ((print ''Ding, dong.'' s)\<lparr>bell_rung := True\<rparr>)
       else Inr (print ''You can't ring that.'' s))"

text \<open>\<^verbatim>\<open>ZorkGame._wind\<close>: the bauble is a new table entry in the current room.\<close>

definition bauble :: "string \<Rightarrow> GameObject" where
  "bauble room_id = \<lparr>
     o_id = ''bauble'',
     o_name = ''bauble'',
     o_description = ''beautiful brass bauble'',
     o_examine_text = ''It's a beautiful brass bauble.'',
     o_initial_text = '''',
     o_flags = ObjectFlag_value OF_TAKEABLE OR ObjectFlag_value OF_TREASURE,
     o_location = Some room_id,
     o_capacity = 0,
     o_size = 1,
     o_value = 1\<rparr>"

definition wind :: "ParsedCommand \<Rightarrow> ZorkGame \<Rightarrow> error + ZorkGame" where
  "wind command s =
     with_object ''What do you want to wind?'' command s (\<lambda>obj_id.
       if obj_id = ''canary'' \<and> ''golden_canary'' \<in> set (player_inventory s) then
         Inr (put_object ''bauble'' (bauble (current_room s))
               (print ''The canary chirps, slightly off-key, an aria from a forgotten opera. From out of the greenery flies a lovely songbird. It perches on a limb just over your head and opens its beak to sing. As it does so a beautiful brass bauble drops from its mouth, bounces off the top of your head, and lands glimmering in the grass. As the canary winds down, the songbird flies away.'' s))
       else Inr (print ''You can't wind that.'' s))"

text \<open>\<^verbatim>\<open>ZorkGame._dig\<close>.\<close>

definition dig :: "ParsedCommand \<Rightarrow> ZorkGame \<Rightarrow> error + ZorkGame" where
  "dig command s =
     (if ''shovel'' \<notin> set (player_inventory s) then
        Inr (print ''You don't have anything to dig with.'' s)
      else if current_room s = ''white_cliffs_beach_south'' then
        bind_err (get_object s ''jeweled_scarab'') (\<lambda>scarab.
          if o_location scarab = None then
            Inr (put_object ''jeweled_scarab''
                   (scarab\<lparr>o_location := Some ''white_cliffs_beach_south''\<rparr>)
                   (print ''You dig in the sand and uncover a beautiful scarab!'' s))
          else Inr (print ''You find nothing else.'' s))
      else Inr (print ''The ground is too hard to dig here.'' s))"

text \<open>\<^verbatim>\<open>ZorkGame._fill\<close> and \<^verbatim>\<open>ZorkGame._pour\<close>.\<close>

definition water :: GameObject where
  "water = \<lparr>
     o_id = ''water'',
     o_name = ''water'',
     o_description = ''quantity of water'',
     o_examine_text = '''',
     o_initial_text = '''',
     o_flags = ObjectFlag_value OF_DRINKABLE,
     o_location = Some ''bottle'',
     o_capacity = 0,
     o_size = 1,
     o_value = 0\<rparr>"

definition in_bottle :: "ZorkGame \<Rightarrow> string list" where
  "in_bottle s = map o_id (filter (\<lambda>obj. o_location obj = Some ''bottle'') (map snd (objects s)))"

definition fill :: "ParsedCommand \<Rightarrow> ZorkGame \<Rightarrow> error + ZorkGame" where
  "fill command s =
     with_object ''What do you want to fill?'' command s (\<lambda>obj_id.
       if obj_id = ''bottle'' \<and> obj_id \<in> set (player_inventory s) then
         bind_err (if current_room s \<in> set [''stream'', ''reservoir''] then Inr True
                   else bind_err (get_room s (current_room s)) (\<lambda>room.
                          Inr (room_has_flag room RF_ONWATER))) (\<lambda>wet.
           if wet then
             (if ''water'' \<notin> set (in_bottle s) then
                (let s1 = put_object ''water'' water (print ''The bottle is now full of water.'' s)
                 in bind_err (get_object s1 ''bottle'') (\<lambda>bottle.
                      Inr (put_object ''bottle''
                             (bottle\<lparr>o_examine_text := ''The glass bottle contains:'' @ [CHR 0x0A] @ ''  A quantity of water''\<rparr>)
                             s1)))
              else Inr (print ''The bottle is already full.'' s))
           else Inr (print ''There's no water here.'' s))
       else Inr (print ''You can't fill that.'' s))"

definition pour :: "ParsedCommand \<Rightarrow> ZorkGame \<Rightarrow> error + ZorkGame" where
  "pour command s =
     with_object ''What do you want to pour?'' command s (\<lambda>obj_id.
       if obj_id = ''water'' then
         (if ''water'' \<in> set (map o_id (filter (\<lambda>obj. o_location obj = Some ''bottle'' \<and>
                                                      ''bottle'' \<in> set (player_inventory s))
                                           (map snd (objects s))))
          then
            bind_err (del_object ''water''
                        (print ''The water splashes on the ground and evaporates.'' s)) (\<lambda>s1.
            bind_err (get_object s1 ''bottle'') (\<lambda>bottle.
              Inr (put_object ''bottle''
                     (bottle\<lparr>o_examine_text := ''The glass bottle is empty.''\<rparr>) s1)))
          else Inr (print ''You don't have any water.'' s))
       else Inr (print ''You can't pour that.'' s))"

text \<open>\<^verbatim>\<open>ZorkGame._pray\<close>.\<close>

definition pray :: "ParsedCommand \<Rightarrow> ZorkGame \<Rightarrow> error + ZorkGame" where
  "pray command s =
     (if current_room s = ''altar'' then
        set_exit ''altar'' DOWN ''cave_1''
          (print ''The ground shakes and a passage opens beneath you!'' s)
      else Inr (print ''Nothing happens.'' s))"

text \<open>\<^verbatim>\<open>ZorkGame._wave\<close>: the sceptre switches the rainbow on and off.\<close>

definition wave :: "ParsedCommand \<Rightarrow> ZorkGame \<Rightarrow> error + ZorkGame" where
  "wave command s =
     with_object ''What do you want to wave?'' command s (\<lambda>obj_id.
       if obj_id = ''sceptre'' \<and> obj_id \<in> set (player_inventory s) then
         (if current_room s = ''end_of_rainbow'' \<or> current_room s = ''aragain_falls'' then
            (if \<not> rainbow_solid s then
               bind_err (set_exit ''end_of_rainbow'' EAST ''on_the_rainbow''
                           ((print ''Suddenly, the rainbow appears to become solid and you can walk on it!'' s)
                              \<lparr>rainbow_solid := True\<rparr>)) (\<lambda>s1.
               bind_err (set_exit ''on_the_rainbow'' WEST ''end_of_rainbow'' s1) (\<lambda>s2.
               bind_err (set_exit ''on_the_rainbow'' EAST ''aragain_falls'' s2)
                 (set_exit ''aragain_falls'' WEST ''on_the_rainbow'')))
             else
               bind_err (del_exit ''end_of_rainbow'' EAST
                           ((print ''The rainbow seems to waver and become less solid.'' s)
                              \<lparr>rainbow_solid := False\<rparr>))
                 (del_exit ''aragain_falls'' WEST))
          else Inr (print ''A dazzling display of color briefly emanates from the sceptre.'' s))
       else
         bind_err (get_object s obj_id) (\<lambda>obj.
           Inr (print (''You wave the '' @ o_name obj @ ''.'') s)))"

text \<open>\<^verbatim>\<open>ZorkGame._raise\<close> and \<^verbatim>\<open>ZorkGame._lower\<close>.\<close>

definition raise_obj :: "ParsedCommand \<Rightarrow> ZorkGame \<Rightarrow> error + ZorkGame" where
  "raise_obj command s =
     with_object ''What do you want to raise?'' command s (\<lambda>obj_id.
       Inr (print ''You can't raise that.'' s))"

definition lower :: "ParsedCommand \<Rightarrow> ZorkGame \<Rightarrow> error + ZorkGame" where
  "lower command s =
     with_object ''What do you want to lower?'' command s (\<lambda>obj_id.
       if obj_id = ''basket'' \<and> current_room s = ''shaft_room'' then
         (if ''basket'' \<in> set (player_inventory s) then
            bind_err (get_object s ''basket'') (\<lambda>basket.
              inventory_remove ''basket''
                (put_object ''basket'' (basket\<lparr>o_location := Some ''drafty_room''\<rparr>)
                  (print ''The basket is lowered on the chain.'' s)))
          else Inr (print ''You're not carrying the basket.'' s))
       else Inr (print ''You can't lower that.'' s))"

text \<open>\<^verbatim>\<open>ZorkGame._climb\<close> and \<^verbatim>\<open>ZorkGame._jump\<close>.\<close>

definition climb :: "ParsedCommand \<Rightarrow> ZorkGame \<Rightarrow> error + ZorkGame" where
  "climb command s =
     bind_err (if current_room s = ''dome_room''
               then bind_err (get_object s ''rope'') (\<lambda>rope.
                      Inr (o_location rope = Some ''dome_room''))
               else Inr False) (\<lambda>roped.
       if roped then
         enter_room ''torch_room'' False (print ''You climb down the rope.'' s)
       else
         bind_err (get_room s (current_room s)) (\<lambda>room.
           if map_of (r_exits room) UP \<noteq> None then go UP s
           else if map_of (r_exits room) DOWN \<noteq> None then go DOWN s
           else Inr (print ''There's nothing to climb here.'' s)))"

definition jump :: "ParsedCommand \<Rightarrow> ZorkGame \<Rightarrow> error + ZorkGame" where
  "jump command s =
     (if current_room s = ''aragain_falls'' then
        death ''You didn't make it.'' (print ''You jump off the falls...'' s)
      else Inr (print ''Wheee!'' s))"

text \<open>\<^verbatim>\<open>ZorkGame._break\<close>.\<close>

definition break_obj :: "ParsedCommand \<Rightarrow> ZorkGame \<Rightarrow> error + ZorkGame" where
  "break_obj command s =
     with_object ''What do you want to break?'' command s (\<lambda>obj_id.
       if obj_id = ''mirror_south'' \<or> obj_id = ''mirror_north'' then
         (if \<not> mirror_broken s then
            bind_err (set_exit ''mirror_room_south'' NORTH ''mirror_room_north''
                        ((print ''You have broken the mirror. The looking glass is now gone.'' s)
                           \<lparr>mirror_broken := True\<rparr>)) (\<lambda>s1.
            bind_err (set_exit ''mirror_room_north'' SOUTH ''mirror_room_south'' s1) (\<lambda>s2.
            bind_err (del_object ''mirror_south'' s2) (del_object ''mirror_north'')))
          else Inr (print ''The mirror is already broken.'' s))
       else if obj_id = ''jeweled_egg'' then
         bind_err (get_object s ''jeweled_egg'') (\<lambda>egg.
           Inr (put_object ''jeweled_egg'' ((set_flag egg OF_OPEN True)\<lparr>o_value := 2\<rparr>)
                 (print ''The egg is now open, but the clumsiness of your attempt has seriously compromised its esthetic appeal.'' s)))
       else Inr (print ''You can't break that.'' s))"

section \<open>Session commands\<close>

text \<open>\<^verbatim>\<open>s.lower()\<close> and \<^verbatim>\<open>s.strip()\<close> on ASCII text.\<close>

definition lower_char :: "char \<Rightarrow> char" where
  "lower_char c =
     (case map_of (zip ''ABCDEFGHIJKLMNOPQRSTUVWXYZ'' ''abcdefghijklmnopqrstuvwxyz'') c of
        Some l \<Rightarrow> l
      | None \<Rightarrow> c)"

definition lower_str :: "string \<Rightarrow> string" where
  "lower_str s = map lower_char s"

definition strip :: "string \<Rightarrow> string" where
  "strip s = rev (dropWhile is_space (rev (dropWhile is_space s)))"

text \<open>\<^verbatim>\<open>ZorkGame._get_rank\<close>, \<^verbatim>\<open>ZorkGame._score\<close> and \<^verbatim>\<open>ZorkGame._show_final_score\<close>.\<close>

definition get_rank :: "ZorkGame \<Rightarrow> string" where
  "get_rank s =
     (if score s \<ge> 350 then ''Master Adventurer''
      else if score s \<ge> 330 then ''Wizard''
      else if score s \<ge> 300 then ''Master''
      else if score s \<ge> 200 then ''Adventurer''
      else if score s \<ge> 100 then ''Junior Adventurer''
      else if score s \<ge> 50 then ''Novice Adventurer''
      else if score s \<ge> 25 then ''Amateur Adventurer''
      else ''Beginner'')"

definition show_score :: "ParsedCommand \<Rightarrow> ZorkGame \<Rightarrow> error + ZorkGame" where
  "show_score command s =
     Inr (print_all
       [''Your score is '' @ str_int (score s) @ '' (total of '' @ str_int 350 @ '' points), in ''
          @ str_int (moves s) @ '' moves.'',
        ''This gives you the rank of '' @ get_rank s @ ''.''] s)"

definition show_final_score :: "ZorkGame \<Rightarrow> ZorkGame" where
  "show_final_score s =
     print_all
       ([[], ''In '' @ str_int (moves s) @ '' moves, you have scored '' @ str_int (score s)
              @ '' points (total of 350 points).'',
         ''This gives you the rank of '' @ get_rank s @ ''.'']
        @ (if deaths s > 0 then [''You died '' @ str_int (deaths s) @ '' times.''] else [])) s"

text \<open>\<^verbatim>\<open>ZorkGame._quit\<close>.\<close>

definition quit :: "ParsedCommand \<Rightarrow> ZorkGame \<Rightarrow> error + ZorkGame" where
  "quit command s =
     bind_err (input ''Are you sure you want to quit? '' s) (\<lambda>(response, s1).
       if startswith (lower_str response) ''y''
       then Inr ((show_final_score s1)\<lparr>game_over := True\<rparr>)
       else Inr s1)"

text \<open>
  \<^verbatim>\<open>ZorkGame._save\<close>. \<open>save_data_of\<close> is the dictionary it builds: every key is present.
\<close>

definition save_data_of :: "ZorkGame \<Rightarrow> save_data" where
  "save_data_of s = \<lparr>
     sd_player_name = Some (player_name s),
     sd_current_room = Some (current_room s),
     sd_inventory = Some (player_inventory s),
     sd_score = Some (score s),
     sd_moves = Some (moves s),
     sd_deaths = Some (deaths s),
     sd_visited_rooms = Some (visited_rooms s),
     sd_lamp_on = Some (lamp_on s),
     sd_lamp_life = Some (lamp_life s),
     sd_grating_unlocked = Some (grating_unlocked s),
     sd_trap_door_open = Some (trap_door_open s),
     sd_rainbow_solid = Some (rainbow_solid s),
     sd_dam_open = Some (dam_open s),
     sd_loud_room_level = Some (loud_room_level s),
     sd_coffin_open = Some (coffin_open s),
     sd_bell_rung = Some (bell_rung s),
     sd_candles_lit = Some (candles_lit s),
     sd_book_read = Some (book_read s),
     sd_spirits_released = Some (spirits_released s),
     sd_cyclops_fled = Some (cyclops_fled s),
     sd_mirror_broken = Some (mirror_broken s),
     sd_troll_payment = Some (troll_payment s),
     sd_thief_here = Some (thief_here s),
     sd_treasures_deposited = Some (treasures_deposited s),
     sd_objects = Some (map (\<lambda>(obj_id, obj).
                    (obj_id, \<lparr>od_location = Some (o_location obj), od_flags = Some (o_flags obj),
                              od_value = Some (o_value obj)\<rparr>)) (objects s)),
     sd_actors = Some (map (\<lambda>(actor_id, actor).
                    (actor_id, \<lparr>ad_location = Some (a_location actor),
                                ad_health = Some (a_health actor),
                                ad_active = Some (a_active actor)\<rparr>)) (actors s))\<rparr>"

definition save :: "ParsedCommand \<Rightarrow> ZorkGame \<Rightarrow> error + ZorkGame" where
  "save command s =
     bind_err (input ''Save filename: '' s) (\<lambda>(filename, s1).
       case write_error s1 filename of
         Some msg \<Rightarrow> Inr (print (''Save failed: '' @ msg) s1)
       | None \<Rightarrow>
           Inr (print ''Game saved.'' (s1\<lparr>fs := (fs s1)(filename \<mapsto> Json (save_data_of s1))\<rparr>)))"

text \<open>
  \<^verbatim>\<open>ZorkGame._restore\<close>. The body of its \<^verbatim>\<open>try\<close> assigns attribute after attribute; each
  function below returns the exception raised, if any, with the state reached at that point.
  Keys read with \<^verbatim>\<open>save_data[...]\<close> raise when missing, keys read with \<^verbatim>\<open>.get\<close> have a
  default.
\<close>

definition restore_flags :: "save_data \<Rightarrow> ZorkGame \<Rightarrow> ZorkGame" where
  "restore_flags d s = s\<lparr>
     lamp_life := (case sd_lamp_life d of None \<Rightarrow> 330 | Some v \<Rightarrow> v),
     grating_unlocked := (case sd_grating_unlocked d of None \<Rightarrow> False | Some v \<Rightarrow> v),
     trap_door_open := (case sd_trap_door_open d of None \<Rightarrow> False | Some v \<Rightarrow> v),
     rainbow_solid := (case sd_rainbow_solid d of None \<Rightarrow> False | Some v \<Rightarrow> v),
     dam_open := (case sd_dam_open d of None \<Rightarrow> False | Some v \<Rightarrow> v),
     loud_room_level := (case sd_loud_room_level d of None \<Rightarrow> 4 | Some v \<Rightarrow> v),
     coffin_open := (case sd_coffin_open d of None \<Rightarrow> False | Some v \<Rightarrow> v),
     bell_rung := (case sd_bell_rung d of None \<Rightarrow> False | Some v \<Rightarrow> v),
     candles_lit := (case sd_candles_lit d of None \<Rightarrow> False | Some v \<Rightarrow> v),
     book_read := (case sd_book_read d of None \<Rightarrow> False | Some v \<Rightarrow> v),
     spirits_released := (case sd_spirits_released d of None \<Rightarrow> False | Some v \<Rightarrow> v),
     cyclops_fled := (case sd_cyclops_fled d of None \<Rightarrow> False | Some v \<Rightarrow> v),
     mirror_broken := (case sd_mirror_broken d of None \<Rightarrow> False | Some v \<Rightarrow> v),
     troll_payment := (case sd_troll_payment d of None \<Rightarrow> False | Some v \<Rightarrow> v),
     thief_here := (case sd_thief_here d of None \<Rightarrow> False | Some v \<Rightarrow> v),
     treasures_deposited := (case sd_treasures_deposited d of None \<Rightarrow> 0 | Some v \<Rightarrow> v)\<rparr>"

definition restore_attributes :: "save_data \<Rightarrow> ZorkGame \<Rightarrow> error option \<times> ZorkGame" where
  "restore_attributes d s =
     (let s1 = s\<lparr>player_name := (case sd_player_name d of None \<Rightarrow> ''Adventurer'' | Some v \<Rightarrow> v)\<rparr>
      in case sd_current_room d of
           None \<Rightarrow> (Some (KeyError ''current_room''), s1)
         | Some room_id \<Rightarrow>
     (let s2 = s1\<lparr>current_room := room_id\<rparr>
      in case sd_inventory d of
           None \<Rightarrow> (Some (KeyError ''inventory''), s2)
         | Some carried \<Rightarrow>
     (let s3 = s2\<lparr>player_inventory := carried\<rparr>
      in case sd_score d of
           None \<Rightarrow> (Some (KeyError ''score''), s3)
         | Some sc \<Rightarrow>
     (let s4 = s3\<lparr>score := sc\<rparr>
      in case sd_moves d of
           None \<Rightarrow> (Some (KeyError ''moves''), s4)
         | Some m \<Rightarrow>
     (let s5 = s4\<lparr>moves := m, deaths := (case sd_deaths d of None \<Rightarrow> 0 | Some v \<Rightarrow> v)\<rparr>
      in case sd_visited_rooms d of
           None \<Rightarrow> (Some (KeyError ''visited_rooms''), s5)
         | Some visited \<Rightarrow>
     (let s6 = s5\<lparr>visited_rooms := visited\<rparr>
      in case sd_lamp_on d of
           None \<Rightarrow> (Some (KeyError ''lamp_on''), s6)
         | Some l \<Rightarrow> (None, restore_flags d (s6\<lparr>lamp_on := l\<rparr>))))))))"

fun restore_objects :: "(string \<times> object_data) list \<Rightarrow> ZorkGame \<Rightarrow> error option \<times> ZorkGame" where
  "restore_objects [] s = (None, s)"
| "restore_objects ((obj_id, obj_data) # rest) s =
     (case map_of (objects s) obj_id of
        None \<Rightarrow> restore_objects rest s
      | Some obj \<Rightarrow>
          (case od_location obj_data of
             None \<Rightarrow> (Some (KeyError ''location''), s)
           | Some loc \<Rightarrow>
          (let obj1 = obj\<lparr>o_location := loc\<rparr>
           in case od_flags obj_data of
                None \<Rightarrow> (Some (KeyError ''flags''), put_object obj_id obj1 s)
              | Some f \<Rightarrow>
                  restore_objects rest
                    (put_object obj_id
                       (obj1\<lparr>o_flags := f,
                              o_value := (case od_value obj_data of
                                            None \<Rightarrow> o_value obj1
                                          | Some v \<Rightarrow> v)\<rparr>) s))))"

fun restore_actors :: "(string \<times> actor_data) list \<Rightarrow> ZorkGame \<Rightarrow> error option \<times> ZorkGame" where
  "restore_actors [] s = (None, s)"
| "restore_actors ((actor_id, actor_data) # rest) s =
     (case map_of (actors s) actor_id of
        None \<Rightarrow> restore_actors rest s
      | Some actor \<Rightarrow>
          (case ad_location actor_data of
             None \<Rightarrow> (Some (KeyError ''location''), s)
           | Some loc \<Rightarrow>
          (let actor1 = actor\<lparr>a_location := loc\<rparr>
           in case ad_health actor_data of
                None \<Rightarrow> (Some (KeyError ''health''), put_actor actor_id actor1 s)
              | Some h \<Rightarrow>
          (let actor2 = actor1\<lparr>a_health := h\<rparr>
           in case ad_active actor_data of
                None \<Rightarrow> (Some (KeyError ''active''), put_actor actor_id actor2 s)
              | Some a \<Rightarrow>
                  restore_actors rest (put_actor actor_id (actor2\<lparr>a_active := a\<rparr>) s)))))"

definition restore_data :: "save_data \<Rightarrow> ZorkGame \<Rightarrow> error option \<times> ZorkGame" where
  "restore_data d s =
     (case restore_attributes d s of
        (Some e, s1) \<Rightarrow> (Some e, s1)
      | (None, s1) \<Rightarrow>
     (case sd_objects d of
        None \<Rightarrow> (Some (KeyError ''objects''), s1)
      | Some object_entries \<Rightarrow>
     (case restore_objects object_entries s1 of
        (Some e, s2) \<Rightarrow> (Some e, s2)
      | (None, s2) \<Rightarrow>
     (case restore_actors (case sd_actors d of None \<Rightarrow> [] | Some actor_entries \<Rightarrow> actor_entries) s2 of
        (Some e, s3) \<Rightarrow> (Some e, s3)
      | (None, s3) \<Rightarrow> look_partial None (print ''Game restored.'' s3)))))"

text \<open>\<^verbatim>\<open>str(e)\<close> for the exceptions the \<^verbatim>\<open>try\<close> block can raise.\<close>

fun str_error :: "error \<Rightarrow> string" where
  "str_error (KeyError k) = [CHR 0x27] @ k @ [CHR 0x27]"
| "str_error ValueError = ''list.remove(x): x not in list''"
| "str_error EOFError = ''''"

definition restore :: "ParsedCommand \<Rightarrow> ZorkGame \<Rightarrow> error + ZorkGame" where
  "restore command s =
     bind_err (input ''Restore filename: '' s) (\<lambda>(filename, s1).
       case fs s1 filename of
         None \<Rightarrow> Inr (print ''Restore failed. File not found.'' s1)
       | Some (Unreadable msg) \<Rightarrow> Inr (print (''Restore failed: '' @ msg) s1)
       | Some (NotJson msg) \<Rightarrow> Inr (print (''Restore failed: '' @ msg) s1)
       | Some (Json d) \<Rightarrow>
           (case restore_data d s1 of
              (Some e, s2) \<Rightarrow> Inr (print (''Restore failed: '' @ str_error e) s2)
            | (None, s2) \<Rightarrow> Inr s2))"

text \<open>\<^verbatim>\<open>ZorkGame._restart\<close>: \<^verbatim>\<open>__init__\<close> again, keeping the name.\<close>

definition restart :: "ParsedCommand \<Rightarrow> ZorkGame \<Rightarrow> error + ZorkGame" where
  "restart command s =
     bind_err (input ''Are you sure you want to restart? '' s) (\<lambda>(response, s1).
       if startswith (lower_str response) ''y''
       then look None (print [] ((init_attributes s1)\<lparr>player_name := player_name s1\<rparr>))
       else Inr s1)"

text \<open>The handlers that only print or set the verbosity.\<close>

definition version :: "ParsedCommand \<Rightarrow> ZorkGame \<Rightarrow> error + ZorkGame" where
  "version command s =
     Inr (print_all
       [''ZORK I: The Great Underground Empire'',
        ''Infocom interactive fiction - a fantasy story'',
        ''Copyright (c) 1981, 1982, 1983 Infocom, Inc. All rights reserved.'',
        ''ZORK is a registered trademark of Infocom, Inc.'',
        ''Revision 88 / Serial number 840726'',
        ''Python implementation by haxorthematrix in 2025''] s)"

definition set_verbose :: "ParsedCommand \<Rightarrow> ZorkGame \<Rightarrow> error + ZorkGame" where
  "set_verbose command s = Inr (print ''Maximum verbosity.'' (s\<lparr>verbose := True\<rparr>))"

definition set_brief :: "ParsedCommand \<Rightarrow> ZorkGame \<Rightarrow> error + ZorkGame" where
  "set_brief command s = Inr (print ''Brief descriptions.'' (s\<lparr>verbose := False\<rparr>))"

definition wait :: "ParsedCommand \<Rightarrow> ZorkGame \<Rightarrow> error + ZorkGame" where
  "wait command s = Inr (print ''Time passes...'' s)"

definition diagnose :: "ParsedCommand \<Rightarrow> ZorkGame \<Rightarrow> error + ZorkGame" where
  "diagnose command s =
     (if deaths s = 0 then Inr (print ''You are in perfect health.'' s)
      else Inr (print (''You have died '' @ str_int (deaths s)
                       @ '' times. You are in decent health.'') s))"

section \<open>Random events, the dispatcher and one turn of the main loop\<close>

text \<open>
  \<^verbatim>\<open>ZorkGame._check_random_events\<close>. The draws are taken only where the short-circuit
  conditions of the source reach them; \<^verbatim>\<open>random.choice\<close> takes one draw as an index.
\<close>

fun carried_treasures :: "ZorkGame \<Rightarrow> string list \<Rightarrow> error + string list" where
  "carried_treasures s [] = Inr []"
| "carried_treasures s (obj_id # rest) =
     bind_err (get_object s obj_id) (\<lambda>obj.
     bind_err (carried_treasures s rest) (\<lambda>found.
       Inr (if has_flag obj OF_TREASURE then obj_id # found else found)))"

definition thief_steals :: "ZorkGame \<Rightarrow> error + ZorkGame" where
  "thief_steals s =
     (let (r, s1) = randint 1 100 s
      in if r \<le> 20 then
           bind_err (carried_treasures s1 (player_inventory s1)) (\<lambda>treasures.
             if treasures \<noteq> [] then
               (let stolen = treasures ! (rng s1 (rng_pos s1) mod length treasures);
                    s2 = s1\<lparr>rng_pos := rng_pos s1 + 1\<rparr>
                in bind_err (inventory_remove stolen s2) (\<lambda>s3.
                   bind_err (get_object s3 stolen) (\<lambda>obj.
                     Inr (print (''The thief deftly relieves you of the '' @ o_name obj @ ''.'') s3))))
             else Inr s1)
         else Inr s1)"

definition thief_leaves :: "ZorkGame \<Rightarrow> error + ZorkGame" where
  "thief_leaves s =
     (if thief_here s then
        (let (r, s1) = randint 1 100 s
         in if r \<le> 30 then
              bind_err (get_actor s1 ''thief'') (\<lambda>thief.
                Inr (print ([CHR 0x0A] @ ''The thief vanishes into the gloom.'')
                      (put_actor ''thief'' (thief\<lparr>a_location := None\<rparr>)
                        (s1\<lparr>thief_here := False\<rparr>))))
            else Inr s1)
      else Inr s)"

definition thief_event :: "ZorkGame \<Rightarrow> error + ZorkGame" where
  "thief_event s =
     (if \<not> thief_here s then
        bind_err (get_room s (current_room s)) (\<lambda>room.
          if \<not> room_has_flag room RF_LIT \<and> \<not> room_has_flag room RF_NOPIRATE then
            (let (r, s1) = randint 1 100 s
             in if r \<le> 5 then
                  bind_err (get_actor s1 ''thief'') (\<lambda>thief.
                    thief_steals
                      (print ([CHR 0x0A] @ ''Someone carrying a large bag just wandered through the room.'')
                        (put_actor ''thief'' (thief\<lparr>a_location := Some (current_room s1)\<rparr>)
                          (s1\<lparr>thief_here := True\<rparr>))))
                else thief_leaves s1)
          else thief_leaves s)
      else thief_leaves s)"

definition bat_event :: "ZorkGame \<Rightarrow> error + ZorkGame" where
  "bat_event s =
     (if current_room s = ''bat_room'' then
        bind_err (get_actor s ''bat'') (\<lambda>bat.
          if a_active bat \<and> ''garlic'' \<in> set (player_inventory s) then
            bind_err (get_message bat ''garlic'') (\<lambda>m.
              Inr (put_actor ''bat'' (bat\<lparr>a_active := False, a_location := None\<rparr>)
                    (print ([CHR 0x0A] @ m) s)))
          else Inr s)
      else Inr s)"

definition cyclops_event :: "ZorkGame \<Rightarrow> error + ZorkGame" where
  "cyclops_event s =
     (if current_room s = ''cyclops_room'' then
        bind_err (get_actor s ''cyclops'') (\<lambda>cyclops. Inr s)
      else Inr s)"

definition check_random_events :: "ZorkGame \<Rightarrow> error + ZorkGame" where
  "check_random_events s =
     bind_err (thief_event s) (\<lambda>s1. bind_err (bat_event s1) cyclops_event)"

text \<open>
  The table of handlers in \<^verbatim>\<open>_execute_command\<close>. Verbs of the enumeration that the table
  does not list have no handler.
\<close>

fun handlers :: "VerbType \<Rightarrow> (ParsedCommand \<Rightarrow> ZorkGame \<Rightarrow> error + ZorkGame) option" where
  "handlers V_LOOK = Some (\<lambda>command. look (Some command))"
| "handlers V_EXAMINE = Some examine"
| "handlers V_TAKE = Some take"
| "handlers V_DROP = Some drop_obj"
| "handlers V_INVENTORY = Some inventory"
| "handlers V_OPEN = Some open_obj"
| "handlers V_CLOSE = Some close_obj"
| "handlers V_READ = Some read_obj"
| "handlers V_TURN_ON = Some turn_on"
| "handlers V_TURN_OFF = Some turn_off"
| "handlers V_MOVE = Some move"
| "handlers V_PUSH = Some push"
| "handlers V_ATTACK = Some attack"
| "handlers V_EAT = Some eat"
| "handlers V_DRINK = Some drink"
| "handlers V_QUIT = Some quit"
| "handlers V_SAVE = Some save"
| "handlers V_RESTORE = Some restore"
| "handlers V_RESTART = Some restart"
| "handlers V_SCORE = Some show_score"
| "handlers V_VERSION = Some version"
| "handlers V_VERBOSE = Some set_verbose"
| "handlers V_BRIEF = Some set_brief"
| "handlers V_WAIT = Some wait"
| "handlers V_DIAGNOSE = Some diagnose"
| "handlers V_GIVE = Some give"
| "handlers V_UNLOCK = Some unlock"
| "handlers V_LOCK = Some lock"
| "handlers V_TIE = Some tie"
| "handlers V_UNTIE = Some untie"
| "handlers V_BURN = Some burn"
| "handlers V_EXTINGUISH = Some extinguish"
| "handlers V_RING = Some ring"
| "handlers V_WIND = Some wind"
| "handlers V_DIG = Some dig"
| "handlers V_FILL = Some fill"
| "handlers V_POUR = Some pour"
| "handlers V_PRAY = Some pray"
| "handlers V_WAVE = Some wave"
| "handlers V_RAISE = Some raise_obj"
| "handlers V_LOWER = Some lower"
| "handlers V_CLIMB = Some climb"
| "handlers V_JUMP = Some jump"
| "handlers V_BREAK = Some break_obj"
| "handlers _ = None"

text \<open>\<^verbatim>\<open>ZorkGame._execute_command\<close>.\<close>

definition execute_command :: "ParsedCommand \<Rightarrow> ZorkGame \<Rightarrow> error + ZorkGame" where
  "execute_command command s =
     (case direction command of
        Some dir \<Rightarrow> go dir s
      | None \<Rightarrow>
          (case verb command of
             None \<Rightarrow> Inr (print ''I don't understand that.'' s)
           | Some v \<Rightarrow>
               (case handlers v of
                  Some handler \<Rightarrow> handler command s
                | None \<Rightarrow> Inr (print ''I don't know how to do that.'' s))))"

text \<open>
  The lamp bookkeeping at the end of every turn of the loop in \<^verbatim>\<open>start\<close>.
\<close>

definition update_lamp :: "ZorkGame \<Rightarrow> error + ZorkGame" where
  "update_lamp s =
     (if lamp_on s then
        (let s1 = s\<lparr>lamp_life := lamp_life s - 1\<rparr>
         in if lamp_life s1 = 30 then Inr (print ''Your lamp is getting dim.'' s1)
            else if lamp_life s1 = 0 then
              (let s2 = (print ''Your lamp has run out of power.'' s1)\<lparr>lamp_on := False\<rparr>
               in bind_err (get_object s2 ''lamp'') (\<lambda>lamp.
                    check_light
                      (put_object ''lamp''
                         (set_flag (set_flag lamp OF_LIGHT False) OF_TURNEDON False) s2)))
            else Inr s1)
      else Inr s)"

text \<open>
  One pass through the body of the \<^verbatim>\<open>while\<close> loop of \<^verbatim>\<open>start\<close>: the random events, one line
  of input, the command, the move counter and the lamp. An \<^verbatim>\<open>EOFError\<close> ends the game; it
  can only come from an \<^verbatim>\<open>input\<close> call, and the handlers that ask a question do so before
  they change anything, so the state it leaves is the one before the call. Any other
  exception leaves the loop and the program.
\<close>

definition turn :: "ZorkGame \<Rightarrow> error + ZorkGame" where
  "turn s =
     bind_err (check_random_events s) (\<lambda>s1.
       case input ''> '' s1 of
         Inl e \<Rightarrow> Inr (s1\<lparr>game_over := True\<rparr>)
       | Inr (line, s2) \<Rightarrow>
           (let user_input = lower_str (strip line)
            in if user_input = [] then Inr s2
               else
                 (case execute_command (parse_command s2 user_input) s2 of
                    Inl EOFError \<Rightarrow> Inr (s2\<lparr>game_over := True\<rparr>)
                  | Inl e \<Rightarrow> Inl e
                  | Inr s3 \<Rightarrow> update_lamp (s3\<lparr>moves := moves s3 + 1\<rparr>))))"

section \<open>Commands and states used in the examples\<close>

text \<open>A parsed command with a verb and a direct object, as \<^verbatim>\<open>_parse_command\<close> builds it.\<close>

definition command_on :: "VerbType \<Rightarrow> string \<Rightarrow> ParsedCommand" where
  "command_on v obj_id = \<lparr>verb = Some v, direct_object = Some obj_id, indirect_object = None,
                          direction = None, raw_input = []\<rparr>"

text \<open>Handlers run one after the other; an exception ends the run.\<close>

fun run :: "(ZorkGame \<Rightarrow> error + ZorkGame) list \<Rightarrow> ZorkGame \<Rightarrow> error + ZorkGame" where
  "run [] s = Inr s"
| "run (h # hs) s = bind_err (h s) (run hs)"

text \<open>The player has climbed the tree, where the jewelled egg lies.\<close>

definition up_a_tree :: ZorkGame where
  "up_a_tree = new_game\<lparr>current_room := ''up_tree''\<rparr>"

text \<open>The player has taken the egg (five points) and stands in the living room.\<close>

definition egg_in_hand :: ZorkGame where
  "egg_in_hand =
     (put_object ''jeweled_egg'' (object_jeweled_egg\<lparr>o_location := Some ''player''\<rparr>) new_game)
       \<lparr>current_room := ''living_room'', player_inventory := [''jeweled_egg''], score := 5\<rparr>"





text \<open>
  The leaves have been moved, so the grating lies in the clearing; the player stands there
  and carries the skeleton key.
\<close>

definition key_at_grating :: ZorkGame where
  "key_at_grating =
     (put_object ''skeleton_key'' (object_skeleton_key\<lparr>o_location := Some ''player''\<rparr>)
        (put_object ''grating'' (object_grating\<lparr>o_location := Some ''clearing''\<rparr>) new_game))
       \<lparr>current_room := ''clearing'', player_inventory := [''skeleton_key'']\<rparr>"

text \<open>
  The player carries the lunch at the falls and is about to answer two prompts for a file
  name with the same name.
\<close>

definition lunch_at_falls :: ZorkGame where
  "lunch_at_falls =
     (put_object ''lunch'' (object_lunch\<lparr>o_location := Some ''player''\<rparr>) new_game)
       \<lparr>current_room := ''aragain_falls'', player_inventory := [''lunch''],
        stdin := [''falls.sav'', ''falls.sav'']\<rparr>"

section \<open>Facts about the handlers\<close>

lemma map_of_update [simp]: "map_of (AList.update k v al) = (map_of al)(k \<mapsto> v)"
  by (rule AList.update_conv')

lemma take_treasure:
  assumes c: "direct_object c = Some oid" "oid \<noteq> []"
    and a: "map_of (actors s) oid = None"
    and o: "map_of (objects s) oid = Some obj"
    and f: "has_flag obj OF_TAKEABLE" "has_flag obj OF_TREASURE"
    and i: "oid \<notin> set (player_inventory s)" "length (player_inventory s) < 7"
    and l: "\<forall>loc container. o_location obj = Some loc \<longrightarrow> map_of (objects s) loc = Some container \<longrightarrow>
              has_flag container OF_CONTAINER \<longrightarrow>
              has_flag container OF_OPEN \<or> has_flag container OF_TRANSPARENT"
  shows "take c s = Inr ((print ''Taken.''
           (put_object oid (obj\<lparr>o_location := Some ''player''\<rparr>)
             (s\<lparr>player_inventory := player_inventory s @ [oid]\<rparr>)))
           \<lparr>score := score s + o_value obj\<rparr>)"
  using assms
  by (auto simp: take_def with_object_def bind_err_def get_object_def Let_def has_flag_def
      print_def put_object_def split: option.splits)

lemma drop_elsewhere:
  assumes c: "direct_object c = Some oid" "oid \<noteq> []"
    and o: "map_of (objects s) oid = Some obj"
    and i: "oid \<in> set (player_inventory s)"
    and r: "current_room s \<noteq> ''living_room''"
  shows "drop_obj c s = Inr (print ''Dropped.''
           (put_object oid (obj\<lparr>o_location := Some (current_room s)\<rparr>)
             (s\<lparr>player_inventory := remove1 oid (player_inventory s)\<rparr>)))"
  using assms
  by (auto simp: drop_obj_def with_object_def bind_err_def get_object_def Let_def
      inventory_remove_def print_def put_object_def split: option.splits)

lemma drop_deposit:
  assumes c: "direct_object c = Some oid" "oid \<noteq> []"
    and o: "map_of (objects s) oid = Some obj"
    and i: "oid \<in> set (player_inventory s)"
    and r: "current_room s = ''living_room''"
    and k: "map_of (objects s) ''case'' = Some trophy_case" "oid \<noteq> ''case''"
    and f: "has_flag trophy_case OF_OPEN" "has_flag obj OF_TREASURE"
  shows "drop_obj c s = Inr ((print (''The '' @ o_name obj @ '' is now in the trophy case.'')
           ((put_object oid (obj\<lparr>o_location := Some ''case''\<rparr>)
              (print ''Dropped.''
                (put_object oid (obj\<lparr>o_location := Some ''living_room''\<rparr>)
                  (s\<lparr>player_inventory := remove1 oid (player_inventory s)\<rparr>))))
            \<lparr>treasures_deposited := treasures_deposited s + 1\<rparr>))
           \<lparr>score := score s + o_value obj\<rparr>)"
  using assms
  by (auto simp: drop_obj_def with_object_def bind_err_def get_object_def Let_def has_flag_def
      inventory_remove_def print_def put_object_def split: option.splits)

lemma has_flag_location: "has_flag (obj\<lparr>o_location := l\<rparr>) f = has_flag obj f"
  by (simp add: has_flag_def)

lemma egg_facts:
  "has_flag object_jeweled_egg OF_TAKEABLE" "has_flag object_jeweled_egg OF_TREASURE"
  "o_value object_jeweled_egg = 5" "o_location object_jeweled_egg = Some ''up_tree''"
  by (simp_all add: object_jeweled_egg_def has_flag_def)

lemma case_facts:
  "has_flag object_case OF_OPEN" "has_flag object_case OF_CONTAINER"
  by (simp_all add: object_case_def has_flag_def)

lemma up_a_tree_facts:
  "map_of (objects up_a_tree) ''jeweled_egg'' = Some object_jeweled_egg"
  "map_of (objects up_a_tree) ''up_tree'' = None"
  "map_of (actors up_a_tree) ''jeweled_egg'' = None"
  "player_inventory up_a_tree = []" "current_room up_a_tree = ''up_tree''" "score up_a_tree = 0"
  by (simp_all add: up_a_tree_def new_game_def init_attributes_def init_objects_def
      objects_table_def init_actors_def)

lemma egg_in_hand_facts:
  "map_of (objects egg_in_hand) ''jeweled_egg'' =
     Some (object_jeweled_egg\<lparr>o_location := Some ''player''\<rparr>)"
  "map_of (objects egg_in_hand) ''case'' = Some object_case"
  "map_of (actors egg_in_hand) ''jeweled_egg'' = None"
  "player_inventory egg_in_hand = [''jeweled_egg'']" "current_room egg_in_hand = ''living_room''"
  "score egg_in_hand = 5" "treasures_deposited egg_in_hand = 0"
  by (simp_all add: egg_in_hand_def put_object_def new_game_def init_attributes_def
      init_objects_def objects_table_def init_actors_def)


lemma direction_of_light: "dict_literal direction_map ''light'' = None"
  by (simp add: dict_literal_def direction_map_def)

lemma verb_of_light: "dict_literal verb_map ''light'' = Some V_BURN"
  by (simp add: dict_literal_def verb_map_def)

section \<open>The claims\<close>

subsection \<open>Scoring of treasures\<close>

text \<open>
  C1 (as amended). Every successful take of a treasure adds its value to the score: the
  source has no record of a treasure having been scored. Taking a treasure, dropping it
  outside the living room and taking it again adds the value twice.
\<close>

theorem take_drop_take_adds_value_twice:
  assumes c: "direct_object c1 = Some oid" "direct_object c2 = Some oid"
             "direct_object c3 = Some oid" "oid \<noteq> []"
    and a: "map_of (actors s) oid = None"
    and o: "map_of (objects s) oid = Some obj"
    and f: "has_flag obj OF_TAKEABLE" "has_flag obj OF_TREASURE"
    and i: "oid \<notin> set (player_inventory s)" "length (player_inventory s) < 7"
    and l: "\<forall>loc container. o_location obj = Some loc \<longrightarrow>
              map_of (objects s) loc = Some container \<longrightarrow> has_flag container OF_CONTAINER \<longrightarrow>
              has_flag container OF_OPEN \<or> has_flag container OF_TRANSPARENT"
    and r: "current_room s \<noteq> ''living_room''" "map_of (objects s) (current_room s) = None"
  shows "\<exists>s1 s2 s3.
           take c1 s = Inr s1 \<and> score s1 = score s + o_value obj \<and>
           drop_obj c2 s1 = Inr s2 \<and> score s2 = score s1 \<and>
           o_location (the (map_of (objects s2) oid)) = Some (current_room s) \<and>
           oid \<notin> set (player_inventory s2) \<and>
           take c3 s2 = Inr s3 \<and> score s3 = score s + 2 * o_value obj"
proof -
  define s1 where "s1 = (print ''Taken.''
           (put_object oid (obj\<lparr>o_location := Some ''player''\<rparr>)
             (s\<lparr>player_inventory := player_inventory s @ [oid]\<rparr>)))
           \<lparr>score := score s + o_value obj\<rparr>"
  define obj1 where "obj1 = obj\<lparr>o_location := Some ''player''\<rparr>"
  define s2 where "s2 = print ''Dropped.''
           (put_object oid (obj1\<lparr>o_location := Some (current_room s1)\<rparr>)
             (s1\<lparr>player_inventory := remove1 oid (player_inventory s1)\<rparr>))"
  define obj2 where "obj2 = obj1\<lparr>o_location := Some (current_room s1)\<rparr>"
  have t1: "take c1 s = Inr s1"
    unfolding s1_def using c(1,4) a o f i l by (rule take_treasure)
  have f1: "map_of (objects s1) oid = Some obj1" "oid \<in> set (player_inventory s1)"
    "current_room s1 = current_room s" "score s1 = score s + o_value obj"
    "map_of (actors s1) oid = None"
    using a by (simp_all add: s1_def obj1_def print_def put_object_def)
  have d: "drop_obj c2 s1 = Inr s2"
    unfolding s2_def using c(2,4) f1(1,2) r(1) f1(3) by (simp add: drop_elsewhere)
  have inv2: "player_inventory s2 = player_inventory s"
    using i(1) by (simp add: s2_def s1_def print_def put_object_def remove1_append)
  have f2: "map_of (objects s2) oid = Some obj2" "score s2 = score s1"
    "map_of (actors s2) oid = None" "map_of (objects s2) (current_room s) = None"
    using a r(2) o by (auto simp: s2_def s1_def obj2_def print_def put_object_def)
  have g2: "has_flag obj2 OF_TAKEABLE" "has_flag obj2 OF_TREASURE" "o_value obj2 = o_value obj"
    "o_location obj2 = Some (current_room s)"
    using f f1(3) by (simp_all add: obj2_def obj1_def has_flag_def)
  have t3: "take c3 s2 = Inr ((print ''Taken.''
           (put_object oid (obj2\<lparr>o_location := Some ''player''\<rparr>)
             (s2\<lparr>player_inventory := player_inventory s2 @ [oid]\<rparr>)))
           \<lparr>score := score s2 + o_value obj2\<rparr>)"
    using c(3,4) f2(3) f2(1) g2(1,2) i inv2 f2(4) g2(4)
    by (intro take_treasure) auto
  show ?thesis
    using t1 d t3 f1(4) f2(1,2) g2(3,4) inv2 i(1) by simp
qed

text \<open>The theorem at the egg in the tree: five points, then ten.\<close>

theorem take_drop_take_adds_value_twice_witness:
  "\<exists>s1 s2 s3.
     take (command_on V_TAKE ''jeweled_egg'') up_a_tree = Inr s1 \<and> score s1 = 5 \<and>
     drop_obj (command_on V_DROP ''jeweled_egg'') s1 = Inr s2 \<and> score s2 = 5 \<and>
     take (command_on V_TAKE ''jeweled_egg'') s2 = Inr s3 \<and> score s3 = 10"
proof -
  have "\<exists>s1 s2 s3.
     take (command_on V_TAKE ''jeweled_egg'') up_a_tree = Inr s1 \<and>
     score s1 = score up_a_tree + o_value object_jeweled_egg \<and>
     drop_obj (command_on V_DROP ''jeweled_egg'') s1 = Inr s2 \<and> score s2 = score s1 \<and>
     o_location (the (map_of (objects s2) ''jeweled_egg'')) = Some (current_room up_a_tree) \<and>
     ''jeweled_egg'' \<notin> set (player_inventory s2) \<and>
     take (command_on V_TAKE ''jeweled_egg'') s2 = Inr s3 \<and>
     score s3 = score up_a_tree + 2 * o_value object_jeweled_egg"
    by (rule take_drop_take_adds_value_twice)
       (simp_all add: command_on_def up_a_tree_facts egg_facts)
  then obtain s1 s2 s3 where p:
     "take (command_on V_TAKE ''jeweled_egg'') up_a_tree = Inr s1"
     "score s1 = score up_a_tree + o_value object_jeweled_egg"
     "drop_obj (command_on V_DROP ''jeweled_egg'') s1 = Inr s2" "score s2 = score s1"
     "take (command_on V_TAKE ''jeweled_egg'') s2 = Inr s3"
     "score s3 = score up_a_tree + 2 * o_value object_jeweled_egg"
    by blast
  have "score s1 = 5" "score s2 = 5" "score s3 = 10"
    using p(2,4,6) by (simp_all add: up_a_tree_facts egg_facts)
  with p(1,3,5) show ?thesis by blast
qed

text \<open>
  C1 as stated fails: after take, drop, take of the egg the score is ten, not the five
  that a single award of its value would give.
\<close>

theorem second_take_scores_again:
  "map_sum id score
     (run [take (command_on V_TAKE ''jeweled_egg''), drop_obj (command_on V_DROP ''jeweled_egg''),
           take (command_on V_TAKE ''jeweled_egg'')] up_a_tree) = Inr 10 \<and>
   score up_a_tree + o_value object_jeweled_egg = 5"
proof -
  obtain s1 s2 s3 where
    "take (command_on V_TAKE ''jeweled_egg'') up_a_tree = Inr s1"
    "drop_obj (command_on V_DROP ''jeweled_egg'') s1 = Inr s2"
    "take (command_on V_TAKE ''jeweled_egg'') s2 = Inr s3" "score s3 = 10"
    using take_drop_take_adds_value_twice_witness by blast
  then show ?thesis
    by (simp add: bind_err_def up_a_tree_facts egg_facts)
qed

text \<open>
  C2 (as amended). Every drop of a treasure in the living room while the trophy case is
  open puts it into the case, adds one to the counter of deposited treasures and adds its
  value to the score. A treasure that is deposited, taken back out of the case and
  deposited again is counted twice, and the take in between scores once more.
\<close>

theorem every_deposit_counts:
  assumes c: "direct_object c1 = Some oid" "direct_object c2 = Some oid"
             "direct_object c3 = Some oid" "oid \<noteq> []" "oid \<noteq> ''case''"
    and a: "map_of (actors s) oid = None"
    and o: "map_of (objects s) oid = Some obj"
    and k: "map_of (objects s) ''case'' = Some trophy_case"
    and f: "has_flag obj OF_TAKEABLE" "has_flag obj OF_TREASURE" "has_flag trophy_case OF_OPEN"
    and i: "oid \<in> set (player_inventory s)" "distinct (player_inventory s)"
           "length (player_inventory s) \<le> 7"
    and r: "current_room s = ''living_room''"
  shows "\<exists>s1 s2 s3.
           drop_obj c1 s = Inr s1 \<and> score s1 = score s + o_value obj \<and>
           treasures_deposited s1 = treasures_deposited s + 1 \<and>
           o_location (the (map_of (objects s1) oid)) = Some ''case'' \<and>
           take c2 s1 = Inr s2 \<and> score s2 = score s + 2 * o_value obj \<and>
           treasures_deposited s2 = treasures_deposited s + 1 \<and>
           drop_obj c3 s2 = Inr s3 \<and> score s3 = score s + 3 * o_value obj \<and>
           treasures_deposited s3 = treasures_deposited s + 2"
proof -
  define obj1 where "obj1 = obj\<lparr>o_location := Some ''case''\<rparr>"
  define s1 where "s1 = (print (''The '' @ o_name obj @ '' is now in the trophy case.'')
           ((put_object oid obj1
              (print ''Dropped.''
                (put_object oid (obj\<lparr>o_location := Some ''living_room''\<rparr>)
                  (s\<lparr>player_inventory := remove1 oid (player_inventory s)\<rparr>))))
            \<lparr>treasures_deposited := treasures_deposited s + 1\<rparr>))
           \<lparr>score := score s + o_value obj\<rparr>"
  define obj2 where "obj2 = obj1\<lparr>o_location := Some ''player''\<rparr>"
  define s2 where "s2 = (print ''Taken.''
           (put_object oid obj2 (s1\<lparr>player_inventory := player_inventory s1 @ [oid]\<rparr>)))
           \<lparr>score := score s1 + o_value obj1\<rparr>"
  have d1: "drop_obj c1 s = Inr s1"
    unfolding s1_def obj1_def using c(1,4) o i(1) r k c(5) f(3,2) by (rule drop_deposit)
  have f1: "map_of (objects s1) oid = Some obj1" "map_of (objects s1) ''case'' = Some trophy_case"
    "map_of (actors s1) oid = None" "current_room s1 = ''living_room''"
    "score s1 = score s + o_value obj" "treasures_deposited s1 = treasures_deposited s + 1"
    "player_inventory s1 = remove1 oid (player_inventory s)"
    using a k c(5) r by (simp_all add: s1_def print_def put_object_def)
  have g1: "has_flag obj1 OF_TAKEABLE" "has_flag obj1 OF_TREASURE" "o_value obj1 = o_value obj"
    "o_location obj1 = Some ''case''"
    using f by (simp_all add: obj1_def has_flag_def)
  have i1: "oid \<notin> set (player_inventory s1)" "length (player_inventory s1) < 7"
    using i by (simp_all add: f1(7) length_remove1)
  have t2: "take c2 s1 = Inr s2"
    unfolding s2_def obj2_def using c(2,4) f1(3,1) g1(1,2) i1 f1(2) g1(4) f(3)
    by (intro take_treasure) auto
  have f2: "map_of (objects s2) oid = Some obj2" "map_of (objects s2) ''case'' = Some trophy_case"
    "current_room s2 = ''living_room''" "oid \<in> set (player_inventory s2)"
    "score s2 = score s + 2 * o_value obj" "treasures_deposited s2 = treasures_deposited s + 1"
    using f1 g1(3) c(5) by (simp_all add: s2_def print_def put_object_def)
  have g2: "has_flag obj2 OF_TREASURE" "o_value obj2 = o_value obj"
    using g1 by (simp_all add: obj2_def has_flag_def)
  have d3: "drop_obj c3 s2 = Inr ((print (''The '' @ o_name obj2 @ '' is now in the trophy case.'')
           ((put_object oid (obj2\<lparr>o_location := Some ''case''\<rparr>)
              (print ''Dropped.''
                (put_object oid (obj2\<lparr>o_location := Some ''living_room''\<rparr>)
                  (s2\<lparr>player_inventory := remove1 oid (player_inventory s2)\<rparr>))))
            \<lparr>treasures_deposited := treasures_deposited s2 + 1\<rparr>))
           \<lparr>score := score s2 + o_value obj2\<rparr>)"
    using c(3,4) f2(1,4,3,2) c(5) f(3) g2(1) by (rule drop_deposit)
  show ?thesis
    using d1 t2 d3 f1(1,5,6) g1(4) f2(5,6) g2(2) by (simp add: print_def put_object_def)
qed

text \<open>The theorem at the egg carried into the living room: 5, then 10, 15 and 20 points.\<close>

theorem every_deposit_counts_witness:
  "\<exists>s1 s2 s3.
     drop_obj (command_on V_DROP ''jeweled_egg'') egg_in_hand = Inr s1 \<and> score s1 = 10 \<and>
     treasures_deposited s1 = 1 \<and>
     take (command_on V_TAKE ''jeweled_egg'') s1 = Inr s2 \<and> score s2 = 15 \<and>
     drop_obj (command_on V_DROP ''jeweled_egg'') s2 = Inr s3 \<and> score s3 = 20 \<and>
     treasures_deposited s3 = 2"
proof -
  let ?egg = "object_jeweled_egg\<lparr>o_location := Some ''player''\<rparr>"
  have "\<exists>s1 s2 s3.
     drop_obj (command_on V_DROP ''jeweled_egg'') egg_in_hand = Inr s1 \<and>
     score s1 = score egg_in_hand + o_value ?egg \<and>
     treasures_deposited s1 = treasures_deposited egg_in_hand + 1 \<and>
     o_location (the (map_of (objects s1) ''jeweled_egg'')) = Some ''case'' \<and>
     take (command_on V_TAKE ''jeweled_egg'') s1 = Inr s2 \<and>
     score s2 = score egg_in_hand + 2 * o_value ?egg \<and>
     treasures_deposited s2 = treasures_deposited egg_in_hand + 1 \<and>
     drop_obj (command_on V_DROP ''jeweled_egg'') s2 = Inr s3 \<and>
     score s3 = score egg_in_hand + 3 * o_value ?egg \<and>
     treasures_deposited s3 = treasures_deposited egg_in_hand + 2"
    by (rule every_deposit_counts [where trophy_case = object_case])
       (simp_all add: command_on_def egg_in_hand_facts egg_facts case_facts has_flag_location)
  then obtain s1 s2 s3 where p:
     "drop_obj (command_on V_DROP ''jeweled_egg'') egg_in_hand = Inr s1"
     "score s1 = score egg_in_hand + o_value ?egg"
     "treasures_deposited s1 = treasures_deposited egg_in_hand + 1"
     "take (command_on V_TAKE ''jeweled_egg'') s1 = Inr s2"
     "score s2 = score egg_in_hand + 2 * o_value ?egg"
     "drop_obj (command_on V_DROP ''jeweled_egg'') s2 = Inr s3"
     "score s3 = score egg_in_hand + 3 * o_value ?egg"
     "treasures_deposited s3 = treasures_deposited egg_in_hand + 2"
    by blast
  have "score s1 = 10" "treasures_deposited s1 = 1" "score s2 = 15" "score s3 = 20"
       "treasures_deposited s3 = 2"
    using p(2,3,5,7,8) by (simp_all add: egg_in_hand_facts egg_facts)
  with p(1,4,6) show ?thesis by blast
qed

text \<open>
  C2 as stated fails: the egg is worth five points, and depositing it, taking it back and
  depositing it again adds fifteen points and counts two deposits.
\<close>

theorem second_deposit_counts_again:
  "map_sum id (\<lambda>s. (score s, treasures_deposited s))
     (run [drop_obj (command_on V_DROP ''jeweled_egg''), take (command_on V_TAKE ''jeweled_egg''),
           drop_obj (command_on V_DROP ''jeweled_egg'')] egg_in_hand) = Inr (20, 2) \<and>
   score egg_in_hand = 5 \<and> treasures_deposited egg_in_hand = 0 \<and>
   o_value object_jeweled_egg = 5"
proof -
  obtain s1 s2 s3 where
    "drop_obj (command_on V_DROP ''jeweled_egg'') egg_in_hand = Inr s1"
    "take (command_on V_TAKE ''jeweled_egg'') s1 = Inr s2"
    "drop_obj (command_on V_DROP ''jeweled_egg'') s2 = Inr s3"
    "score s3 = 20" "treasures_deposited s3 = 2"
    using every_deposit_counts_witness by blast
  then show ?thesis
    by (simp add: bind_err_def egg_in_hand_facts egg_facts)
qed

subsection \<open>The room graph\<close>

text \<open>
  C5 fails at the seed data. The stream room has an exit to the west whose target,
  \<^verbatim>\<open>sluice_gate\<close>, is not a room (the source marks the exit "only when dam open" and never
  defines the room), and it is no self-reference. Going west from the stream sets the
  current room to the missing identifier and the darkness check raises \<^verbatim>\<open>KeyError\<close>.
\<close>

theorem stream_west_is_dangling:
  "map_of (rooms new_game) ''stream'' = Some room_stream \<and>
   map_of (r_exits room_stream) WEST = Some ''sluice_gate'' \<and>
   map_of (rooms new_game) ''sluice_gate'' = None \<and>
   go WEST (new_game\<lparr>current_room := ''stream''\<rparr>) = Inl (KeyError ''sluice_gate'')"
proof -
  have a: "map_of (rooms new_game) ''stream'' = Some room_stream"
    by (simp add: new_game_def init_attributes_def init_rooms_def)
  have b: "map_of (r_exits room_stream) WEST = Some ''sluice_gate''"
    by (simp add: room_stream_def)
  have c: "map_of (rooms new_game) ''sluice_gate'' = None"
    by (simp add: new_game_def init_attributes_def init_rooms_def)
  have r: "rooms (new_game\<lparr>current_room := ''stream''\<rparr>) = rooms new_game"
          "rooms (new_game\<lparr>current_room := ''sluice_gate''\<rparr>) = rooms new_game" by simp_all
  have d: "go WEST (new_game\<lparr>current_room := ''stream''\<rparr>) = Inl (KeyError ''sluice_gate'')"
    by (simp add: go_def go_cyclops_def go_troll_def go_spirits_def go_reservoir_def
        go_rainbow_def go_slide_def go_normal_def enter_room_def check_light_def get_room_def
        bind_err_def r a b c)
  show ?thesis using a b c d by simp
qed

subsection \<open>Visibility\<close>

text \<open>
  C6 (as amended). For an object of the table, \<^verbatim>\<open>_is_visible\<close> holds exactly if the object
  is carried, or lies in the current room, or its parent is a container that has the
  \<^verbatim>\<open>OPEN\<close> or the \<^verbatim>\<open>TRANSPARENT\<close> bit and itself lies in the current room or is carried.
  The \<^verbatim>\<open>CLOSED\<close> bit plays no part: an object that is not carried and whose container has
  neither \<^verbatim>\<open>OPEN\<close> nor \<^verbatim>\<open>TRANSPARENT\<close> is invisible, whatever the surroundings of the
  container, and so is an object whose container is neither in the room nor carried, for
  instance a box inside a visible open box: the lookup is one hop. The empty string is no
  object identifier.
\<close>

theorem is_visible_iff:
  assumes "map_of (objects s) oid = Some obj" and "map_of (objects s) [] = None"
  shows "(is_visible s oid \<longleftrightarrow>
            oid \<in> set (player_inventory s) \<or>
            o_location obj = Some (current_room s) \<or>
            (\<exists>loc container.
               o_location obj = Some loc \<and> map_of (objects s) loc = Some container \<and>
               has_flag container OF_CONTAINER \<and>
               (o_location container = Some (current_room s) \<or>
                o_id container \<in> set (player_inventory s)) \<and>
               (has_flag container OF_OPEN \<or> has_flag container OF_TRANSPARENT))) \<and>
         (\<forall>loc container.
            oid \<notin> set (player_inventory s) \<and> o_location obj = Some loc \<and>
            loc \<noteq> current_room s \<and> map_of (objects s) loc = Some container \<and>
            \<not> has_flag container OF_OPEN \<and> \<not> has_flag container OF_TRANSPARENT
            \<longrightarrow> \<not> is_visible s oid) \<and>
         (\<forall>loc container.
            oid \<notin> set (player_inventory s) \<and> o_location obj = Some loc \<and>
            loc \<noteq> current_room s \<and> map_of (objects s) loc = Some container \<and>
            o_location container \<noteq> Some (current_room s) \<and>
            o_id container \<notin> set (player_inventory s)
            \<longrightarrow> \<not> is_visible s oid)"
  using assms
  by (cases "o_location obj") (auto simp: is_visible_def split: option.splits)

text \<open>
  The theorem at the start of the game: the mailbox stands in the room and is visible, the
  leaflet inside the closed mailbox is not.
\<close>

theorem is_visible_iff_witness:
  "is_visible new_game ''mailbox'' \<and> \<not> is_visible new_game ''leaflet''"
proof -
  have t: "map_of (objects new_game) ''mailbox'' = Some object_mailbox"
          "map_of (objects new_game) ''leaflet'' = Some object_leaflet"
          "map_of (objects new_game) [] = None"
          "current_room new_game = ''west_of_house''" "player_inventory new_game = []"
    by (simp_all add: new_game_def init_attributes_def init_objects_def objects_table_def)
  have m: "o_location object_mailbox = Some ''west_of_house''"
          "\<not> has_flag object_mailbox OF_OPEN" "\<not> has_flag object_mailbox OF_TRANSPARENT"
          "o_location object_leaflet = Some ''mailbox''"
    by (simp_all add: object_mailbox_def object_leaflet_def has_flag_def)
  have "is_visible new_game ''mailbox''"
    using is_visible_iff [OF t(1) t(3)] t(4) m(1) by simp
  moreover have "\<not> is_visible new_game ''leaflet''"
    using is_visible_iff [OF t(2) t(3)] t m by simp
  ultimately show ?thesis by simp
qed

text \<open>
  C6 as stated fails where it speaks of a closed container. The egg is seeded closed and
  opaque with the canary inside. Breaking the egg sets \<^verbatim>\<open>OPEN\<close> and leaves \<^verbatim>\<open>CLOSED\<close> set,
  and a following \<^verbatim>\<open>close\<close> answers that the egg is closed already and changes nothing.
  The egg is then flagged closed, is not transparent and lies in the room, and the canary,
  which is not carried, is visible.
\<close>

theorem canary_seen_in_closed_egg:
  "map_sum id
     (\<lambda>s. (last (out s),
           map_option (\<lambda>egg. (has_flag egg OF_CLOSED, has_flag egg OF_TRANSPARENT,
                                 has_flag egg OF_CONTAINER, o_location egg))
             (map_of (objects s) ''jeweled_egg''),
           map_option o_location (map_of (objects s) ''golden_canary''),
           ''golden_canary'' \<in> set (player_inventory s),
           current_room s,
           is_visible s ''jeweled_egg'',
           is_visible s ''golden_canary''))
     (run [break_obj (command_on V_BREAK ''jeweled_egg''),
           close_obj (command_on V_CLOSE ''jeweled_egg'')] up_a_tree)
   = Inr (''It's already closed.'',
          Some (True, False, True, Some ''up_tree''),
          Some (Some ''jeweled_egg''),
          False,
          ''up_tree'',
          True,
          True)"
  by (simp add: bind_err_def break_obj_def close_obj_def with_object_def command_on_def
      get_object_def put_object_def print_def set_flag_def has_flag_def is_visible_def
      up_a_tree_def new_game_def init_attributes_def init_objects_def objects_table_def
      object_jeweled_egg_def object_golden_canary_def)

subsection \<open>The verb lexicon\<close>

text \<open>
  C10. The lexicon lists the word "light" twice, first for the turn-on verb and later for
  the burn verb. The dictionary keeps the later entry, so every line whose first word is
  "light" parses to the burn verb, never to the turn-on verb (and not to a direction).
\<close>

theorem light_parses_to_burn:
  "(''light'', V_TURN_ON) \<in> set verb_map \<and> (''light'', V_BURN) \<in> set verb_map \<and>
   dict_literal verb_map ''light'' = Some V_BURN \<and>
   (\<forall>s line rest. split line = ''light'' # rest \<longrightarrow>
      verb (parse_command s line) = Some V_BURN \<and>
      verb (parse_command s line) \<noteq> Some V_TURN_ON \<and>
      direction (parse_command s line) = None)"
proof -
  have a: "(''light'', V_TURN_ON) \<in> set verb_map" by (simp add: verb_map_def)
  have b: "(''light'', V_BURN) \<in> set verb_map" by (simp add: verb_map_def)
  have c: "verb (parse_command s line) = Some V_BURN \<and> direction (parse_command s line) = None"
    if "split line = ''light'' # rest" for s line rest
    using that
    by (simp add: parse_command_def Let_def direction_of_light verb_of_light split_turn_def
        strip_up_def split: prod.splits)
  show ?thesis using a b c verb_of_light by simp
qed

text \<open>The theorem at the line "light lamp" at the start of the game.\<close>

theorem light_parses_to_burn_witness:
  "verb (parse_command new_game ''light lamp'') = Some V_BURN"
proof -
  have "split ''light lamp'' = [''light'', ''lamp'']" by (simp add: split_def is_space_def)
  then show ?thesis using light_parses_to_burn by blast
qed

subsection \<open>Words the parser does not know\<close>




subsection \<open>Restoring a saved game\<close>


text \<open>
  The parts of C4 that hold. A missing file is reported with a message of its own and the
  game is untouched (the prompt and the message are printed, the answer is consumed); so
  it is when the file cannot be read or is not JSON. Attributes read with a default take
  the default when the file lacks them.
\<close>

lemma restore_missing_file:
  assumes "stdin s = filename # rest" and "fs s filename = None"
  shows "restore c s =
           Inr (s\<lparr>out := out s @ [''Restore filename: '', ''Restore failed. File not found.''],
                  stdin := rest\<rparr>)"
  using assms by (simp add: restore_def input_def bind_err_def print_def)

lemma restore_unreadable_file:
  assumes "stdin s = filename # rest"
    and "fs s filename = Some (Unreadable msg) \<or> fs s filename = Some (NotJson msg)"
  shows "restore c s =
           Inr (s\<lparr>out := out s @ [''Restore filename: '', ''Restore failed: '' @ msg],
                  stdin := rest\<rparr>)"
  using assms by (auto simp: restore_def input_def bind_err_def print_def)

lemma restore_defaults:
  "sd_lamp_life d = None \<Longrightarrow> lamp_life (restore_flags d s) = 330"
  "sd_loud_room_level d = None \<Longrightarrow> loud_room_level (restore_flags d s) = 4"
  "sd_treasures_deposited d = None \<Longrightarrow> treasures_deposited (restore_flags d s) = 0"
  "sd_grating_unlocked d = None \<Longrightarrow> grating_unlocked (restore_flags d s) = False"
  "sd_thief_here d = None \<Longrightarrow> thief_here (restore_flags d s) = False"
  by (simp_all add: restore_flags_def)

end
